(* ===== verification/Prelude.thy ===== *)
theory Prelude
  imports Main "HOL-Library.Word" "HOL-Library.Sublist"
begin

text \<open>
  Shared vocabulary of the development: the Python exceptions the handlers of
  \<^verbatim>\<open>src/app.py\<close> can raise, the result type that carries them, the character
  classes of Python's \<^verbatim>\<open>str\<close> methods restricted to the Latin-1 range that
  Isabelle's \<open>char\<close> covers, and the generic lemmas on them that the component
  theories share.  Strings are \<open>char list\<close>s read as Latin-1 code points
  U+0000 to U+00FF.
\<close>

named_theorems py_simps "evaluation rules of the Python primitives"

section \<open>Exceptions and results\<close>

datatype py_exc =
    IndexError
  | KeyError
  | AttributeError
  | TypeError
  | ValueError
  | UnboundLocalError
  | IntegrityError
  | DataError
  | FileNotFoundError
  | UnicodeDecodeError
  | StaleDataError

type_synonym 'a py = "py_exc + 'a"

definition py_bind :: "'a py \<Rightarrow> ('a \<Rightarrow> 'b py) \<Rightarrow> 'b py" where
  "py_bind m f = (case m of Inl e \<Rightarrow> Inl e | Inr a \<Rightarrow> f a)"

lemma py_bind_Inl [simp, py_simps]: "py_bind (Inl e) f = Inl e"
  and py_bind_Inr [simp, py_simps]: "py_bind (Inr a) f = f a"
  by (simp_all add: py_bind_def)

lemma py_bind_eq_Inr [simp]:
  "py_bind m f = Inr b \<longleftrightarrow> (\<exists>a. m = Inr a \<and> f a = Inr b)"
  by (cases m) (simp_all add: py_bind_def)

section \<open>Character classes of Python's str on Latin-1\<close>

text \<open>\<^verbatim>\<open>str.isdigit\<close>/regex \<^verbatim>\<open>\d\<close>: the Unicode decimal digits; in Latin-1 only 0--9.\<close>

definition py_isdigit :: "char \<Rightarrow> bool" where
  "py_isdigit c \<longleftrightarrow> c \<in> set ''0123456789''"

text \<open>
  \<^verbatim>\<open>str.isspace\<close>, used by \<^verbatim>\<open>str.strip()\<close>: in Latin-1 the characters
  U+0009--U+000D, U+001C--U+0020, U+0085 and U+00A0.
\<close>

definition py_isspace :: "char \<Rightarrow> bool" where
  "py_isspace c \<longleftrightarrow>
     (let n = (of_char c :: nat)
      in (9 \<le> n \<and> n \<le> 13) \<or> (28 \<le> n \<and> n \<le> 32) \<or> n = 133 \<or> n = 160)"

definition py_strip :: "string \<Rightarrow> string" where
  "py_strip s = rev (dropWhile py_isspace (rev (dropWhile py_isspace s)))"

text \<open>\<^verbatim>\<open>s.rstrip(c)\<close>: drop every trailing occurrence of \<open>c\<close>.\<close>

definition py_rstrip :: "char \<Rightarrow> string \<Rightarrow> string" where
  "py_rstrip c s = rev (dropWhile (\<lambda>x. x = c) (rev s))"

text \<open>\<^verbatim>\<open>s.replace(c, "")\<close> for a one-character pattern.\<close>

definition py_remove :: "char \<Rightarrow> string \<Rightarrow> string" where
  "py_remove c s = filter (\<lambda>x. x \<noteq> c) s"

text \<open>\<^verbatim>\<open>a in b\<close> on strings: \<open>a\<close> is a contiguous substring of \<open>b\<close>.\<close>

definition py_in :: "string \<Rightarrow> string \<Rightarrow> bool" where
  "py_in a b \<longleftrightarrow> sublist a b"

text \<open>\<^verbatim>\<open>s.split(',')[0]\<close>: everything before the first comma.\<close>

definition py_split_first :: "char \<Rightarrow> string \<Rightarrow> string" where
  "py_split_first c s = takeWhile (\<lambda>x. x \<noteq> c) s"

text \<open>Truthiness of an optional string (a form field or header: \<^verbatim>\<open>None\<close> or \<^verbatim>\<open>""\<close> is falsy).\<close>

definition truthy_opt :: "string option \<Rightarrow> bool" where
  "truthy_opt v \<longleftrightarrow> (case v of None \<Rightarrow> False | Some s \<Rightarrow> s \<noteq> [])"

lemma truthy_opt_simps [simp, py_simps]:
  "truthy_opt None = False"
  "truthy_opt (Some s) \<longleftrightarrow> s \<noteq> []"
  by (simp_all add: truthy_opt_def)

section \<open>Generic lemmas\<close>

text \<open>Evaluation of a computed character against a literal.\<close>

lemma char_of_nat_eq: "char_of (n::nat) = c \<longleftrightarrow> n mod 256 = of_char c"
proof
  assume "char_of n = c"
  then show "n mod 256 = of_char c" by (metis of_char_of)
next
  assume "n mod 256 = of_char c"
  then show "char_of n = c" by (metis char_of_char char_of_mod_256)
qed

lemma char_of_nat_eq': "c = char_of (n::nat) \<longleftrightarrow> n mod 256 = of_char c"
  using char_of_nat_eq [of n c] by auto

lemma py_isdigit_not_space: "py_isdigit c \<Longrightarrow> \<not> py_isspace c"
  by (auto simp: py_isdigit_def py_isspace_def)

lemma py_strip_no_space:
  assumes "\<forall>c \<in> set s. \<not> py_isspace c"
  shows "py_strip s = s"
proof -
  have "dropWhile py_isspace s = s" using assms by (cases s) auto
  moreover have "dropWhile py_isspace (rev s) = rev s" using assms by (cases "rev s") auto
  ultimately show ?thesis by (simp add: py_strip_def)
qed

lemma py_rstrip_idem [simp]: "py_rstrip c (py_rstrip c s) = py_rstrip c s"
proof -
  have "dropWhile (\<lambda>x. x = c) (dropWhile (\<lambda>x. x = c) xs) = dropWhile (\<lambda>x. x = c) xs" for xs :: string
    by (induction xs) auto
  then show ?thesis by (simp add: py_rstrip_def)
qed

end
