(* ===== verification/PyJson.thy ===== *)
theory PyJson
  imports Prelude
begin

text \<open>
  The Python values a webhook body decodes to (\<^verbatim>\<open>request.get_json\<close>) and the
  Python operations \<^verbatim>\<open>whatsapp_webhook\<close> applies to them, each with the exception
  it raises on a value of the wrong shape.  A JSON object is the list of the items
  of the resulting dict in the dict's order, keys distinct (\<^verbatim>\<open>json.loads\<close>
  keeps the last value of a repeated key).  JSON numbers with a fraction or an
  exponent (Python floats) are not modelled; integers are \<open>int\<close>.
\<close>

datatype json =
    JNull
  | JBool bool
  | JInt int
  | JStr string
  | JList "json list"
  | JDict "(string \<times> json) list"

section \<open>Truthiness, isinstance, membership\<close>

fun truthy :: "json \<Rightarrow> bool" where
  "truthy JNull = False"
| "truthy (JBool b) = b"
| "truthy (JInt i) = (i \<noteq> 0)"
| "truthy (JStr s) = (s \<noteq> [])"
| "truthy (JList xs) = (xs \<noteq> [])"
| "truthy (JDict kvs) = (kvs \<noteq> [])"

text \<open>\<^verbatim>\<open>a or b\<close>\<close>

definition py_or :: "json \<Rightarrow> json \<Rightarrow> json" where
  "py_or a b = (if truthy a then a else b)"

fun is_dict :: "json \<Rightarrow> bool" where
  "is_dict (JDict _) = True"
| "is_dict _ = False"

text \<open>\<^verbatim>\<open>k in d\<close> for a dict \<open>d\<close>.\<close>

fun has_key :: "json \<Rightarrow> string \<Rightarrow> bool" where
  "has_key (JDict kvs) k = (k \<in> fst ` set kvs)"
| "has_key _ k = False"

section \<open>Subscription and get\<close>

text \<open>\<^verbatim>\<open>d.get(k, default)\<close>; \<^verbatim>\<open>d.get(k)\<close> is the default \<^verbatim>\<open>None\<close>.  On a non-dict
  the attribute \<^verbatim>\<open>get\<close> does not exist.\<close>

fun py_get :: "json \<Rightarrow> string \<Rightarrow> json \<Rightarrow> json py" where
  "py_get (JDict kvs) k dflt = Inr (case map_of kvs k of None \<Rightarrow> dflt | Some v \<Rightarrow> v)"
| "py_get _ k dflt = Inl AttributeError"

text \<open>\<^verbatim>\<open>x[0]\<close>: a list or a string gives its first element (IndexError when empty);
  a dict has no key \<^verbatim>\<open>0\<close> (JSON keys are strings); other values are not
  subscriptable.\<close>

fun py_index0 :: "json \<Rightarrow> json py" where
  "py_index0 (JList []) = Inl IndexError"
| "py_index0 (JList (x # xs)) = Inr x"
| "py_index0 (JStr []) = Inl IndexError"
| "py_index0 (JStr (c # cs)) = Inr (JStr [c])"
| "py_index0 (JDict kvs) = Inl KeyError"
| "py_index0 _ = Inl TypeError"

text \<open>\<^verbatim>\<open>d[k]\<close> with a string key.\<close>

fun py_getitem :: "json \<Rightarrow> string \<Rightarrow> json py" where
  "py_getitem (JDict kvs) k = (case map_of kvs k of None \<Rightarrow> Inl KeyError | Some v \<Rightarrow> Inr v)"
| "py_getitem _ k = Inl TypeError"

text \<open>\<^verbatim>\<open>v.strip()\<close>: defined on strings only.\<close>

fun py_strip_json :: "json \<Rightarrow> string py" where
  "py_strip_json (JStr s) = Inr (py_strip s)"
| "py_strip_json _ = Inl AttributeError"

section \<open>str() and repr()\<close>

fun dec_nat :: "nat \<Rightarrow> string" where
  "dec_nat n =
     (if n < 10 then [char_of (48 + n)] else dec_nat (n div 10) @ [char_of (48 + n mod 10)])"

declare dec_nat.simps [simp del]

definition dec_int :: "int \<Rightarrow> string" where
  "dec_int i = (if i < 0 then CHR ''-'' # dec_nat (nat (- i)) else dec_nat (nat i))"

definition hex2 :: "char \<Rightarrow> string" where
  "hex2 c = (let n = (of_char c :: nat) in [''0123456789abcdef'' ! (n div 16), ''0123456789abcdef'' ! (n mod 16)])"

text \<open>\<^verbatim>\<open>str.isprintable\<close> on Latin-1: U+0020--U+007E and U+00A1--U+00FF except the
  soft hyphen U+00AD.\<close>

definition py_printable :: "char \<Rightarrow> bool" where
  "py_printable c \<longleftrightarrow> (let n = (of_char c :: nat) in (32 \<le> n \<and> n \<le> 126) \<or> (161 \<le> n \<and> n \<noteq> 173))"

text \<open>One character inside the quotes of \<^verbatim>\<open>repr(s)\<close>, quote character \<open>q\<close>.\<close>

definition repr_char :: "char \<Rightarrow> char \<Rightarrow> string" where
  "repr_char q c =
     (let bs = char_of (92::nat) in
      if c = q \<or> c = bs then [bs, c]
      else if c = char_of (9::nat) then [bs, CHR ''t'']
      else if c = char_of (10::nat) then [bs, CHR ''n'']
      else if c = char_of (13::nat) then [bs, CHR ''r'']
      else if py_printable c then [c]
      else bs # CHR ''x'' # hex2 c)"

definition repr_str :: "string \<Rightarrow> string" where
  "repr_str s =
     (let q = (if CHR 0x27 \<in> set s \<and> CHR 0x22 \<notin> set s then CHR 0x22 else CHR 0x27)
      in q # concat (map (repr_char q) s) @ [q])"

definition join_comma :: "string list \<Rightarrow> string" where
  "join_comma xs = concat (case xs of [] \<Rightarrow> [] | y # ys \<Rightarrow> y # map (\<lambda>z. '', '' @ z) ys)"

fun py_repr :: "json \<Rightarrow> string" where
  "py_repr JNull = ''None''"
| "py_repr (JBool b) = (if b then ''True'' else ''False'')"
| "py_repr (JInt i) = dec_int i"
| "py_repr (JStr s) = repr_str s"
| "py_repr (JList xs) = CHR ''['' # join_comma (map py_repr xs) @ '']''"
| "py_repr (JDict kvs) =
     CHR ''{'' # join_comma (map (\<lambda>(k, v). repr_str k @ '': '' @ py_repr v) kvs) @ ''}''"

text \<open>\<^verbatim>\<open>str(v)\<close>: a string is itself, anything else its repr.\<close>

fun py_str :: "json \<Rightarrow> string" where
  "py_str (JStr s) = s"
| "py_str v = py_repr v"

section \<open>Lemmas\<close>

lemma py_or_truthy [simp]: "truthy a \<Longrightarrow> py_or a b = a"
  and py_or_falsy [simp]: "\<not> truthy a \<Longrightarrow> py_or a b = b"
  by (simp_all add: py_or_def)

lemma py_get_dict_Inr [simp]: "is_dict d \<Longrightarrow> \<exists>v. py_get d k x = Inr v"
  by (cases d) auto

end
