(* ===== verification/Phone.thy ===== *)
theory Phone
  imports Prelude
begin

text \<open>
  Phone-number canonicalisation, \<^verbatim>\<open>limpiar_numero\<close> (src/app.py lines 131--138):
  \<^verbatim>\<open>"+" + re.sub(r"\D", "", unicodedata.normalize("NFKD", str(numero_raw)))\<close>.
  The canonical number is the key of every table of the store.

  NFKD decomposes each character on its own (the canonical reordering that follows
  only permutes combining marks, which are not digits), so the digits of the
  normalised string are the concatenation of the digits of each character's
  decomposition.  \<open>nfkd_digitos\<close> gives them for the Latin-1 range: an ASCII digit
  is kept; the superscripts U+00B2, U+00B3, U+00B9 decompose to 2, 3, 1; the
  vulgar fractions U+00BC, U+00BD, U+00BE to 1/4, 1/2, 3/4 (the fraction slash
  U+2044 is not a digit); every other Latin-1 character decomposes into letters,
  spaces and combining marks only, none of them a decimal digit.
\<close>

definition nfkd_digitos :: "char \<Rightarrow> string" where
  "nfkd_digitos c =
     (if py_isdigit c then [c]
      else let n = (of_char c :: nat) in
        if n = 178 then ''2''
        else if n = 179 then ''3''
        else if n = 185 then ''1''
        else if n = 188 then ''14''
        else if n = 189 then ''12''
        else if n = 190 then ''34''
        else [])"

definition limpiar_numero :: "string \<Rightarrow> string" where
  "limpiar_numero numero_raw = CHR ''+'' # concat (map nfkd_digitos numero_raw)"

text \<open>Canonical numbers: a plus sign followed by ASCII digits only.\<close>

definition canonico :: "string \<Rightarrow> bool" where
  "canonico s \<longleftrightarrow> (case s of [] \<Rightarrow> False | c # ds \<Rightarrow> c = CHR ''+'' \<and> (\<forall>d \<in> set ds. py_isdigit d))"

section \<open>Lemmas\<close>

lemma nfkd_digitos_digits: "d \<in> set (nfkd_digitos c) \<Longrightarrow> py_isdigit d"
  by (auto simp: nfkd_digitos_def Let_def py_isdigit_def split: if_splits)

lemma nfkd_digitos_digit [simp]: "py_isdigit c \<Longrightarrow> nfkd_digitos c = [c]"
  by (simp add: nfkd_digitos_def)

lemma nfkd_digitos_plus [simp]: "nfkd_digitos (CHR ''+'') = []"
  by (simp add: nfkd_digitos_def py_isdigit_def)

lemma concat_nfkd_digits:
  "\<forall>d \<in> set ds. py_isdigit d \<Longrightarrow> concat (map nfkd_digitos ds) = ds"
  by (induction ds) auto

lemma limpiar_numero_canonico: "canonico (limpiar_numero s)"
  by (auto simp: canonico_def limpiar_numero_def dest: nfkd_digitos_digits)

lemma canonico_fixpoint: "canonico s \<Longrightarrow> limpiar_numero s = s"
  by (auto simp: canonico_def limpiar_numero_def concat_nfkd_digits split: list.splits)

lemma limpiar_numero_append:
  "limpiar_numero (xs @ ys) = limpiar_numero xs @ concat (map nfkd_digitos ys)"
  by (simp add: limpiar_numero_def)

lemma limpiar_numero_no_vacio [simp]: "limpiar_numero s \<noteq> []"
  by (simp add: limpiar_numero_def)

end
