(* ===== verification/Token.thy ===== *)
theory Token
  imports Prelude
begin

text \<open>
  The token service: \<^verbatim>\<open>serializer = URLSafeTimedSerializer(SECRET_KEY)\<close>
  (src/app.py line 182) with \<^verbatim>\<open>serializer.dumps(token_data)\<close> (lines 420, 513) and
  \<^verbatim>\<open>serializer.loads(token, max_age=600)\<close> (line 550).  The serializer belongs to
  the itsdangerous library, outside the repository; it is modelled from its
  contract.  A token carries the payload dict \<^verbatim>\<open>{"numero", "dominio"}\<close>, the
  issuing second (\<^verbatim>\<open>int(time.time())\<close>) and an HMAC signature under the secret
  key.  The signature is abstracted to the key it was made with: a token verifies
  exactly when it was signed with the server's key, and the string form of a token
  is determined by payload, second and key (the serialisation is injective).

  \<^verbatim>\<open>loads\<close> checks, in this order: the signature (\<^verbatim>\<open>BadSignature\<close>), then the
  age \<^verbatim>\<open>now - ts\<close> against \<^verbatim>\<open>max_age\<close> (\<^verbatim>\<open>SignatureExpired\<close> when the age
  exceeds it, and also when it is negative: a timestamp from the future).
\<close>

record token_datos =
  td_numero :: string
  td_dominio :: string

datatype token = Token (tok_datos: token_datos) (tok_ts: nat) (tok_clave: string)

datatype firma_error = SignatureExpired | BadSignature

definition dumps :: "string \<Rightarrow> nat \<Rightarrow> token_datos \<Rightarrow> token" where
  "dumps clave ahora datos = Token datos ahora clave"

definition loads :: "string \<Rightarrow> nat \<Rightarrow> nat \<Rightarrow> token \<Rightarrow> firma_error + token_datos" where
  "loads clave max_age ahora t =
     (if tok_clave t \<noteq> clave then Inl BadSignature
      else let edad = int ahora - int (tok_ts t) in
        if edad > int max_age then Inl SignatureExpired
        else if edad < 0 then Inl SignatureExpired
        else Inr (tok_datos t))"

text \<open>The link validity window of the application: \<^verbatim>\<open>max_age=600\<close> seconds.\<close>

definition max_edad :: nat where
  "max_edad = 600"

section \<open>Contract lemmas\<close>

lemma loads_Inr_iff:
  "loads k m now t = Inr d \<longleftrightarrow>
     tok_clave t = k \<and> tok_ts t \<le> now \<and> now - tok_ts t \<le> m \<and> tok_datos t = d"
  by (auto simp: loads_def Let_def split: if_splits)

lemma dumps_sel [simp]:
  "tok_datos (dumps k now d) = d" "tok_ts (dumps k now d) = now" "tok_clave (dumps k now d) = k"
  by (simp_all add: dumps_def)

end
