(* ===== verification/Store.thy ===== *)
theory Store
  imports Token
begin

text \<open>
  The registration store: the four SQLAlchemy models of src/app.py (lines 207--257)
  and the configuration read from the environment (lines 177--191, 414, 506, 561,
  597).  Every table has a unique column \<^verbatim>\<open>numero\<close> (or \<^verbatim>\<open>message_id\<close>), so a
  table is a map from that key to the rest of the row; the surrogate \<^verbatim>\<open>id\<close>
  primary keys are never read and are not modelled.  Timestamps are seconds.
  Outbound WhatsApp messages are a list of (recipient, message) pairs: each entry
  is one attempted POST to the provider; its outcome is logged and ignored by the
  code, so it is not modelled.
\<close>

section \<open>Rows\<close>

text \<open>\<^verbatim>\<open>class Voto\<close> (lines 207--227).  \<^verbatim>\<open>latitud\<close>/\<^verbatim>\<open>longitud\<close> are kept as the
  text that \<^verbatim>\<open>float()\<close> accepted; the numeric value is never read back.\<close>

record voto =
  v_genero :: string
  v_pais :: string
  v_departamento :: string
  v_provincia :: string
  v_id_municipio :: string
  v_municipio :: string
  v_recinto :: string
  v_dia :: int
  v_mes :: int
  v_anio :: int
  v_latitud :: "string option"
  v_longitud :: "string option"
  v_ip :: string
  v_fecha :: nat
  v_candidato :: string
  v_pregunta3 :: string
  v_ci :: "int option"

text \<open>\<^verbatim>\<open>class NumeroTemporal\<close> (lines 234--238): the pending authorization.\<close>

record numero_temporal =
  nt_token :: "token option"
  nt_fecha :: nat

text \<open>\<^verbatim>\<open>class BloqueoWhatsapp\<close> (lines 251--257): the abuse counter.\<close>

record bloqueo =
  b_intentos :: int
  b_bloqueado :: bool

text \<open>The store: \<^verbatim>\<open>Voto\<close>, \<^verbatim>\<open>NumeroTemporal\<close>, \<^verbatim>\<open>WhatsappMensajeProcesado\<close>
  (message id to sender number) and \<^verbatim>\<open>BloqueoWhatsapp\<close>, each keyed by its
  unique column.\<close>

record db =
  votos :: "string \<rightharpoonup> voto"
  temporales :: "string \<rightharpoonup> numero_temporal"
  procesados :: "string \<rightharpoonup> string"
  bloqueos :: "string \<rightharpoonup> bloqueo"

definition db_vacia :: db where
  "db_vacia = \<lparr>votos = Map.empty, temporales = Map.empty, procesados = Map.empty, bloqueos = Map.empty\<rparr>"

section \<open>Configuration\<close>

datatype backend = SQLite | PostgreSQL

text \<open>\<^verbatim>\<open>SECRET_KEY\<close>, \<^verbatim>\<open>AZURE_DOMAIN\<close> (None when unset), the request's
  \<^verbatim>\<open>host_url\<close>, whether \<^verbatim>\<open>WABA_TOKEN\<close> is set, and the database behind
  \<^verbatim>\<open>DATABASE_URL\<close>.\<close>

record config =
  secret_key :: string
  azure_domain :: "string option"
  host_url :: string
  waba_token :: bool
  motor :: backend

text \<open>The domain written into issued tokens and links (lines 414 and 506):
  \<^verbatim>\<open>os.environ.get("AZURE_DOMAIN", request.host_url.rstrip('/')).rstrip('/')\<close>.\<close>

definition dominio_emisor :: "config \<Rightarrow> string" where
  "dominio_emisor cfg =
     py_rstrip CHR ''/'' (case azure_domain cfg of None \<Rightarrow> py_rstrip CHR ''/'' (host_url cfg) | Some d \<Rightarrow> d)"

text \<open>The domain accepted by the referer checks (lines 597 and 700--703).\<close>

definition dominio_permitido :: "config \<Rightarrow> string" where
  "dominio_permitido cfg =
     (case azure_domain cfg of
        None \<Rightarrow> ''votacionprimarias2025-g7ebaphpgrcucgbr.brazilsouth-01.azurewebsites.net''
      | Some d \<Rightarrow> d)"

section \<open>Outbound messages\<close>

text \<open>The texts the code sends: the warning \<^verbatim>\<open>Advertencia n/3\<close> (line 377), the
  lockout notice (line 381), the voting link (line 435), and the two notices of the
  link-visit page (lines 554 and 574).\<close>

datatype mensaje =
    Advertencia int
  | Excedido
  | EnlaceVoto string token
  | EnlaceUsado
  | DatosFalsos

type_synonym envio = "string \<times> mensaje"

section \<open>Column constraints checked at commit\<close>

text \<open>
  Integer columns: \<^verbatim>\<open>db.Integer\<close> is 32-bit signed on PostgreSQL and 64-bit on
  SQLite; \<^verbatim>\<open>db.BigInteger\<close> is 64-bit signed on both.  \<^verbatim>\<open>db.String(n)\<close>
  bounds the length on PostgreSQL only.  A violation raises at commit.
\<close>

definition cabe_entero :: "nat \<Rightarrow> int \<Rightarrow> bool" where
  "cabe_entero bits x \<longleftrightarrow> - (2 ^ (bits - 1)) \<le> x \<and> x < 2 ^ (bits - 1)"

definition bits_integer :: "backend \<Rightarrow> nat" where
  "bits_integer m = (case m of SQLite \<Rightarrow> 64 | PostgreSQL \<Rightarrow> 32)"

definition cabe_texto :: "backend \<Rightarrow> nat \<Rightarrow> string \<Rightarrow> bool" where
  "cabe_texto m n s \<longleftrightarrow> (case m of SQLite \<Rightarrow> True | PostgreSQL \<Rightarrow> length s \<le> n)"

definition voto_cabe :: "backend \<Rightarrow> string \<Rightarrow> voto \<Rightarrow> bool" where
  "voto_cabe m n v \<longleftrightarrow>
     cabe_texto m 50 n \<and> cabe_texto m 10 (v_genero v) \<and> cabe_texto m 100 (v_pais v)
     \<and> cabe_texto m 100 (v_departamento v) \<and> cabe_texto m 100 (v_provincia v)
     \<and> cabe_texto m 20 (v_id_municipio v) \<and> cabe_texto m 100 (v_municipio v)
     \<and> cabe_texto m 100 (v_recinto v)
     \<and> cabe_entero (bits_integer m) (v_dia v) \<and> cabe_entero (bits_integer m) (v_mes v)
     \<and> cabe_entero (bits_integer m) (v_anio v)
     \<and> cabe_texto m 50 (v_ip v) \<and> cabe_texto m 100 (v_candidato v)
     \<and> cabe_texto m 10 (v_pregunta3 v)
     \<and> (case v_ci v of None \<Rightarrow> True | Some c \<Rightarrow> cabe_entero 64 c)"

section \<open>Transactions\<close>

text \<open>
  The commit of \<^verbatim>\<open>enviar_voto\<close> (lines 671--673): insert the ballot and delete the
  pending authorization in one transaction.  The unique index on
  \<^verbatim>\<open>Voto.numero\<close> rejects a second row for the same number
  (\<^verbatim>\<open>IntegrityError\<close>); a value that does not fit its column is rejected too;
  either failure rolls the whole transaction back.
\<close>

definition commit_voto :: "backend \<Rightarrow> string \<Rightarrow> voto \<Rightarrow> db \<Rightarrow> db py" where
  "commit_voto m n v d =
     (if n \<in> dom (votos d) then Inl IntegrityError
      else if \<not> voto_cabe m n v then Inl DataError
      else Inr (d\<lparr>votos := (votos d)(n \<mapsto> v), temporales := (temporales d)(n := None)\<rparr>))"

lemma commit_voto_Inr:
  "commit_voto m n v d = Inr d' \<longleftrightarrow>
     n \<notin> dom (votos d) \<and> voto_cabe m n v \<and>
     d' = d\<lparr>votos := (votos d)(n \<mapsto> v), temporales := (temporales d)(n := None)\<rparr>"
  by (auto simp: commit_voto_def)

text \<open>Updating both columns of a pending authorization gives the row a fresh
  insert would create.\<close>

lemma numero_temporal_upd_full [simp]:
  "t\<lparr>nt_token := a, nt_fecha := b\<rparr> = \<lparr>nt_token = a, nt_fecha = b\<rparr>"
  by (cases t) simp

lemma cabe_entero_sint:
  "cabe_entero 64 x \<longleftrightarrow> sint (word_of_int x :: 64 word) = x"
  by (simp add: cabe_entero_def sint_sbintrunc' signed_take_bit_int_eq_self_iff)

end
