(* ===== verification/Webhook.thy ===== *)
theory Webhook
  imports PyJson Phone AbuseGuard
begin

text \<open>
  Webhook ingestion, \<^verbatim>\<open>whatsapp_webhook\<close> (src/app.py lines 275--467): the POST
  body is normalised from the Meta shape (\<^verbatim>\<open>entry[0].changes[0].value.messages\<close>)
  or the flat shape (\<^verbatim>\<open>{"messages": [...]}\<close>), the first message is deduplicated by
  its id, its sender number is canonicalised, and the request is dispatched to the
  abuse guard (no pending authorization) or to token reissue (pending
  authorization).  Every exception is caught by the outer \<^verbatim>\<open>try\<close> (line 464) and
  the handler always answers \<^verbatim>\<open>"ok", 200\<close>; exceptions are raised only before the
  first commit, so an exception leaves the store as it was and sends nothing.

  The code reads \<^verbatim>\<open>numero_completo\<close> at line 317, inside the branch that records
  a new message id, before the assignment at line 324.  Python makes
  \<^verbatim>\<open>numero_completo\<close> a local of the function, so the read raises
  \<^verbatim>\<open>UnboundLocalError\<close>: a message that carries an id never reaches the
  dispatch and the processed-message table is never written.  The model keeps this.
\<close>

datatype ruta =
    RSinMensajes
  | RDuplicado
  | RExcepcion py_exc
  | RBloqueado
  | RNoAutorizado
  | RSinToken
  | REnlaceEnviado

section \<open>Payload normalisation\<close>

text \<open>Lines 290--293, the body of the inner \<^verbatim>\<open>try\<close>.\<close>

definition mensajes_meta :: "json \<Rightarrow> json py" where
  "mensajes_meta data =
     py_bind (py_get data ''entry'' JNull) (\<lambda>e.
     py_bind (py_index0 (py_or e (JList []))) (\<lambda>e0.
     py_bind (py_get (py_or e0 (JDict [])) ''changes'' JNull) (\<lambda>c.
     py_bind (py_index0 (py_or c (JList []))) (\<lambda>c0.
     py_bind (py_get (py_or c0 (JDict [])) ''value'' (JDict [])) (\<lambda>v.
     py_get (py_or v (JDict [])) ''messages'' JNull)))))"

text \<open>Lines 285--299: the Meta shape first (any exception inside gives
  \<^verbatim>\<open>None\<close>), then the flat shape if nothing was found.\<close>

definition extraer_mensajes :: "json \<Rightarrow> json" where
  "extraer_mensajes data =
     (let m1 = (if is_dict data \<and> has_key data ''entry''
                then (case mensajes_meta data of Inl _ \<Rightarrow> JNull | Inr m \<Rightarrow> m)
                else JNull)
      in if \<not> truthy m1 \<and> is_dict data \<and> has_key data ''messages''
         then (case py_get data ''messages'' JNull of Inl _ \<Rightarrow> JNull | Inr m \<Rightarrow> m)
         else m1)"

text \<open>\<^verbatim>\<open>(d.get(k) or "").strip()\<close>\<close>

definition campo_texto :: "json \<Rightarrow> string \<Rightarrow> string py" where
  "campo_texto d k = py_bind (py_get d k JNull) (\<lambda>b. py_strip_json (py_or b (JStr [])))"

text \<open>Lines 327--337: the message text.  It is only logged, but a non-string body
  raises at \<^verbatim>\<open>.strip()\<close>.\<close>

definition extraer_texto :: "json \<Rightarrow> string py" where
  "extraer_texto msg =
     py_bind (py_get msg ''text'' JNull) (\<lambda>t.
     if is_dict t then campo_texto t ''body''
     else py_bind (py_get msg ''button'' JNull) (\<lambda>bt.
     if is_dict bt then campo_texto bt ''text''
     else py_bind (py_get msg ''interactive'' JNull) (\<lambda>it.
     if is_dict it then
       py_bind (py_get it ''button_reply'' JNull) (\<lambda>br.
       if is_dict br then campo_texto br ''title''
       else py_bind (py_get it ''list_reply'' JNull) (\<lambda>lr.
       if is_dict lr then campo_texto lr ''title'' else Inr []))
     else Inr [])))"

section \<open>Dispatch\<close>

text \<open>Lines 347--462, from the blocked check to the link message.  A new counter
  row whose key does not fit \<^verbatim>\<open>String(50)\<close> fails at commit on PostgreSQL.\<close>

definition despachar :: "config \<Rightarrow> nat \<Rightarrow> string \<Rightarrow> db \<Rightarrow> (ruta \<times> db \<times> envio list) py" where
  "despachar cfg ahora numero d =
     (let bloqueo = bloqueos d numero in
      if (case bloqueo of None \<Rightarrow> False | Some b \<Rightarrow> b_bloqueado b) then Inr (RBloqueado, d, [])
      else case temporales d numero of
        None \<Rightarrow>
          if bloqueo = None \<and> \<not> cabe_texto (motor cfg) 50 numero then Inl DataError
          else let b' = registrar_intento bloqueo in
            Inr (RNoAutorizado, d\<lparr>bloqueos := (bloqueos d)(numero \<mapsto> b')\<rparr>, [(numero, aviso_intento b')])
      | Some t \<Rightarrow>
          (case nt_token t of
             None \<Rightarrow> Inr (RSinToken, d, [])
           | Some _ \<Rightarrow>
               let dominio = dominio_emisor cfg;
                   tk = dumps (secret_key cfg) ahora \<lparr>td_numero = numero, td_dominio = dominio\<rparr>
               in Inr (REnlaceEnviado,
                       d\<lparr>temporales := (temporales d)(numero \<mapsto> t\<lparr>nt_token := Some tk, nt_fecha := ahora\<rparr>)\<rparr>,
                       [(numero, EnlaceVoto dominio tk)])))"

section \<open>The handler\<close>

text \<open>Lines 280--340: decode, normalise, take the first message, deduplicate by id
  (the id branch raises, see above), canonicalise the sender, read the text.\<close>

definition procesar_webhook :: "config \<Rightarrow> nat \<Rightarrow> json \<Rightarrow> db \<Rightarrow> (ruta \<times> db \<times> envio list) py" where
  "procesar_webhook cfg ahora cuerpo d =
     (let data = py_or cuerpo (JDict []);
          messages = extraer_mensajes data
      in if \<not> truthy messages then Inr (RSinMensajes, d, [])
      else
        py_bind (py_index0 messages) (\<lambda>m0. let msg = py_or m0 (JDict []) in
        py_bind (py_get msg ''id'' JNull) (\<lambda>i.
        py_bind (py_strip_json (py_or i (JStr []))) (\<lambda>message_id.
        if message_id \<noteq> []
        then (if message_id \<in> dom (procesados d) then Inr (RDuplicado, d, []) else Inl UnboundLocalError)
        else
          py_bind (py_get msg ''from'' JNull) (\<lambda>fr.
          py_bind (py_get msg ''wa_id'' JNull) (\<lambda>wa.
          let numero = limpiar_numero (py_str (py_or fr (py_or wa (JStr []))))
          in py_bind (extraer_texto msg) (\<lambda>texto. despachar cfg ahora numero d)))))))"

text \<open>Lines 464--467: every exception is logged and the answer is \<^verbatim>\<open>"ok"\<close>.\<close>

definition whatsapp_webhook :: "config \<Rightarrow> nat \<Rightarrow> json \<Rightarrow> db \<Rightarrow> ruta \<times> db \<times> envio list" where
  "whatsapp_webhook cfg ahora cuerpo d =
     (case procesar_webhook cfg ahora cuerpo d of Inl e \<Rightarrow> (RExcepcion e, d, []) | Inr r \<Rightarrow> r)"

section \<open>Lemmas\<close>

text \<open>The unfolding bundle used to evaluate the handler on concrete payloads.\<close>

lemmas webhook_eval = whatsapp_webhook_def procesar_webhook_def extraer_mensajes_def
  mensajes_meta_def extraer_texto_def campo_texto_def despachar_def Let_def
  limpiar_numero_def nfkd_digitos_def py_isdigit_def py_strip_def py_isspace_def
  aviso_intento_def cabe_texto_def

text \<open>Frame facts of the dispatch: it writes only the counter of the sender or the
  pending authorization of the sender, and sends at most one message, to the sender.\<close>

lemma despachar_frame:
  assumes "despachar cfg ahora n d = Inr (r, d', es)"
  shows "votos d' = votos d" and "procesados d' = procesados d"
    and "dom (temporales d') = dom (temporales d)"
    and "\<forall>k. k \<noteq> n \<longrightarrow> temporales d' k = temporales d k \<and> bloqueos d' k = bloqueos d k"
    and "length es \<le> 1" and "\<forall>e \<in> set es. fst e = n"
  using assms
  by (auto simp: despachar_def Let_def split: if_splits option.splits)

lemma whatsapp_webhook_cases:
  "whatsapp_webhook cfg ahora cuerpo d = (r, d', es) \<Longrightarrow>
   (d' = d \<and> es = []) \<or> (\<exists>n. despachar cfg ahora n d = Inr (r, d', es))"
  by (auto simp: whatsapp_webhook_def procesar_webhook_def Let_def
           split: sum.splits if_splits)

text \<open>The reissue branch: the stored token of the sender is replaced by a token
  issued now, and exactly that token is sent.\<close>

lemma despachar_reemite:
  assumes "despachar cfg ahora n d = Inr (REnlaceEnviado, d', es)"
  shows "temporales d' n = Some \<lparr>nt_token = Some (dumps (secret_key cfg) ahora
             \<lparr>td_numero = n, td_dominio = dominio_emisor cfg\<rparr>), nt_fecha = ahora\<rparr>"
    and "es = [(n, EnlaceVoto (dominio_emisor cfg) (dumps (secret_key cfg) ahora
             \<lparr>td_numero = n, td_dominio = dominio_emisor cfg\<rparr>))]"
  using assms by (auto simp: despachar_def Let_def split: if_splits option.splits)

text \<open>A blocked counter row survives every dispatch, and no dispatch writes to a
  blocked number.\<close>

lemma despachar_bloqueado_otro:
  assumes "bloqueos d n = Some b" and "b_bloqueado b" and "despachar cfg a m d = Inr (r, d', es)"
  shows "bloqueos d' n = Some b \<and> n \<notin> fst ` set es"
proof (cases "m = n")
  case True
  with assms show ?thesis by (simp add: despachar_def)
next
  case False
  with despachar_frame(4,6) [OF assms(3)] assms(1) show ?thesis by force
qed

lemma webhook_bloqueado_otro:
  assumes "bloqueos d n = Some b" and "b_bloqueado b" and "whatsapp_webhook cfg a c d = (r, d', es)"
  shows "bloqueos d' n = Some b \<and> n \<notin> fst ` set es"
  using whatsapp_webhook_cases [OF assms(3)]
proof
  assume "d' = d \<and> es = []"
  with assms(1) show ?thesis by simp
next
  assume "\<exists>m. despachar cfg a m d = Inr (r, d', es)"
  then obtain m where "despachar cfg a m d = Inr (r, d', es)" by blast
  then show ?thesis by (rule despachar_bloqueado_otro [OF assms(1,2)])
qed

text \<open>A flat payload whose only message carries a canonical sender reaches the
  dispatch for that sender; for an unregistered sender the dispatch counts one message.\<close>

lemma webhook_remitente:
  assumes "canonico n"
  shows "whatsapp_webhook cfg t (JDict [(''messages'', JList [JDict [(''from'', JStr n)]])]) d =
           (case despachar cfg t n d of Inl e \<Rightarrow> (RExcepcion e, d, []) | Inr r \<Rightarrow> r)"
proof -
  have "n \<noteq> []" using assms by (cases n) (simp_all add: canonico_def)
  then show ?thesis using assms
    by (simp add: whatsapp_webhook_def procesar_webhook_def extraer_mensajes_def extraer_texto_def
          Let_def canonico_fixpoint py_strip_def py_or_def split: sum.splits)
qed

lemma despachar_no_registrado:
  assumes "temporales d n = None" and "cabe_texto (motor cfg) 50 n" and "guardia_ok (bloqueos d n)"
  obtains r d' es where "despachar cfg t n d = Inr (r, d', es)" and "temporales d' n = None"
    and "guardia_ok (bloqueos d' n)"
    and "intentos_restantes (bloqueos d' n) = intentos_restantes (bloqueos d n) - 1"
proof (cases "\<exists>bl. bloqueos d n = Some bl \<and> b_bloqueado bl")
  case True
  then obtain bl where bl: "bloqueos d n = Some bl" "b_bloqueado bl" by blast
  then have "despachar cfg t n d = Inr (RBloqueado, d, [])" by (simp add: despachar_def)
  moreover have "intentos_restantes (bloqueos d n) = 0"
    using guardia_bloqueada [of bl] assms(3) bl by simp
  ultimately show ?thesis using that assms by simp
next
  case False
  then have nb: "case bloqueos d n of None \<Rightarrow> True | Some bl \<Rightarrow> \<not> b_bloqueado bl"
    by (auto split: option.splits)
  let ?b = "registrar_intento (bloqueos d n)"
  have "despachar cfg t n d = Inr (RNoAutorizado, d\<lparr>bloqueos := (bloqueos d)(n \<mapsto> ?b)\<rparr>, [(n, aviso_intento ?b)])"
    using False assms(1,2) by (auto simp: despachar_def Let_def split: option.splits)
  then show ?thesis
    using that assms(1) registrar_intento_restantes [OF assms(3) nb] by simp
qed

end
