(* ===== verification/Registration.thy ===== *)
theory Registration
  imports Phone Store
begin

text \<open>
  Registration, \<^verbatim>\<open>generar_link\<close> (src/app.py lines 482--534), POST branch: the
  form gives a country code and a number; the canonical number is built, refused if
  it already voted, and otherwise gets a fresh token stored in its pending
  authorization (created or overwritten), after which the browser is redirected to
  WhatsApp.  The GET branch only renders the form.  A new row whose number does not
  fit \<^verbatim>\<open>String(50)\<close> fails at commit on PostgreSQL; the exception is not caught
  (HTTP 500), the result \<open>Inl\<close>.
\<close>

datatype resp_registro = FaltanDatos | YaVoto | RedirigirWhatsApp

text \<open>Lines 492--497: the number as the form builds it.\<close>

definition numero_de_formulario :: "string \<Rightarrow> string \<Rightarrow> string" where
  "numero_de_formulario pais numero =
     (let numero' = py_remove CHR ''-'' (py_remove CHR '' '' numero);
          pais' = py_strip pais;
          pais'' = (if prefix ''+'' pais' then pais' else CHR ''+'' # pais')
      in limpiar_numero (pais'' @ numero'))"

definition generar_link :: "config \<Rightarrow> nat \<Rightarrow> string option \<Rightarrow> string option \<Rightarrow> db \<Rightarrow> (resp_registro \<times> db) py" where
  "generar_link cfg ahora pais numero d =
     (case (pais, numero) of
        (Some p, Some n) \<Rightarrow>
          if p = [] \<or> n = [] then Inr (FaltanDatos, d)
          else
            let numero_completo = numero_de_formulario p n in
            if numero_completo \<in> dom (votos d) then Inr (YaVoto, d)
            else
              let dominio = dominio_emisor cfg;
                  tk = dumps (secret_key cfg) ahora \<lparr>td_numero = numero_completo, td_dominio = dominio\<rparr>
              in case temporales d numero_completo of
                   None \<Rightarrow>
                     if \<not> cabe_texto (motor cfg) 50 numero_completo then Inl DataError
                     else Inr (RedirigirWhatsApp,
                               d\<lparr>temporales := (temporales d)(numero_completo \<mapsto> \<lparr>nt_token = Some tk, nt_fecha = ahora\<rparr>)\<rparr>)
                 | Some t \<Rightarrow>
                     Inr (RedirigirWhatsApp,
                          d\<lparr>temporales := (temporales d)(numero_completo \<mapsto> t\<lparr>nt_token := Some tk, nt_fecha := ahora\<rparr>)\<rparr>)
      | _ \<Rightarrow> Inr (FaltanDatos, d))"

section \<open>Lemmas\<close>

lemma generar_link_frame:
  assumes "generar_link cfg ahora p n d = Inr (r, d')"
  shows "votos d' = votos d" and "procesados d' = procesados d" and "bloqueos d' = bloqueos d"
  using assms
  by (auto simp: generar_link_def Let_def split: option.splits if_splits)

lemma generar_link_cases:
  assumes "generar_link cfg ahora p n d = Inr (r, d')"
  shows "d' = d \<or>
    (\<exists>pv nv. p = Some pv \<and> n = Some nv \<and> numero_de_formulario pv nv \<notin> dom (votos d) \<and>
       d' = d\<lparr>temporales := (temporales d)(numero_de_formulario pv nv \<mapsto>
              \<lparr>nt_token = Some (dumps (secret_key cfg) ahora
                  \<lparr>td_numero = numero_de_formulario pv nv, td_dominio = dominio_emisor cfg\<rparr>),
               nt_fecha = ahora\<rparr>)\<rparr>)"
  using assms
  by (auto simp: generar_link_def Let_def split: option.splits if_splits)

end
