(* ===== verification/LinkVisit.thy ===== *)
theory LinkVisit
  imports Phone Store
begin

text \<open>
  Link visit, \<^verbatim>\<open>votar\<close> (src/app.py lines 542--585): the token of the query string
  is verified (signature, then age against 600 seconds), its number must hold a
  pending authorization whose stored token is exactly the presented one (otherwise
  the ambiguous "already used or invalid" answer, with a WhatsApp notice), its domain
  must equal \<^verbatim>\<open>AZURE_DOMAIN\<close>, and the number must not have voted.  On success the
  server puts the number into the session (\<^verbatim>\<open>session['numero_token']\<close>); that grant
  is the third component of the result.  The handler never writes the store.

  \<^verbatim>\<open>enviar_mensaje_whatsapp\<close> (lines 141--168) sends only when \<^verbatim>\<open>WABA_TOKEN\<close>
  is configured; its outcome is ignored.
\<close>

datatype resp_enlace =
    AccesoNoValido
  | EnlaceYaUsado
  | DominioInvalido
  | EnlaceExpirado
  | EnlaceAlterado
  | YaVotado
  | FormularioVoto string token

definition enviar_mensaje_whatsapp :: "config \<Rightarrow> string \<Rightarrow> mensaje \<Rightarrow> envio list" where
  "enviar_mensaje_whatsapp cfg numero m = (if waba_token cfg then [(numero, m)] else [])"

text \<open>\<^verbatim>\<open>NumeroTemporal.query.filter_by(numero=numero, token=token).first()\<close>\<close>

definition token_vigente :: "db \<Rightarrow> string \<Rightarrow> token \<Rightarrow> bool" where
  "token_vigente d numero tk =
     (case temporales d numero of None \<Rightarrow> False | Some t \<Rightarrow> nt_token t = Some tk)"

text \<open>The token argument is \<open>None\<close> when absent or empty (line 545).\<close>

definition votar :: "config \<Rightarrow> nat \<Rightarrow> token option \<Rightarrow> db \<Rightarrow> resp_enlace \<times> envio list \<times> string option" where
  "votar cfg ahora token d =
     (case token of
        None \<Rightarrow> (AccesoNoValido, [], None)
      | Some tk \<Rightarrow>
          (case loads (secret_key cfg) max_edad ahora tk of
             Inl SignatureExpired \<Rightarrow> (EnlaceExpirado, [], None)
           | Inl BadSignature \<Rightarrow> (EnlaceAlterado, [], None)
           | Inr datos \<Rightarrow>
               let numero = limpiar_numero (td_numero datos) in
               if \<not> token_vigente d numero tk
               then (EnlaceYaUsado, enviar_mensaje_whatsapp cfg numero EnlaceUsado, None)
               else if azure_domain cfg \<noteq> Some (td_dominio datos) then (DominioInvalido, [], None)
               else if numero \<notin> dom (temporales d)
               then (EnlaceYaUsado, enviar_mensaje_whatsapp cfg numero DatosFalsos, None)
               else if numero \<in> dom (votos d) then (YaVotado, [], None)
               else (FormularioVoto numero tk, [], Some numero)))"

section \<open>Lemmas\<close>

lemma token_vigente_dom: "token_vigente d n tk \<Longrightarrow> n \<in> dom (temporales d)"
  by (auto simp: token_vigente_def split: option.splits)

lemma votar_grant:
  assumes "votar cfg ahora tok d = (r, es, Some n)"
  shows "\<exists>tk. tok = Some tk \<and> r = FormularioVoto n tk \<and> token_vigente d n tk \<and>
           loads (secret_key cfg) max_edad ahora tk = Inr (tok_datos tk) \<and>
           azure_domain cfg = Some (td_dominio (tok_datos tk)) \<and>
           n = limpiar_numero (td_numero (tok_datos tk)) \<and> n \<notin> dom (votos d)"
  using assms
  by (auto simp: votar_def Let_def loads_Inr_iff split: option.splits sum.splits firma_error.splits if_splits)

text \<open>A verified token that is not the one stored for its number is answered
  with the ambiguous "already used or invalid" page and a notice.\<close>

lemma votar_no_vigente:
  assumes "loads (secret_key cfg) max_edad ahora tk = Inr x"
    and "limpiar_numero (td_numero (tok_datos tk)) = n" and "\<not> token_vigente d n tk"
  shows "votar cfg ahora (Some tk) d = (EnlaceYaUsado, enviar_mensaje_whatsapp cfg n EnlaceUsado, None)"
proof -
  have "x = tok_datos tk" using assms(1) by (simp add: loads_Inr_iff)
  with assms show ?thesis by (simp add: votar_def)
qed

end
