(* ===== verification/PyNum.thy ===== *)
theory PyNum
  imports Prelude
begin

text \<open>
  Python's \<^verbatim>\<open>int(s)\<close> and \<^verbatim>\<open>float(s)\<close> on strings, as \<^verbatim>\<open>enviar_voto\<close> applies
  them to form fields (src/app.py lines 643, 659--663).  Both strip surrounding
  whitespace, accept an optional sign, and accept single underscores between
  digits.  \<^verbatim>\<open>int\<close> returns the value or raises \<^verbatim>\<open>ValueError\<close> (here \<open>None\<close>);
  for \<^verbatim>\<open>float\<close> only acceptance is modelled, following the grammar of the
  Python documentation:
  \<^verbatim>\<open>floatvalue ::= [sign] (floatnumber | "inf" | "infinity" | "nan")\<close> (case-insensitive),
  \<^verbatim>\<open>floatnumber ::= number [exponent]\<close>,
  \<^verbatim>\<open>number ::= [digitpart] "." digitpart | digitpart ["."]\<close>,
  \<^verbatim>\<open>exponent ::= ("e" | "E") [sign] digitpart\<close>,
  \<^verbatim>\<open>digitpart ::= digit (["_"] digit)*\<close>.
\<close>

text \<open>\<^verbatim>\<open>digitpart\<close>\<close>

fun digitpart :: "string \<Rightarrow> bool" where
  "digitpart [] = False"
| "digitpart [c] = py_isdigit c"
| "digitpart (c # d # cs) =
     (py_isdigit c \<and>
      (if d = CHR ''_'' then (case cs of [] \<Rightarrow> False | e # _ \<Rightarrow> py_isdigit e) \<and> digitpart cs
       else digitpart (d # cs)))"

definition valor_digitos :: "string \<Rightarrow> int" where
  "valor_digitos ds = foldl (\<lambda>acc c. 10 * acc + (int (of_char c) - 48)) 0 (filter py_isdigit ds)"

text \<open>Split off an optional leading sign: (negative?, rest).\<close>

definition quitar_signo :: "string \<Rightarrow> bool \<times> string" where
  "quitar_signo t =
     (case t of
        [] \<Rightarrow> (False, [])
      | c # cs \<Rightarrow> if c = CHR ''-'' then (True, cs) else if c = CHR ''+'' then (False, cs) else (False, t))"

definition py_int :: "string \<Rightarrow> int option" where
  "py_int s =
     (let (neg, body) = quitar_signo (py_strip s)
      in if digitpart body then Some (if neg then - valor_digitos body else valor_digitos body) else None)"

definition ascii_lower :: "string \<Rightarrow> string" where
  "ascii_lower s = map (\<lambda>c. let n = (of_char c :: nat) in if 65 \<le> n \<and> n \<le> 90 then char_of (n + 32) else c) s"

text \<open>\<^verbatim>\<open>number\<close>\<close>

definition number_ok :: "string \<Rightarrow> bool" where
  "number_ok u =
     (let a = takeWhile (\<lambda>c. c \<noteq> CHR ''.'') u; r = dropWhile (\<lambda>c. c \<noteq> CHR ''.'') u
      in case r of
           [] \<Rightarrow> digitpart a
         | _ # b \<Rightarrow> (a = [] \<or> digitpart a) \<and> (if a = [] then digitpart b else b = [] \<or> digitpart b))"

text \<open>\<^verbatim>\<open>floatnumber\<close>: the number, then an optional exponent.\<close>

definition floatnumber_ok :: "string \<Rightarrow> bool" where
  "floatnumber_ok u =
     (let es = (\<lambda>c. c = CHR ''e'' \<or> c = CHR ''E'');
          m = takeWhile (\<lambda>c. \<not> es c) u; r = dropWhile (\<lambda>c. \<not> es c) u
      in number_ok m \<and> (case r of [] \<Rightarrow> True | _ # x \<Rightarrow> digitpart (snd (quitar_signo x))))"

definition py_float_ok :: "string \<Rightarrow> bool" where
  "py_float_ok s =
     (let u = snd (quitar_signo (py_strip s))
      in ascii_lower u \<in> {''inf'', ''infinity'', ''nan''} \<or> floatnumber_ok u)"

section \<open>Lemmas\<close>

lemma digitpart_chars: "digitpart s \<Longrightarrow> c \<in> set s \<Longrightarrow> py_isdigit c \<or> c = CHR ''_''"
  by (induction s rule: digitpart.induct) (auto split: if_splits list.splits)

lemma digitpart_digits: "s \<noteq> [] \<Longrightarrow> \<forall>c \<in> set s. py_isdigit c \<Longrightarrow> digitpart s"
  by (induction s rule: digitpart.induct) (auto simp: py_isdigit_def)

lemma py_int_Some_digits:
  assumes "py_int s = Some v"
  shows "\<exists>neg body. quitar_signo (py_strip s) = (neg, body) \<and> digitpart body"
  using assms by (auto simp: py_int_def split: prod.splits if_splits)

end
