(* ===== verification/Ballot.thy ===== *)
theory Ballot
  imports Phone PyNum Store
begin

text \<open>
  Ballot submission, \<^verbatim>\<open>enviar_voto\<close> (src/app.py lines 593--687).  The number comes
  from the session grant made by \<^verbatim>\<open>votar\<close>, never from the form.  The handler runs
  in two phases, which the model keeps apart because concurrent requests interleave
  between them: \<open>preparar_voto\<close> (lines 596--669) makes every check and builds the
  row, reading the store once (the "already voted" query of line 647);
  \<open>confirmar_voto\<close> (lines 671--674) is the transaction that inserts the row and
  deletes the pending authorization, where the unique index on \<^verbatim>\<open>Voto.numero\<close>
  decides.  Exceptions that the code does not catch (\<^verbatim>\<open>int()\<close>/\<^verbatim>\<open>float()\<close>
  on a malformed field, a failed commit) are HTTP 500 answers, \<open>ErrorServidor\<close>.
\<close>

record formulario =
  f_genero :: "string option"
  f_pais :: "string option"
  f_departamento :: "string option"
  f_provincia :: "string option"
  f_id_municipio :: "string option"
  f_municipio_nombre :: "string option"
  f_recinto :: "string option"
  f_dia :: "string option"
  f_mes :: "string option"
  f_anio :: "string option"
  f_candidato :: "string option"
  f_pregunta3 :: "string option"
  f_ci :: "string option"
  f_latitud :: "string option"
  f_longitud :: "string option"

text \<open>The request: the \<^verbatim>\<open>Referer\<close> and \<^verbatim>\<open>X-Forwarded-For\<close> headers, the peer
  address and the form.\<close>

record peticion =
  p_referer :: "string option"
  p_xff :: "string option"
  p_remote_addr :: string
  p_form :: formulario

datatype resp_voto =
    RefererInvalido
  | SinSesion
  | FaltanCampos
  | FaltaCI
  | CIInvalido
  | VotoYaRegistrado
  | VotoExitoso
  | ErrorServidor py_exc

text \<open>The answer \<^verbatim>\<open>"S\<acute>i"\<close> (with U+00ED) of the control question, line 638.\<close>

definition respuesta_si :: string where
  "respuesta_si = [CHR ''S'', char_of (237::nat)]"

text \<open>The twelve fields that must be present (lines 632--633).\<close>

definition campos_requeridos :: "formulario \<Rightarrow> string option list" where
  "campos_requeridos f =
     [f_genero f, f_pais f, f_departamento f, f_provincia f, f_municipio_nombre f, f_id_municipio f,
      f_recinto f, f_dia f, f_mes f, f_anio f, f_candidato f, f_pregunta3 f]"

text \<open>\<^verbatim>\<open>float(x) if x else None\<close>: \<open>None\<close> inside is a \<^verbatim>\<open>ValueError\<close>.\<close>

definition coordenada :: "string option \<Rightarrow> string option option" where
  "coordenada x = (if truthy_opt x then (if py_float_ok (the x) then Some x else None) else Some None)"

text \<open>\<^verbatim>\<open>request.headers.get('X-Forwarded-For', request.remote_addr).split(',')[0].strip()\<close>\<close>

definition ip_de :: "peticion \<Rightarrow> string" where
  "ip_de p = py_strip (py_split_first CHR '','' (case p_xff p of None \<Rightarrow> p_remote_addr p | Some x \<Rightarrow> x))"

text \<open>Phase one: referer check, session check, field checks, the conditional
  identity-document check, the already-voted query, and the row.\<close>

definition preparar_voto :: "config \<Rightarrow> nat \<Rightarrow> peticion \<Rightarrow> string option \<Rightarrow> db \<Rightarrow> resp_voto + (string \<times> voto)" where
  "preparar_voto cfg ahora p sesion d =
     (let referer = (case p_referer p of None \<Rightarrow> [] | Some r \<Rightarrow> r) in
      if referer \<noteq> [] \<and> \<not> py_in (dominio_permitido cfg) referer then Inl RefererInvalido
      else if \<not> truthy_opt sesion then Inl SinSesion
      else
        let numero = limpiar_numero (the sesion);
            f = p_form p;
            ci = (if truthy_opt (f_ci f) then f_ci f else None)
        in if numero = [] then Inl SinSesion
        else if \<not> list_all truthy_opt (campos_requeridos f) then Inl FaltanCampos
        else if f_pregunta3 f = Some respuesta_si \<and> \<not> truthy_opt ci then Inl FaltaCI
        else if truthy_opt ci \<and> py_int (the ci) = None then Inl CIInvalido
        else if numero \<in> dom (votos d) then Inl VotoYaRegistrado
        else
          (case (py_int (the (f_dia f)), py_int (the (f_mes f)), py_int (the (f_anio f)),
                 coordenada (f_latitud f), coordenada (f_longitud f)) of
             (Some dia, Some mes, Some anio, Some lat, Some lon) \<Rightarrow>
               Inr (numero,
                    \<lparr>v_genero = the (f_genero f), v_pais = the (f_pais f),
                     v_departamento = the (f_departamento f), v_provincia = the (f_provincia f),
                     v_id_municipio = the (f_id_municipio f), v_municipio = the (f_municipio_nombre f),
                     v_recinto = the (f_recinto f), v_dia = dia, v_mes = mes, v_anio = anio,
                     v_latitud = lat, v_longitud = lon, v_ip = ip_de p, v_fecha = ahora,
                     v_candidato = the (f_candidato f), v_pregunta3 = the (f_pregunta3 f),
                     v_ci = (if truthy_opt ci then py_int (the ci) else None)\<rparr>)
           | _ \<Rightarrow> Inl (ErrorServidor ValueError)))"

text \<open>Phase two: the transaction, then \<^verbatim>\<open>session.pop('numero_token')\<close>.\<close>

definition confirmar_voto :: "config \<Rightarrow> string \<Rightarrow> voto \<Rightarrow> string option \<Rightarrow> db \<Rightarrow> resp_voto \<times> db \<times> string option" where
  "confirmar_voto cfg numero v sesion d =
     (case commit_voto (motor cfg) numero v d of
        Inl e \<Rightarrow> (ErrorServidor e, d, sesion)
      | Inr d' \<Rightarrow> (VotoExitoso, d', None))"

text \<open>The handler run without interleaving: both phases on the same store.\<close>

definition enviar_voto :: "config \<Rightarrow> nat \<Rightarrow> peticion \<Rightarrow> string option \<Rightarrow> db \<Rightarrow> resp_voto \<times> db \<times> string option" where
  "enviar_voto cfg ahora p sesion d =
     (case preparar_voto cfg ahora p sesion d of
        Inl r \<Rightarrow> (r, d, sesion)
      | Inr (numero, v) \<Rightarrow> confirmar_voto cfg numero v sesion d)"

section \<open>Lemmas\<close>

lemma preparar_voto_Inr:
  assumes "preparar_voto cfg ahora p sesion d = Inr (n, v)"
  shows "\<exists>s. sesion = Some s \<and> s \<noteq> [] \<and> n = limpiar_numero s \<and> n \<notin> dom (votos d)
           \<and> list_all truthy_opt (campos_requeridos (p_form p))
           \<and> (f_pregunta3 (p_form p) = Some respuesta_si \<longrightarrow> v_ci v \<noteq> None)"
proof (cases sesion)
  case None
  with assms show ?thesis by (simp add: preparar_voto_def Let_def split: if_splits)
next
  case (Some s)
  with assms show ?thesis
    by (auto simp: preparar_voto_def Let_def truthy_opt_def split: if_splits option.splits)
qed

lemma confirmar_voto_frame:
  assumes "confirmar_voto cfg n v s d = (r, d', s')"
  shows "procesados d' = procesados d" and "bloqueos d' = bloqueos d"
    and "\<forall>k. k \<noteq> n \<longrightarrow> votos d' k = votos d k \<and> temporales d' k = temporales d k"
  using assms
  by (auto simp: confirmar_voto_def commit_voto_def split: sum.splits if_splits)

lemma confirmar_voto_ok:
  "fst (confirmar_voto cfg n v s d) = VotoExitoso \<longleftrightarrow> commit_voto (motor cfg) n v d \<noteq> Inl IntegrityError \<and> commit_voto (motor cfg) n v d \<noteq> Inl DataError"
  by (auto simp: confirmar_voto_def commit_voto_def split: sum.splits if_splits)

lemma confirmar_voto_exito:
  "confirmar_voto cfg n v s d = (VotoExitoso, d', s') \<Longrightarrow> commit_voto (motor cfg) n v d = Inr d'"
  by (auto simp: confirmar_voto_def split: sum.splits)

text \<open>The check phase never answers success: only the commit does.\<close>

lemma preparar_voto_Inl: "preparar_voto cfg ahora p ses d = Inl r \<Longrightarrow> r \<noteq> VotoExitoso"
  by (auto simp: preparar_voto_def Let_def split: if_splits option.splits)

end
