(* ===== verification/System.thy ===== *)
theory System
  imports Webhook Registration LinkVisit Ballot
begin

text \<open>
  The whole application as a state machine.  The state is the store, the list of
  outbound WhatsApp messages attempted so far, the set of numbers for which the
  server has issued a session grant (\<^verbatim>\<open>session['numero_token']\<close>, a cookie signed
  with \<^verbatim>\<open>SECRET_KEY\<close>, so a client can present only a grant the server made, possibly
  an old one), and the ballots prepared by \<^verbatim>\<open>enviar_voto\<close> but not yet committed.
  One step is one request: a webhook delivery, a registration, a link visit, the
  first phase of a ballot submission, or the commit of a prepared ballot.  Splitting
  the submission lets two submissions for one number interleave between their check
  and their commit, the race named by the specification.  Requests are otherwise
  atomic: each commits at most once.
\<close>

record sistema =
  bd :: db
  enviados :: "envio list"
  sesiones :: "string set"
  pendientes :: "(string \<times> voto) list"

definition inicial :: sistema where
  "inicial = \<lparr>bd = db_vacia, enviados = [], sesiones = {}, pendientes = []\<rparr>"

inductive paso :: "config \<Rightarrow> sistema \<Rightarrow> sistema \<Rightarrow> bool" for cfg :: config where
  webhook: "whatsapp_webhook cfg ahora cuerpo (bd s) = (r, d', es) \<Longrightarrow>
     paso cfg s (s\<lparr>bd := d', enviados := enviados s @ es\<rparr>)"
| registro: "generar_link cfg ahora pais num (bd s) = Inr (r, d') \<Longrightarrow>
     paso cfg s (s\<lparr>bd := d'\<rparr>)"
| enlace: "votar cfg ahora tk (bd s) = (r, es, g) \<Longrightarrow>
     paso cfg s (s\<lparr>enviados := enviados s @ es, sesiones := sesiones s \<union> set_option g\<rparr>)"
| preparar: "set_option ses \<subseteq> sesiones s \<Longrightarrow> preparar_voto cfg ahora p ses (bd s) = Inr (n, v) \<Longrightarrow>
     paso cfg s (s\<lparr>pendientes := (n, v) # pendientes s\<rparr>)"
| confirmar: "(n, v) \<in> set (pendientes s) \<Longrightarrow> confirmar_voto cfg n v ses (bd s) = (r, d', ses') \<Longrightarrow>
     paso cfg s (s\<lparr>bd := d', pendientes := remove1 (n, v) (pendientes s)\<rparr>)"

inductive alcanzable :: "config \<Rightarrow> sistema \<Rightarrow> bool" for cfg :: config where
  inicio: "alcanzable cfg inicial"
| paso: "alcanzable cfg s \<Longrightarrow> paso cfg s t \<Longrightarrow> alcanzable cfg t"

inductive_cases paso_cases: "paso cfg s t"

section \<open>Invariants\<close>

text \<open>Every stored token was issued by this server for the number of its row and
  the issuing domain.\<close>

definition tokens_ligados :: "config \<Rightarrow> db \<Rightarrow> bool" where
  "tokens_ligados cfg d \<longleftrightarrow>
     (\<forall>n t tk. temporales d n = Some t \<longrightarrow> nt_token t = Some tk \<longrightarrow>
        tok_datos tk = \<lparr>td_numero = n, td_dominio = dominio_emisor cfg\<rparr> \<and> tok_clave tk = secret_key cfg)"

definition bloqueos_ok :: "db \<Rightarrow> bool" where
  "bloqueos_ok d \<longleftrightarrow> (\<forall>n b. bloqueos d n = Some b \<longrightarrow> bloqueo_ok b)"

definition bd_ok :: "config \<Rightarrow> db \<Rightarrow> bool" where
  "bd_ok cfg d \<longleftrightarrow>
     procesados d = Map.empty \<and> bloqueos_ok d \<and> tokens_ligados cfg d
     \<and> dom (votos d) \<inter> dom (temporales d) = {}"

definition sistema_ok :: "config \<Rightarrow> sistema \<Rightarrow> bool" where
  "sistema_ok cfg s \<longleftrightarrow>
     bd_ok cfg (bd s) \<and> dom (votos (bd s)) \<subseteq> sesiones s
     \<and> fst ` set (pendientes s) \<subseteq> sesiones s
     \<and> (\<forall>n \<in> sesiones s. canonico n)
     \<and> (sesiones s \<noteq> {} \<longrightarrow> azure_domain cfg = Some (dominio_emisor cfg))"

text \<open>Every stored ballot fits the column types of the configured database.\<close>

definition votos_tipados :: "config \<Rightarrow> db \<Rightarrow> bool" where
  "votos_tipados cfg d \<longleftrightarrow> (\<forall>n v. votos d n = Some v \<longrightarrow> voto_cabe (motor cfg) n v)"

subsection \<open>One lemma per handler\<close>

lemma despachar_bd_ok:
  assumes ok: "bd_ok cfg d" and eq: "despachar cfg ahora n d = Inr (r, d', es)"
  shows "bd_ok cfg d'"
proof -
  have bl: "bloqueos_ok d" and tl: "tokens_ligados cfg d" and pr: "procesados d = Map.empty"
    and dj: "dom (votos d) \<inter> dom (temporales d) = {}"
    using ok by (simp_all add: bd_ok_def)
  have "(case bloqueos d n of None \<Rightarrow> True | Some bl \<Rightarrow> bloqueo_ok bl \<and> \<not> b_bloqueado bl) \<or>
        (\<exists>b. bloqueos d n = Some b \<and> b_bloqueado b)"
    using bl by (auto simp: bloqueos_ok_def split: option.splits)
  then have "bloqueos_ok d'"
    using eq bl registrar_intento_ok [of "bloqueos d n"]
    by (auto simp: despachar_def Let_def bloqueos_ok_def split: if_splits option.splits)
  moreover have "tokens_ligados cfg d'"
    using eq tl by (auto simp: despachar_def Let_def tokens_ligados_def split: if_splits option.splits)
  moreover have "procesados d' = Map.empty" and "dom (votos d') \<inter> dom (temporales d') = {}"
    using despachar_frame [OF eq] pr dj by simp_all
  ultimately show ?thesis by (simp add: bd_ok_def)
qed

lemma whatsapp_webhook_bd_ok:
  "bd_ok cfg d \<Longrightarrow> whatsapp_webhook cfg ahora c d = (r, d', es) \<Longrightarrow> bd_ok cfg d'"
  by (blast dest: whatsapp_webhook_cases despachar_bd_ok)

lemma generar_link_bd_ok:
  assumes ok: "bd_ok cfg d" and eq: "generar_link cfg ahora p n d = Inr (r, d')"
  shows "bd_ok cfg d'"
  using generar_link_cases [OF eq]
proof
  assume "d' = d"
  with ok show ?thesis by simp
next
  assume "\<exists>pv nv. p = Some pv \<and> n = Some nv \<and> numero_de_formulario pv nv \<notin> dom (votos d) \<and>
       d' = d\<lparr>temporales := (temporales d)(numero_de_formulario pv nv \<mapsto>
              \<lparr>nt_token = Some (dumps (secret_key cfg) ahora
                  \<lparr>td_numero = numero_de_formulario pv nv, td_dominio = dominio_emisor cfg\<rparr>),
               nt_fecha = ahora\<rparr>)\<rparr>"
  then obtain k t where k: "k \<notin> dom (votos d)" and d': "d' = d\<lparr>temporales := (temporales d)(k \<mapsto> t)\<rparr>"
    and t: "t = \<lparr>nt_token = Some (dumps (secret_key cfg) ahora \<lparr>td_numero = k, td_dominio = dominio_emisor cfg\<rparr>),
               nt_fecha = ahora\<rparr>"
    by blast
  have "dom (votos d') \<inter> dom (temporales d') = {}"
    using ok k d' by (auto simp: bd_ok_def)
  moreover have "tokens_ligados cfg d'"
    using ok d' t by (auto simp: bd_ok_def tokens_ligados_def)
  ultimately show ?thesis
    using ok d' by (simp add: bd_ok_def bloqueos_ok_def)
qed

lemma confirmar_voto_bd_ok:
  assumes ok: "bd_ok cfg d" and eq: "confirmar_voto cfg n v s d = (r, d', s')"
  shows "bd_ok cfg d'"
proof (cases "commit_voto (motor cfg) n v d")
  case (Inl e)
  with ok eq show ?thesis by (simp add: confirmar_voto_def)
next
  case (Inr d'')
  with eq have d': "d' = d\<lparr>votos := (votos d)(n \<mapsto> v), temporales := (temporales d)(n := None)\<rparr>"
    by (simp add: confirmar_voto_def commit_voto_Inr)
  have "dom (votos d') \<inter> dom (temporales d') = {}"
    using ok d' by (auto simp: bd_ok_def)
  moreover have "tokens_ligados cfg d'"
    using ok d' by (auto simp: bd_ok_def tokens_ligados_def)
  ultimately show ?thesis
    using ok d' by (simp add: bd_ok_def bloqueos_ok_def)
qed

lemma whatsapp_webhook_votos:
  "whatsapp_webhook cfg ahora c d = (r, d', es) \<Longrightarrow> votos d' = votos d"
  by (blast dest: whatsapp_webhook_cases despachar_frame(1))

lemma votar_grant_ok:
  assumes ok: "bd_ok cfg d" and eq: "votar cfg ahora tok d = (r, es, Some n)"
  shows "canonico n" and "azure_domain cfg = Some (dominio_emisor cfg)"
proof -
  obtain tk where n: "n = limpiar_numero (td_numero (tok_datos tk))"
    and vig: "token_vigente d n tk" and dom: "azure_domain cfg = Some (td_dominio (tok_datos tk))"
    using votar_grant [OF eq] by blast
  show "canonico n" using n limpiar_numero_canonico by simp
  from vig obtain t where "temporales d n = Some t" "nt_token t = Some tk"
    by (auto simp: token_vigente_def split: option.splits)
  with ok have "td_dominio (tok_datos tk) = dominio_emisor cfg"
    by (auto simp: bd_ok_def tokens_ligados_def)
  with dom show "azure_domain cfg = Some (dominio_emisor cfg)" by simp
qed

lemma preparar_voto_sesion:
  assumes "set_option ses \<subseteq> S" and "\<forall>k \<in> S. canonico k"
    and "preparar_voto cfg ahora p ses d = Inr (n, v)"
  shows "n \<in> S"
  using preparar_voto_Inr [OF assms(3)] assms(1,2) canonico_fixpoint by fastforce

subsection \<open>The invariant of the reachable states\<close>

lemma inicial_ok: "sistema_ok cfg inicial"
  by (simp add: sistema_ok_def inicial_def db_vacia_def bd_ok_def bloqueos_ok_def tokens_ligados_def)

lemma paso_ok:
  assumes ok: "sistema_ok cfg s" and st: "paso cfg s t"
  shows "sistema_ok cfg t"
  using st
proof cases
  case (webhook ahora cuerpo r d' es)
  have "bd_ok cfg d'"
    using whatsapp_webhook_bd_ok [OF _ webhook(2)] ok by (simp add: sistema_ok_def)
  moreover have "votos d' = votos (bd s)"
    using whatsapp_webhook_votos [OF webhook(2)] .
  ultimately show ?thesis
    using ok webhook(1) by (simp add: sistema_ok_def)
next
  case (registro ahora pais num r d')
  have "bd_ok cfg d'"
    using generar_link_bd_ok [OF _ registro(2)] ok by (simp add: sistema_ok_def)
  moreover have "votos d' = votos (bd s)"
    using generar_link_frame(1) [OF registro(2)] .
  ultimately show ?thesis
    using ok registro(1) by (simp add: sistema_ok_def)
next
  case (enlace ahora tk r es g)
  then show ?thesis
  proof (cases g)
    case (Some n)
    with enlace ok votar_grant_ok [of cfg "bd s" ahora tk r es n] show ?thesis
      by (auto simp: sistema_ok_def)
  qed (use ok in \<open>auto simp: sistema_ok_def\<close>)
next
  case (preparar ses ahora p n v)
  then have "n \<in> sesiones s"
    using ok preparar_voto_sesion [of ses "sesiones s"] by (auto simp: sistema_ok_def)
  with preparar ok show ?thesis by (auto simp: sistema_ok_def)
next
  case (confirmar n v ses r d' ses')
  have vs: "dom (votos (bd s)) \<subseteq> sesiones s" and ps: "fst ` set (pendientes s) \<subseteq> sesiones s"
    using ok by (simp_all add: sistema_ok_def)
  have "n \<in> fst ` set (pendientes s)"
    using confirmar(2) by (rule rev_image_eqI) simp
  with ps have n: "n \<in> sesiones s" by blast
  have b: "bd_ok cfg d'"
    using confirmar_voto_bd_ok [OF _ confirmar(3)] ok by (simp add: sistema_ok_def)
  have "dom (votos d') \<subseteq> insert n (dom (votos (bd s)))"
    using confirmar_voto_frame(3) [OF confirmar(3)] by auto
  with vs n have v: "dom (votos d') \<subseteq> sesiones s" by blast
  have "fst ` set (remove1 (n, v) (pendientes s)) \<subseteq> fst ` set (pendientes s)"
    by (rule image_mono) (rule set_remove1_subset)
  with ps have p: "fst ` set (remove1 (n, v) (pendientes s)) \<subseteq> sesiones s" by blast
  show ?thesis
    using confirmar(1) ok b v p by (simp add: sistema_ok_def)
qed

lemma alcanzable_ok: "alcanzable cfg s \<Longrightarrow> sistema_ok cfg s"
proof (induction rule: alcanzable.induct)
  case inicio
  show ?case by (rule inicial_ok)
next
  case (paso s t)
  then show ?case by (blast intro: paso_ok)
qed

subsection \<open>Blocks are permanent\<close>

lemma paso_bloqueo:
  assumes "paso cfg s t" and "bloqueos (bd s) n = Some b" and "b_bloqueado b"
  shows "bloqueos (bd t) n = Some b"
  using assms(1)
proof cases
  case (webhook ahora cuerpo r d' es)
  then show ?thesis using webhook_bloqueado_otro [OF assms(2,3)] by simp
next
  case (registro ahora pais num r d')
  then show ?thesis using generar_link_frame(3) assms(2) by simp
next
  case (confirmar n' v ses r d' ses')
  then show ?thesis using confirmar_voto_frame(2) assms(2) by simp
qed (use assms in simp_all)

lemma pasos_bloqueo:
  "rtranclp (paso cfg) s t \<Longrightarrow> bloqueos (bd s) n = Some b \<Longrightarrow> b_bloqueado b \<Longrightarrow> bloqueos (bd t) n = Some b"
  by (induction rule: rtranclp_induct) (auto dest: paso_bloqueo)

subsection \<open>Column types of the stored ballots\<close>

lemma paso_votos_tipados:
  assumes ok: "votos_tipados cfg (bd s)" and st: "paso cfg s t"
  shows "votos_tipados cfg (bd t)"
  using st
proof cases
  case (webhook ahora cuerpo r d' es)
  then show ?thesis using ok whatsapp_webhook_votos [OF webhook(2)] by (simp add: votos_tipados_def)
next
  case (registro ahora pais num r d')
  then show ?thesis using ok generar_link_frame(1) [OF registro(2)] by (simp add: votos_tipados_def)
next
  case (confirmar n v ses r d' ses')
  show ?thesis
  proof (cases "commit_voto (motor cfg) n v (bd s)")
    case (Inl e)
    with confirmar ok show ?thesis by (simp add: confirmar_voto_def)
  next
    case (Inr d'')
    with confirmar(3) have "d' = d''" by (simp add: confirmar_voto_def)
    with Inr ok confirmar(1) show ?thesis by (auto simp: votos_tipados_def commit_voto_Inr)
  qed
qed (use ok in simp_all)

lemma alcanzable_votos_tipados: "alcanzable cfg s \<Longrightarrow> votos_tipados cfg (bd s)"
proof (induction rule: alcanzable.induct)
  case inicio
  show ?case by (simp add: votos_tipados_def inicial_def db_vacia_def)
next
  case (paso s t)
  then show ?case by (blast intro: paso_votos_tipados)
qed

end
