(* ===== verification/Unicode.thy ===== *)
theory Unicode
  imports Phone
begin

text \<open>
  The Unicode tables of Python that the code reaches through
  \<^verbatim>\<open>unicodedata.normalize("NFKD", ...)\<close>, \<^verbatim>\<open>unicodedata.combining\<close>,
  \<^verbatim>\<open>str.upper\<close>, \<^verbatim>\<open>str.lower\<close> and the regex classes \<^verbatim>\<open>\s\<close> and
  \<^verbatim>\<open>\d\<close>, on Latin-1 input and on every code point that NFKD of a Latin-1
  character produces.  A decomposed string is a list of code points (\<open>nat list\<close>),
  since NFKD leaves Latin-1 (U+00B5 becomes U+03BC, the vulgar fractions contain
  U+2044).  The tables were generated from Python's \<^verbatim>\<open>unicodedata\<close>.

  Theory \<open>Phone\<close> models \<^verbatim>\<open>limpiar_numero\<close> (lines 131--138) with a
  per-character digit table; the last section proves it equal to the literal reading
  of line 138, \<^verbatim>\<open>re.sub(r"\D", "", unicodedata.normalize("NFKD", s))\<close>, computed
  with the NFKD table below.
\<close>

section \<open>Tables\<close>

text \<open>The NFKD decomposition of the Latin-1 characters that have one; every other
  Latin-1 character is its own decomposition.\<close>

definition nfkd_tabla :: "(nat \<times> nat list) list" where
  "nfkd_tabla =
     [(160, [32]), (168, [32, 776]), (170, [97]), (175, [32, 772]), (178, [50]), (179, [51]),
      (180, [32, 769]), (181, [956]), (184, [32, 807]), (185, [49]), (186, [111]),
      (188, [49, 8260, 52]), (189, [49, 8260, 50]), (190, [51, 8260, 52]), (192, [65, 768]),
      (193, [65, 769]), (194, [65, 770]), (195, [65, 771]), (196, [65, 776]),
      (197, [65, 778]), (199, [67, 807]), (200, [69, 768]), (201, [69, 769]),
      (202, [69, 770]), (203, [69, 776]), (204, [73, 768]), (205, [73, 769]),
      (206, [73, 770]), (207, [73, 776]), (209, [78, 771]), (210, [79, 768]),
      (211, [79, 769]), (212, [79, 770]), (213, [79, 771]), (214, [79, 776]),
      (217, [85, 768]), (218, [85, 769]), (219, [85, 770]), (220, [85, 776]),
      (221, [89, 769]), (224, [97, 768]), (225, [97, 769]), (226, [97, 770]),
      (227, [97, 771]), (228, [97, 776]), (229, [97, 778]), (231, [99, 807]),
      (232, [101, 768]), (233, [101, 769]), (234, [101, 770]), (235, [101, 776]),
      (236, [105, 768]), (237, [105, 769]), (238, [105, 770]), (239, [105, 776]),
      (241, [110, 771]), (242, [111, 768]), (243, [111, 769]), (244, [111, 770]),
      (245, [111, 771]), (246, [111, 776]), (249, [117, 768]), (250, [117, 769]),
      (251, [117, 770]), (252, [117, 776]), (253, [121, 769]), (255, [121, 776])]"

definition nfkd_cp :: "char \<Rightarrow> nat list" where
  "nfkd_cp c = (case map_of nfkd_tabla (of_char c) of None \<Rightarrow> [of_char c] | Some d \<Rightarrow> d)"

text \<open>\<^verbatim>\<open>unicodedata.combining(ch) != 0\<close>: the combining diacritical marks
  U+0300--U+036F except U+034F.\<close>

definition py_combining :: "nat \<Rightarrow> bool" where
  "py_combining n \<longleftrightarrow> 768 \<le> n \<and> n \<le> 879 \<and> n \<noteq> 847"

text \<open>\<^verbatim>\<open>str.upper\<close> of one code point (U+00DF becomes "SS").\<close>

definition upper_cp :: "nat \<Rightarrow> nat list" where
  "upper_cp n =
     (if 97 \<le> n \<and> n \<le> 122 then [n - 32]
      else if n = 181 \<or> n = 956 then [924]
      else if n = 223 then [83, 83]
      else if 224 \<le> n \<and> n \<le> 254 \<and> n \<noteq> 247 then [n - 32]
      else if n = 255 then [376]
      else [n])"

text \<open>The regex class \<^verbatim>\<open>\s\<close> on code points (the same as \<^verbatim>\<open>str.isspace\<close>).\<close>

definition py_isspace_cp :: "nat \<Rightarrow> bool" where
  "py_isspace_cp n \<longleftrightarrow>
     (9 \<le> n \<and> n \<le> 13) \<or> (28 \<le> n \<and> n \<le> 32) \<or> n = 133 \<or> n = 160 \<or> n = 5760
     \<or> (8192 \<le> n \<and> n \<le> 8202) \<or> n = 8232 \<or> n = 8233 \<or> n = 8239 \<or> n = 8287 \<or> n = 12288"

text \<open>\<^verbatim>\<open>re.sub(r"\s+", " ", s)\<close>: each maximal run of white space becomes one space.\<close>

function colapsar :: "nat list \<Rightarrow> nat list" where
  "colapsar [] = []"
| "colapsar (c # cs) =
     (if py_isspace_cp c then 32 # colapsar (dropWhile py_isspace_cp cs) else c # colapsar cs)"
  by pat_completeness auto
termination
  by (relation "measure length") (auto simp: le_imp_less_Suc length_dropWhile_le)

text \<open>\<^verbatim>\<open>str.lower\<close> on a Latin-1 character.\<close>

definition py_lower :: "char \<Rightarrow> char" where
  "py_lower c =
     (let n = (of_char c :: nat) in
      if (65 \<le> n \<and> n \<le> 90) \<or> (192 \<le> n \<and> n \<le> 222 \<and> n \<noteq> 215) then char_of (n + 32) else c)"

text \<open>The regex class \<^verbatim>\<open>\d\<close> (Unicode decimal digits, category Nd) on the code
  points NFKD of Latin-1 produces: only U+0030--U+0039.\<close>

definition py_isdigit_cp :: "nat \<Rightarrow> bool" where
  "py_isdigit_cp n \<longleftrightarrow> 48 \<le> n \<and> n \<le> 57"

text \<open>Line 138 read literally: \<^verbatim>\<open>"+"\<close> followed by the digits of the NFKD
  decomposition.\<close>

definition limpiar_numero_nfkd :: "string \<Rightarrow> string" where
  "limpiar_numero_nfkd s = CHR ''+'' # map char_of (filter py_isdigit_cp (concat (map nfkd_cp s)))"

section \<open>Lemmas\<close>

lemma nfkd_tabla_bajo: "k < 160 \<Longrightarrow> map_of nfkd_tabla k = None"
  by (auto simp: nfkd_tabla_def)

lemma py_isspace_lower: "py_isspace (py_lower c) = py_isspace c"
  by (auto simp: py_lower_def py_isspace_def Let_def)

lemma nfkd_tabla_cabeza: "(k, d) \<in> set nfkd_tabla \<Longrightarrow> d \<noteq> [] \<and> \<not> py_combining (hd d)"
  by (auto simp: nfkd_tabla_def py_combining_def)

lemma colapsar_Nil_iff [simp]: "colapsar xs = [] \<longleftrightarrow> xs = []"
  by (cases xs) simp_all

lemma py_isdigit_cp_iff: "py_isdigit c \<longleftrightarrow> py_isdigit_cp (of_char c)"
proof
  assume "py_isdigit c"
  then show "py_isdigit_cp (of_char c)" by (auto simp: py_isdigit_def py_isdigit_cp_def)
next
  assume "py_isdigit_cp (of_char c)"
  then have "of_char c \<in> set [48..<58::nat]" by (simp only: set_upt py_isdigit_cp_def) simp
  then have "(of_char c :: nat) \<in> {48, 49, 50, 51, 52, 53, 54, 55, 56, 57}"
    by (simp add: upt_rec)
  then obtain n :: nat where n: "n \<in> {48, 49, 50, 51, 52, 53, 54, 55, 56, 57}" and c: "c = char_of n"
    by (metis char_of_char)
  from n show "py_isdigit c"
    unfolding c by (auto simp: py_isdigit_def char_of_nat_eq)
qed
lemma nfkd_digitos_tabla:
  "\<forall>(k, d) \<in> set nfkd_tabla. nfkd_digitos (char_of k) = map char_of (filter py_isdigit_cp d)"
  by (simp add: nfkd_tabla_def nfkd_digitos_def py_isdigit_cp_iff py_isdigit_cp_def Let_def char_of_nat_eq')

lemma nfkd_digitos_nfkd: "nfkd_digitos c = map char_of (filter py_isdigit_cp (nfkd_cp c))"
proof (cases "map_of nfkd_tabla (of_char c)")
  case None
  then have "of_char c \<notin> fst ` set nfkd_tabla" by (simp add: map_of_eq_None_iff)
  then have "(of_char c :: nat) \<notin> {178, 179, 185, 188, 189, 190}" by (auto simp: nfkd_tabla_def)
  then show ?thesis using None
    by (simp add: nfkd_cp_def nfkd_digitos_def py_isdigit_cp_iff Let_def)
next
  case (Some d)
  then have "(of_char c, d) \<in> set nfkd_tabla" by (rule map_of_SomeD)
  then have "nfkd_digitos (char_of (of_char c)) = map char_of (filter py_isdigit_cp d)"
    using bspec [OF nfkd_digitos_tabla] by fastforce
  with Some show ?thesis by (simp add: nfkd_cp_def)
qed

end
