(* ===== verification/Reference.thy ===== *)
theory Reference
  imports Store Unicode "HOL-Library.While_Combinator"
begin

text \<open>
  The read-only reference data of src/app.py: the candidate cache loaded from
  \<^verbatim>\<open>privado/CandidatosPorMunicipio.csv\<close> at start-up (lines 28--122, with the
  text normalisation \<^verbatim>\<open>_norm_text\<close> of lines 40--48), and the two JSON endpoints
  \<^verbatim>\<open>api_recintos\<close> (lines 696--762) and \<^verbatim>\<open>api_candidatos\<close> (lines 765--823).

  A CSV file is what the \<^verbatim>\<open>csv\<close> module yields from it: nothing (the file does not
  exist), an exception while reading the header, or the header and the non-blank
  records followed, possibly, by the exception that stopped the reading.  A record
  becomes a dictionary as \<^verbatim>\<open>csv.DictReader\<close> builds it: header names zipped with
  the values, a later column overriding an earlier one of the same name, and the
  names beyond a short record mapped to \<^verbatim>\<open>None\<close>; values beyond the header go to
  the key \<^verbatim>\<open>None\<close>, which no lookup of the code reads.

  \<^verbatim>\<open>_norm_text\<close> produces code points outside Latin-1 (NFKD maps U+00B5 to
  U+03BC, the vulgar fractions contain U+2044), so its result is a list of code
  points, \<open>nat list\<close>, computed with the Unicode tables of theory \<open>Unicode\<close>.
\<close>

section \<open>Text normalisation\<close>

text \<open>\<^verbatim>\<open>_norm_text\<close>, lines 40--48: strip, NFKD, drop combining marks, upper case,
  collapse white space; \<^verbatim>\<open>None\<close> gives the empty string.\<close>

definition norm_text :: "string option \<Rightarrow> nat list" where
  "norm_text s =
     (case s of
        None \<Rightarrow> []
      | Some x \<Rightarrow> colapsar (concat (map upper_cp
                   (filter (\<lambda>n. \<not> py_combining n) (concat (map nfkd_cp (py_strip x)))))))"

text \<open>The contribution of one character to the string before the white-space
  collapse.\<close>

definition norm_char :: "char \<Rightarrow> nat list" where
  "norm_char c = concat (map upper_cp (filter (\<lambda>n. \<not> py_combining n) (nfkd_cp c)))"

section \<open>CSV files\<close>

datatype archivo =
    NoExiste
  | Ilegible py_exc
  | Archivo "string list" "string list list" "py_exc option"

text \<open>The dictionary of one record, in insertion order.\<close>

definition dict_fila :: "string list \<Rightarrow> string list \<Rightarrow> (string \<times> string option) list" where
  "dict_fila hs vs = zip hs (map Some vs) @ map (\<lambda>h. (h, None)) (drop (length vs) hs)"

text \<open>\<^verbatim>\<open>row.get(k)\<close>: \<open>None\<close> for an absent key or a missing value.\<close>

definition fila_get :: "string list \<Rightarrow> string list \<Rightarrow> string \<Rightarrow> string option" where
  "fila_get hs vs k = (case map_of (rev (dict_fila hs vs)) k of None \<Rightarrow> None | Some v \<Rightarrow> v)"

text \<open>\<^verbatim>\<open>row[k]\<close>: \<^verbatim>\<open>KeyError\<close> for an absent key.\<close>

definition fila_idx :: "string list \<Rightarrow> string list \<Rightarrow> string \<Rightarrow> string option py" where
  "fila_idx hs vs k = (case map_of (rev (dict_fila hs vs)) k of None \<Rightarrow> Inl KeyError | Some v \<Rightarrow> Inr v)"

text \<open>\<^verbatim>\<open>str(row.get(k) or "").strip()\<close>\<close>

definition campo_csv :: "string list \<Rightarrow> string list \<Rightarrow> string \<Rightarrow> string" where
  "campo_csv hs vs k = py_strip (case fila_get hs vs k of None \<Rightarrow> [] | Some v \<Rightarrow> v)"

section \<open>The candidate cache\<close>

record item =
  it_id_municipio :: string
  it_municipio :: "nat list"
  it_id_nombre_completo :: string
  it_nombre_completo :: string
  it_id_organizacion_politica :: string
  it_organizacion_politica :: string
  it_id_cargo :: string
  it_cargo :: string

datatype error_carga = ErrNoExiste | ErrColumnas "string list" | ErrLectura py_exc

record cache =
  by_id_municipio :: "string \<rightharpoonup> item list"
  id_by_municipio :: "nat list \<rightharpoonup> string list"
  loaded :: bool
  error :: "error_carga option"

definition cache_vacia :: cache where
  "cache_vacia = \<lparr>by_id_municipio = Map.empty, id_by_municipio = Map.empty, loaded = False, error = None\<rparr>"

text \<open>The required columns, lines 73--82, listed in sorted order, so that the
  missing ones are \<^verbatim>\<open>sorted(list(faltantes))\<close>.\<close>

definition requeridos_candidatos :: "string list" where
  "requeridos_candidatos =
     [''cargo'', ''id_cargo'', ''id_municipio'', ''id_nombre_completo'', ''id_organizacion_politica'',
      ''municipio'', ''nombre_completo'', ''organizacion_politica'']"

text \<open>The item of lines 95--104.\<close>

definition item_de :: "string list \<Rightarrow> string list \<Rightarrow> item" where
  "item_de hs vs =
     \<lparr>it_id_municipio = campo_csv hs vs ''id_municipio'', it_municipio = norm_text (fila_get hs vs ''municipio''),
      it_id_nombre_completo = campo_csv hs vs ''id_nombre_completo'',
      it_nombre_completo = campo_csv hs vs ''nombre_completo'',
      it_id_organizacion_politica = campo_csv hs vs ''id_organizacion_politica'',
      it_organizacion_politica = campo_csv hs vs ''organizacion_politica'',
      it_id_cargo = campo_csv hs vs ''id_cargo'', it_cargo = campo_csv hs vs ''cargo''\<rparr>"

text \<open>The rows the loop keeps (line 92).\<close>

definition fila_valida :: "string list \<Rightarrow> string list \<Rightarrow> bool" where
  "fila_valida hs vs \<longleftrightarrow> campo_csv hs vs ''id_municipio'' \<noteq> [] \<and> norm_text (fila_get hs vs ''municipio'') \<noteq> []"

text \<open>One iteration of the loop of lines 88--111.\<close>

definition cargar_fila :: "string list \<Rightarrow> string list \<Rightarrow> cache \<Rightarrow> cache" where
  "cargar_fila hs vs c =
     (let id_mun = campo_csv hs vs ''id_municipio'';
          mun = norm_text (fila_get hs vs ''municipio'')
      in if \<not> fila_valida hs vs then c
         else
           let items = (case by_id_municipio c id_mun of None \<Rightarrow> [] | Some l \<Rightarrow> l);
               ids = (case id_by_municipio c mun of None \<Rightarrow> [] | Some l \<Rightarrow> l)
           in c\<lparr>by_id_municipio := (by_id_municipio c)(id_mun \<mapsto> items @ [item_de hs vs]),
                id_by_municipio := (id_by_municipio c)(mun \<mapsto> (if id_mun \<in> set ids then ids else ids @ [id_mun]))\<rparr>)"

text \<open>\<^verbatim>\<open>cargar_candidatos_desde_csv\<close>, lines 51--116: the cache is reset, then
  filled; an exception while reading leaves the rows read so far and records the
  error.\<close>

definition cargar_candidatos_desde_csv :: "archivo \<Rightarrow> cache" where
  "cargar_candidatos_desde_csv a =
     (case a of
        NoExiste \<Rightarrow> cache_vacia\<lparr>error := Some ErrNoExiste\<rparr>
      | Ilegible e \<Rightarrow> cache_vacia\<lparr>error := Some (ErrLectura e)\<rparr>
      | Archivo hs filas fallo \<Rightarrow>
          let faltantes = filter (\<lambda>k. k \<notin> set hs) requeridos_candidatos in
          if faltantes \<noteq> [] then cache_vacia\<lparr>error := Some (ErrColumnas faltantes)\<rparr>
          else
            let c = fold (cargar_fila hs) filas cache_vacia in
            (case fallo of None \<Rightarrow> c\<lparr>loaded := True\<rparr> | Some e \<Rightarrow> c\<lparr>error := Some (ErrLectura e)\<rparr>))"

text \<open>\<^verbatim>\<open>asegurar_candidatos_cargados\<close>, lines 119--122.\<close>

definition asegurar_candidatos_cargados :: "archivo \<Rightarrow> cache \<Rightarrow> cache" where
  "asegurar_candidatos_cargados a c =
     (if \<not> loaded c \<and> error c = None then cargar_candidatos_desde_csv a else c)"

section \<open>The endpoints\<close>

text \<open>Opening and reading a file: \<^verbatim>\<open>FileNotFoundError\<close> when it does not exist,
  otherwise the header, the records and the exception that may end the reading,
  handed to the code that iterates over them.\<close>

definition leer :: "archivo \<Rightarrow> (string list \<Rightarrow> string list list \<Rightarrow> py_exc option \<Rightarrow> 'a py) \<Rightarrow> 'a py" where
  "leer a k = (case a of NoExiste \<Rightarrow> Inl FileNotFoundError | Ilegible e \<Rightarrow> Inl e | Archivo hs filas f \<Rightarrow> k hs filas f)"

text \<open>The end of the records: \<^verbatim>\<open>StopIteration\<close>, or the exception that ended them.\<close>

definition fin_lectura :: "py_exc option \<Rightarrow> 'a \<Rightarrow> 'a py" where
  "fin_lectura f x = (case f of None \<Rightarrow> Inr x | Some e \<Rightarrow> Inl e)"

subsection \<open>\<^verbatim>\<open>api_recintos\<close>\<close>

record recinto =
  r_id_pais :: string
  r_nombre_pais :: string
  r_id_departamento :: string
  r_nombre_departamento :: string
  r_id_provincia :: string
  r_nombre_provincia :: string
  r_id_municipio :: string
  r_nombre_municipio :: string
  r_id_recinto :: string
  r_nombre_recinto :: string
  r_direccion :: string
  r_latitud :: string
  r_longitud :: string

datatype resp_recintos =
    RecAccesoNoAutorizado
  | RecColumnasIncompletas
  | RecNoDisponible
  | RecErrorProcesando
  | RecJson "recinto list"

definition requeridos_recintos :: "string list" where
  "requeridos_recintos =
     [''id_pais'', ''nombre_pais'', ''id_departamento'', ''nombre_departamento'', ''id_provincia'',
      ''nombre_provincia'', ''id_municipio'', ''nombre_municipio'', ''id_recinto'', ''nombre_recinto'']"

text \<open>The dictionary of lines 733--752.\<close>

definition recinto_de :: "string list \<Rightarrow> string list \<Rightarrow> recinto" where
  "recinto_de hs vs =
     \<lparr>r_id_pais = campo_csv hs vs ''id_pais'', r_nombre_pais = campo_csv hs vs ''nombre_pais'',
      r_id_departamento = campo_csv hs vs ''id_departamento'',
      r_nombre_departamento = campo_csv hs vs ''nombre_departamento'',
      r_id_provincia = campo_csv hs vs ''id_provincia'', r_nombre_provincia = campo_csv hs vs ''nombre_provincia'',
      r_id_municipio = campo_csv hs vs ''id_municipio'', r_nombre_municipio = campo_csv hs vs ''nombre_municipio'',
      r_id_recinto = campo_csv hs vs ''id_recinto'', r_nombre_recinto = campo_csv hs vs ''nombre_recinto'',
      r_direccion = campo_csv hs vs ''Direccion'', r_latitud = campo_csv hs vs ''latitud'',
      r_longitud = campo_csv hs vs ''longitud''\<rparr>"

text \<open>Lines 697--762: the referer check (the same expected domain as
  \<^verbatim>\<open>enviar_voto\<close>), the column check, the rows; \<^verbatim>\<open>FileNotFoundError\<close> and every
  other exception are answered with a 500 page.\<close>

definition api_recintos :: "config \<Rightarrow> string option \<Rightarrow> archivo \<Rightarrow> resp_recintos" where
  "api_recintos cfg referer_h a =
     (let referer = (case referer_h of None \<Rightarrow> [] | Some r \<Rightarrow> r) in
      if referer \<noteq> [] \<and> \<not> py_in (dominio_permitido cfg) referer then RecAccesoNoAutorizado
      else
        case leer a (\<lambda>hs filas f.
               if \<not> set requeridos_recintos \<subseteq> set hs then Inr RecColumnasIncompletas
               else fin_lectura f (RecJson (map (recinto_de hs) filas))) of
          Inr r \<Rightarrow> r
        | Inl e \<Rightarrow> if e = FileNotFoundError then RecNoDisponible else RecErrorProcesando)"

subsection \<open>\<^verbatim>\<open>api_candidatos\<close>\<close>

text \<open>\<^verbatim>\<open>fila[k].strip().lower()\<close>: \<^verbatim>\<open>KeyError\<close> for an absent column,
  \<^verbatim>\<open>AttributeError\<close> for a missing value.\<close>

definition campo_min :: "string list \<Rightarrow> string list \<Rightarrow> string \<Rightarrow> string py" where
  "campo_min hs vs k =
     py_bind (fila_idx hs vs k) (\<lambda>v. case v of None \<Rightarrow> Inl AttributeError | Some x \<Rightarrow> Inr (map py_lower (py_strip x)))"

text \<open>Lines 785--792: the first precinct row with the requested id gives the
  department, province and municipality names.\<close>

fun buscar_municipio :: "string list \<Rightarrow> py_exc option \<Rightarrow> string \<Rightarrow> string list list \<Rightarrow> (string \<times> string \<times> string) option py" where
  "buscar_municipio hs f i [] = fin_lectura f None"
| "buscar_municipio hs f i (vs # filas) =
     py_bind (fila_idx hs vs ''id_municipio'') (\<lambda>v.
       if v = Some i then
         py_bind (campo_min hs vs ''nombre_departamento'') (\<lambda>d.
         py_bind (campo_min hs vs ''nombre_provincia'') (\<lambda>p.
         py_bind (campo_min hs vs ''nombre_municipio'') (\<lambda>m. Inr (Some (d, p, m)))))
       else buscar_municipio hs f i filas)"

text \<open>The body of that loop for one row: the names when the row matches,
  \<open>Inr None\<close> to go on with the next row.\<close>

definition fila_municipio :: "string list \<Rightarrow> string \<Rightarrow> string list \<Rightarrow> (string \<times> string \<times> string) option py" where
  "fila_municipio hs i vs =
     py_bind (fila_idx hs vs ''id_municipio'') (\<lambda>v.
       if v = Some i then
         py_bind (campo_min hs vs ''nombre_departamento'') (\<lambda>d.
         py_bind (campo_min hs vs ''nombre_provincia'') (\<lambda>p.
         py_bind (campo_min hs vs ''nombre_municipio'') (\<lambda>m. Inr (Some (d, p, m)))))
       else Inr None)"

text \<open>The loop of lines 785--791 kept as a loop: the state is the rows not yet read
  and the outcome so far; it stops at the \<^verbatim>\<open>break\<close> of a match, at an exception, or
  when the rows run out, where the reader's own end (\<open>fin_lectura\<close>) decides.\<close>

definition buscar_municipio_bucle ::
  "string list \<Rightarrow> py_exc option \<Rightarrow> string \<Rightarrow> string list list \<Rightarrow> (string \<times> string \<times> string) option py option" where
  "buscar_municipio_bucle hs f i filas =
     map_option (\<lambda>(_, r). if r = Inr None then fin_lectura f None else r)
       (while_option (\<lambda>(rs, r). r = Inr None \<and> rs \<noteq> []) (\<lambda>(rs, r). (tl rs, fila_municipio hs i (hd rs)))
          (filas, Inr None))"

record candidato =
  ca_id_nombre_completo :: "string option"
  ca_nombre_completo :: "string option"
  ca_organizacion_politica :: "string option"
  ca_id_organizacion_politica :: "string option"
  ca_id_cargo :: "string option"
  ca_cargo :: "string option"

text \<open>The condition of lines 808--813, evaluated left to right with \<^verbatim>\<open>and\<close>.\<close>

definition es_alcalde :: "string list \<Rightarrow> string list \<Rightarrow> string \<Rightarrow> string \<Rightarrow> string \<Rightarrow> bool py" where
  "es_alcalde hs vs d p m =
     py_bind (campo_min hs vs ''departamento'') (\<lambda>d'. if d' \<noteq> d then Inr False else
     py_bind (campo_min hs vs ''provincia'') (\<lambda>p'. if p' \<noteq> p then Inr False else
     py_bind (campo_min hs vs ''municipio'') (\<lambda>m'. if m' \<noteq> m then Inr False else
     py_bind (campo_min hs vs ''cargo'') (\<lambda>c. Inr (c = ''alcalde'')))))"

text \<open>The dictionary of lines 814--821.\<close>

definition candidato_de :: "string list \<Rightarrow> string list \<Rightarrow> candidato py" where
  "candidato_de hs vs =
     py_bind (fila_idx hs vs ''id_nombre_completo'') (\<lambda>a.
     py_bind (fila_idx hs vs ''nombre_completo'') (\<lambda>b.
     py_bind (fila_idx hs vs ''organizacion_politica'') (\<lambda>c.
     py_bind (fila_idx hs vs ''id_organizacion_politica'') (\<lambda>d.
     py_bind (fila_idx hs vs ''id_cargo'') (\<lambda>e.
     py_bind (fila_idx hs vs ''cargo'') (\<lambda>g.
       Inr \<lparr>ca_id_nombre_completo = a, ca_nombre_completo = b, ca_organizacion_politica = c,
            ca_id_organizacion_politica = d, ca_id_cargo = e, ca_cargo = g\<rparr>))))))"

text \<open>The loop of lines 806--821.\<close>

fun filtrar_candidatos :: "string list \<Rightarrow> py_exc option \<Rightarrow> string \<Rightarrow> string \<Rightarrow> string \<Rightarrow> string list list \<Rightarrow> candidato list py" where
  "filtrar_candidatos hs f d p m [] = fin_lectura f []"
| "filtrar_candidatos hs f d p m (vs # filas) =
     py_bind (es_alcalde hs vs d p m) (\<lambda>ok.
       if ok then py_bind (candidato_de hs vs) (\<lambda>c.
                  py_bind (filtrar_candidatos hs f d p m filas) (\<lambda>cs. Inr (c # cs)))
       else filtrar_candidatos hs f d p m filas)"

text \<open>Lines 766--823.  Exceptions are not caught: an \<open>Inl\<close> is an HTTP 500.\<close>

definition api_candidatos :: "string option \<Rightarrow> archivo \<Rightarrow> archivo \<Rightarrow> candidato list py" where
  "api_candidatos id_municipio recintos candidatos =
     (if \<not> truthy_opt id_municipio then Inr []
      else
        py_bind (leer recintos (\<lambda>hs filas f. buscar_municipio hs f (the id_municipio) filas)) (\<lambda>r.
          case r of
            None \<Rightarrow> Inr []
          | Some (d, p, m) \<Rightarrow>
              if m = [] then Inr []
              else leer candidatos (\<lambda>hs filas f. filtrar_candidatos hs f d p m filas)))"

section \<open>Lemmas\<close>

subsection \<open>Normalisation\<close>

lemma norm_char_ascii: "(n::nat) < 160 \<Longrightarrow> norm_char (char_of n) = upper_cp n"
  by (simp add: norm_char_def nfkd_cp_def nfkd_tabla_bajo py_combining_def)

lemma norm_char_lower_nat:
  fixes n :: nat
  assumes "n < 256"
  shows "norm_char (py_lower (char_of n)) = norm_char (char_of n)"
proof -
  have o: "of_char (char_of n :: char) = n" using assms by simp
  consider "65 \<le> n \<and> n \<le> 90" | "192 \<le> n \<and> n \<le> 222 \<and> n \<noteq> 215"
    | "\<not> ((65 \<le> n \<and> n \<le> 90) \<or> (192 \<le> n \<and> n \<le> 222 \<and> n \<noteq> 215))" by blast
  then show ?thesis
  proof cases
    case 1
    then show ?thesis
      by (simp add: py_lower_def o norm_char_ascii upper_cp_def)
  next
    case 2
    then have "n \<in> set [192..<223]" by (simp only: set_upt) simp
    then have "n = 192 \<or> n = 193 \<or> n = 194 \<or> n = 195 \<or> n = 196 \<or> n = 197 \<or> n = 198 \<or> n = 199 \<or>
      n = 200 \<or> n = 201 \<or> n = 202 \<or> n = 203 \<or> n = 204 \<or> n = 205 \<or> n = 206 \<or> n = 207 \<or>
      n = 208 \<or> n = 209 \<or> n = 210 \<or> n = 211 \<or> n = 212 \<or> n = 213 \<or> n = 214 \<or> n = 216 \<or>
      n = 217 \<or> n = 218 \<or> n = 219 \<or> n = 220 \<or> n = 221 \<or> n = 222"
      using 2 by (simp add: upt_rec)
    then show ?thesis
      by (elim disjE) (simp_all add: py_lower_def norm_char_def nfkd_cp_def nfkd_tabla_def upper_cp_def py_combining_def)
  next
    case 3
    then show ?thesis using assms by (auto simp: py_lower_def Let_def)
  qed
qed

lemma norm_char_lower: "norm_char (py_lower c) = norm_char c"
  using norm_char_lower_nat [of "of_char c"] by simp

lemma py_strip_map_lower: "py_strip (map py_lower s) = map py_lower (py_strip s)"
  by (simp add: py_strip_def dropWhile_map rev_map comp_def py_isspace_lower)

lemma concat_norm_char:
  "concat (map upper_cp (filter (\<lambda>n. \<not> py_combining n) (concat (map nfkd_cp ys)))) = concat (map norm_char ys)"
  by (induction ys) (simp_all add: norm_char_def)

lemma norm_text_Some: "norm_text (Some x) = colapsar (concat (map norm_char (py_strip x)))"
  by (simp add: norm_text_def concat_norm_char)

lemma norm_char_no_vacio: "norm_char c \<noteq> []"
proof (cases "map_of nfkd_tabla (of_char c)")
  case None
  have "(of_char c :: nat) < 256" by simp
  then have "(of_char c :: nat) < 768" by linarith
  with None show ?thesis by (simp add: norm_char_def nfkd_cp_def py_combining_def upper_cp_def)
next
  case (Some d)
  then have "d \<noteq> [] \<and> \<not> py_combining (hd d)" by (auto dest: map_of_SomeD nfkd_tabla_cabeza)
  then obtain x xs where "d = x # xs" "\<not> py_combining x" by (cases d) auto
  with Some show ?thesis by (simp add: norm_char_def nfkd_cp_def upper_cp_def)
qed

lemma norm_text_vacio: "norm_text (Some x) = [] \<longleftrightarrow> py_strip x = []"
  by (cases "py_strip x") (simp_all add: norm_text_Some norm_char_no_vacio)

lemma norm_char_latin: "of_char c < (160::nat) \<Longrightarrow> norm_char c = upper_cp (of_char c)"
  using norm_char_ascii [of "of_char c"] by simp

subsection \<open>The cache\<close>

lemma cargar_candidatos_fin: "loaded (cargar_candidatos_desde_csv a) \<or> error (cargar_candidatos_desde_csv a) \<noteq> None"
  by (auto simp: cargar_candidatos_desde_csv_def Let_def cache_vacia_def split: archivo.splits option.splits)

lemma cargar_fila_by_id:
  "by_id_municipio (cargar_fila hs vs c) k =
     (if fila_valida hs vs \<and> campo_csv hs vs ''id_municipio'' = k
      then Some ((case by_id_municipio c k of None \<Rightarrow> [] | Some l \<Rightarrow> l) @ [item_de hs vs])
      else by_id_municipio c k)"
  by (auto simp: cargar_fila_def Let_def)

lemma cargar_fila_ids:
  "id_by_municipio (cargar_fila hs vs c) m =
     (if fila_valida hs vs \<and> norm_text (fila_get hs vs ''municipio'') = m
      then (let ids = (case id_by_municipio c m of None \<Rightarrow> [] | Some l \<Rightarrow> l) in
            Some (if campo_csv hs vs ''id_municipio'' \<in> set ids then ids else ids @ [campo_csv hs vs ''id_municipio'']))
      else id_by_municipio c m)"
  by (auto simp: cargar_fila_def Let_def)

lemma fold_cargar_by_id:
  "by_id_municipio (fold (cargar_fila hs) filas c) k =
     (let l = map (item_de hs) (filter (\<lambda>vs. fila_valida hs vs \<and> campo_csv hs vs ''id_municipio'' = k) filas) in
      case by_id_municipio c k of None \<Rightarrow> (if l = [] then None else Some l) | Some l0 \<Rightarrow> Some (l0 @ l))"
proof (induction filas arbitrary: c)
  case Nil
  then show ?case by (simp split: option.splits)
next
  case (Cons vs filas)
  show ?case
    using Cons.IH [of "cargar_fila hs vs c"]
    by (simp add: cargar_fila_by_id Let_def split: option.splits)
qed

lemma fold_cargar_ids:
  "set (case id_by_municipio (fold (cargar_fila hs) filas c) m of None \<Rightarrow> [] | Some l \<Rightarrow> l) =
     set (case id_by_municipio c m of None \<Rightarrow> [] | Some l \<Rightarrow> l) \<union>
     {campo_csv hs vs ''id_municipio'' |vs. vs \<in> set filas \<and> fila_valida hs vs \<and> norm_text (fila_get hs vs ''municipio'') = m}"
proof (induction filas arbitrary: c)
  case Nil
  then show ?case by simp
next
  case (Cons vs filas)
  have "set (case id_by_municipio (cargar_fila hs vs c) m of None \<Rightarrow> [] | Some l \<Rightarrow> l) =
        set (case id_by_municipio c m of None \<Rightarrow> [] | Some l \<Rightarrow> l) \<union>
        (if fila_valida hs vs \<and> norm_text (fila_get hs vs ''municipio'') = m
         then {campo_csv hs vs ''id_municipio''} else {})"
    by (auto simp: cargar_fila_ids Let_def split: option.splits)
  with Cons.IH [of "cargar_fila hs vs c"] show ?case
    by (auto split: if_splits)
qed

lemma fold_cargar_ids_distinct:
  "(\<forall>m l. id_by_municipio c m = Some l \<longrightarrow> distinct l \<and> l \<noteq> []) \<Longrightarrow>
   id_by_municipio (fold (cargar_fila hs) filas c) m = Some l \<Longrightarrow> distinct l \<and> l \<noteq> []"
proof (induction filas arbitrary: c)
  case Nil
  then show ?case by simp
next
  case (Cons vs filas)
  have "\<forall>m l. id_by_municipio (cargar_fila hs vs c) m = Some l \<longrightarrow> distinct l \<and> l \<noteq> []"
    using Cons.prems(1) by (auto simp: cargar_fila_ids Let_def split: option.splits)
  with Cons.IH Cons.prems(2) show ?case by simp
qed

text \<open>With every required column present, the two indexes are those built by the
  loop over all the rows read, whether or not the reading ended in an exception.\<close>

lemma cargar_columnas_completas:
  assumes "set requeridos_candidatos \<subseteq> set hs"
  shows "by_id_municipio (cargar_candidatos_desde_csv (Archivo hs filas f)) =
           by_id_municipio (fold (cargar_fila hs) filas cache_vacia)"
    and "id_by_municipio (cargar_candidatos_desde_csv (Archivo hs filas f)) =
           id_by_municipio (fold (cargar_fila hs) filas cache_vacia)"
proof -
  have "filter (\<lambda>k. k \<notin> set hs) requeridos_candidatos = []"
    using assms by (auto simp: filter_empty_conv)
  then show "by_id_municipio (cargar_candidatos_desde_csv (Archivo hs filas f)) =
           by_id_municipio (fold (cargar_fila hs) filas cache_vacia)"
    and "id_by_municipio (cargar_candidatos_desde_csv (Archivo hs filas f)) =
           id_by_municipio (fold (cargar_fila hs) filas cache_vacia)"
    by (simp_all add: cargar_candidatos_desde_csv_def Let_def split: option.splits)
qed

subsection \<open>The endpoints\<close>

lemma fila_idx_ausente: "k \<notin> set hs \<Longrightarrow> fila_idx hs vs k = Inl KeyError"
proof -
  assume k: "k \<notin> set hs"
  have "fst ` set (dict_fila hs vs) \<subseteq> set hs"
    by (auto simp: dict_fila_def dest: set_zip_leftD in_set_dropD)
  with k have "map_of (rev (dict_fila hs vs)) k = None"
    by (auto simp: map_of_eq_None_iff)
  then show ?thesis by (simp add: fila_idx_def)
qed

lemma campo_min_ausente: "k \<notin> set hs \<Longrightarrow> campo_min hs vs k = Inl KeyError"
  by (simp add: campo_min_def fila_idx_ausente)

lemma filtrar_candidatos_Inr:
  "filtrar_candidatos hs f d p m filas = Inr cs \<Longrightarrow>
   map Inr cs = map (candidato_de hs) (filter (\<lambda>vs. es_alcalde hs vs d p m = Inr True) filas)"
proof (induction filas arbitrary: cs)
  case Nil
  then show ?case by (simp add: fin_lectura_def split: option.splits)
next
  case (Cons vs filas)
  then show ?case by (auto split: if_splits)
qed

lemma buscar_municipio_Some:
  "buscar_municipio hs f i filas = Inr (Some (d, p, m)) \<Longrightarrow>
   \<exists>pre vs post. filas = pre @ vs # post \<and> (\<forall>r \<in> set pre. fila_idx hs r ''id_municipio'' \<noteq> Inr (Some i))
     \<and> fila_idx hs vs ''id_municipio'' = Inr (Some i) \<and> campo_min hs vs ''nombre_departamento'' = Inr d
     \<and> campo_min hs vs ''nombre_provincia'' = Inr p \<and> campo_min hs vs ''nombre_municipio'' = Inr m"
proof (induction filas)
  case Nil
  then show ?case by (simp add: fin_lectura_def split: option.splits)
next
  case (Cons vs filas)
  show ?case
  proof (cases "fila_idx hs vs ''id_municipio'' = Inr (Some i)")
    case True
    with Cons.prems show ?thesis
      by (auto intro: exI [of _ "[]"] exI [of _ vs] exI [of _ filas] split: if_splits)
  next
    case False
    with Cons.prems have "buscar_municipio hs f i filas = Inr (Some (d, p, m))"
      by (auto split: if_splits)
    then obtain pre w post where "filas = pre @ w # post" "\<forall>r \<in> set pre. fila_idx hs r ''id_municipio'' \<noteq> Inr (Some i)"
      "fila_idx hs w ''id_municipio'' = Inr (Some i) \<and> campo_min hs w ''nombre_departamento'' = Inr d
       \<and> campo_min hs w ''nombre_provincia'' = Inr p \<and> campo_min hs w ''nombre_municipio'' = Inr m"
      using Cons.IH by blast
    with False show ?thesis
      by (intro exI [of _ "vs # pre"] exI [of _ w] exI [of _ post]) auto
  qed
qed

text \<open>The loop and the recursive search agree row by row.\<close>

lemma buscar_municipio_Cons_fila:
  "buscar_municipio hs f i (vs # rs) =
     (if fila_municipio hs i vs = Inr None then buscar_municipio hs f i rs else fila_municipio hs i vs)"
  by (cases "fila_idx hs vs ''id_municipio''") (auto simp: fila_municipio_def py_bind_def split: sum.splits)

lemma buscar_municipio_fin:
  "buscar_municipio hs f i rs =
     (if buscar_municipio hs None i rs = Inr None then fin_lectura f None else buscar_municipio hs None i rs)"
  by (induction rs) (simp_all add: buscar_municipio_Cons_fila fin_lectura_def del: buscar_municipio.simps(2))

lemma buscar_municipio_while:
  "\<exists>rs'. while_option (\<lambda>(rs, r). r = Inr None \<and> rs \<noteq> []) (\<lambda>(rs, r). (tl rs, fila_municipio hs i (hd rs)))
           (filas, Inr None) = Some (rs', buscar_municipio hs None i filas)"
proof (induction filas)
  case Nil
  show ?case by (simp add: while_option_unfold [of _ _ "([], Inr None)"] fin_lectura_def)
next
  case (Cons vs rs)
  show ?case
  proof (cases "fila_municipio hs i vs = Inr None")
    case True
    with Cons.IH show ?thesis
      by (simp add: while_option_unfold [of _ _ "(vs # rs, Inr None)"] buscar_municipio_Cons_fila del: buscar_municipio.simps(2))
  next
    case False
    then show ?thesis
      by (simp add: while_option_unfold [of _ _ "(vs # rs, Inr None)"] while_option_unfold [of _ _ "(rs, fila_municipio hs i vs)"]
            buscar_municipio_Cons_fila del: buscar_municipio.simps(2))
  qed
qed

end
