(* ===== verification/App.thy ===== *)
theory App
  imports Registration
begin

text \<open>
  The application's start-up configuration (src/app.py lines 173--190) and the
  routes that only render or redirect: \<^verbatim>\<open>index\<close> (lines 473--475),
  \<^verbatim>\<open>preguntas_frecuentes\<close> (lines 829--831) and the \<^verbatim>\<open>GET\<close> branch of
  \<^verbatim>\<open>generar_link\<close> (lines 484, 534), and the value returned by
  \<^verbatim>\<open>enviar_mensaje_whatsapp\<close> (lines 141--168).

  The environment is a map from variable names to values.  The database back end is
  the SQLAlchemy dialect named by the scheme of \<^verbatim>\<open>DATABASE_URL\<close> (the part before
  \<^verbatim>\<open>:\<close>, without a \<^verbatim>\<open>+driver\<close> suffix); a scheme other than \<^verbatim>\<open>sqlite\<close> or
  \<^verbatim>\<open>postgresql\<close> is \<open>None\<close>: SQLAlchemy refuses it at start-up (this includes the
  \<^verbatim>\<open>postgres://\<close> spelling, which SQLAlchemy 1.4 and later no longer accept), or it
  is a database this development does not model.  The request's \<^verbatim>\<open>host_url\<close> is part
  of the configuration record because the handlers read it next to the environment.
\<close>

section \<open>Configuration\<close>

text \<open>The defaults of lines 177 and 187.\<close>

definition clave_por_defecto :: string where
  "clave_por_defecto = ''clave-super-secreta''"

definition url_por_defecto :: string where
  "url_por_defecto = ''sqlite:///votos.db''"

definition motor_de_url :: "string \<Rightarrow> backend option" where
  "motor_de_url url =
     (let esquema = takeWhile (\<lambda>c. c \<noteq> CHR '':'') url;
          dialecto = takeWhile (\<lambda>c. c \<noteq> CHR ''+'') esquema
      in if dialecto = ''sqlite'' then Some SQLite
         else if dialecto = ''postgresql'' then Some PostgreSQL
         else None)"

text \<open>Lines 175--190 with the environment reads of the handlers
  (\<^verbatim>\<open>AZURE_DOMAIN\<close>, \<^verbatim>\<open>WABA_TOKEN\<close>, whose empty value counts as unset at
  line 145).\<close>

definition config_de_entorno :: "(string \<rightharpoonup> string) \<Rightarrow> string \<Rightarrow> config option" where
  "config_de_entorno env host =
     (let url = (case env ''DATABASE_URL'' of None \<Rightarrow> url_por_defecto | Some u \<Rightarrow> u) in
      case motor_de_url url of
        None \<Rightarrow> None
      | Some m \<Rightarrow>
          Some \<lparr>secret_key = (case env ''SECRET_KEY'' of None \<Rightarrow> clave_por_defecto | Some k \<Rightarrow> k),
                azure_domain = env ''AZURE_DOMAIN'', host_url = host,
                waba_token = truthy_opt (env ''WABA_TOKEN''), motor = m\<rparr>)"

section \<open>Routes that render or redirect\<close>

datatype metodo = GET | POST

datatype respuesta =
    Redireccion string
  | Plantilla string
  | RespRegistro resp_registro

definition index :: respuesta where
  "index = Redireccion ''/generar_link''"

definition preguntas_frecuentes :: respuesta where
  "preguntas_frecuentes = Plantilla ''preguntas.html''"

text \<open>The route \<^verbatim>\<open>/generar_link\<close>: the POST branch is \<open>generar_link\<close>, any other
  method renders the form.\<close>

definition generar_link_ruta ::
  "config \<Rightarrow> nat \<Rightarrow> metodo \<Rightarrow> string option \<Rightarrow> string option \<Rightarrow> db \<Rightarrow> (respuesta \<times> db) py" where
  "generar_link_ruta cfg ahora m pais numero d =
     (case m of
        POST \<Rightarrow> py_bind (generar_link cfg ahora pais numero d) (\<lambda>(r, d'). Inr (RespRegistro r, d'))
      | GET \<Rightarrow> Inr (Plantilla ''generar_link.html'', d))"

section \<open>Outbound delivery\<close>

text \<open>The value \<^verbatim>\<open>enviar_mensaje_whatsapp\<close> returns (lines 141--168): \<^verbatim>\<open>False\<close>
  without a \<^verbatim>\<open>WABA_TOKEN\<close>, otherwise whether the HTTP answer is a 2xx status;
  \<^verbatim>\<open>False\<close> when the request raises (time-out after 15 seconds, connection
  error).  The outcome of the HTTP request is an input: its status code or the
  exception.  Which messages are attempted is \<open>enviar_mensaje_whatsapp\<close> of theory
  \<open>LinkVisit\<close>; no caller reads the returned value.\<close>

definition resultado_envio :: "config \<Rightarrow> nat py \<Rightarrow> bool" where
  "resultado_envio cfg respuesta =
     (waba_token cfg \<and> (case respuesta of Inl _ \<Rightarrow> False | Inr status \<Rightarrow> 200 \<le> status \<and> status < 300))"

section \<open>Lemmas\<close>

text \<open>An environment without \<^verbatim>\<open>DATABASE_URL\<close> runs on SQLite, and one without
  \<^verbatim>\<open>SECRET_KEY\<close> signs tokens and session cookies with the key written in the
  source.\<close>

lemma config_por_defecto:
  assumes "env ''DATABASE_URL'' = None" and "env ''SECRET_KEY'' = None"
  shows "\<exists>cfg. config_de_entorno env h = Some cfg \<and> motor cfg = SQLite \<and> secret_key cfg = clave_por_defecto"
  using assms by (simp add: config_de_entorno_def motor_de_url_def url_por_defecto_def)

end
