(* ===== verification/Carreras.thy ===== *)
theory Carreras
  imports Webhook Registration
begin

text \<open>
  Interleaving of concurrent webhook deliveries.  For a sender with no pending
  authorization, \<^verbatim>\<open>whatsapp_webhook\<close> reads the sender's counter row
  (src/app.py lines 348--350), updates the ORM object in memory (lines 361--367) and
  commits (line 368).  Two deliveries handled by two workers can both read before
  either commits.  The transaction is split here into its read, \<open>leer_contador\<close>,
  which decides what the commit will write, and its commit, \<open>escribir_contador\<close>,
  applied to the store as it is at commit time: a new row is an \<^verbatim>\<open>INSERT\<close>, which
  the unique index on \<^verbatim>\<open>numero\<close> refuses if another worker inserted the row
  meanwhile; an existing row is an \<^verbatim>\<open>UPDATE\<close> that writes the values computed from
  the read (\<^verbatim>\<open>intentos = k + 1\<close>, not \<^verbatim>\<open>intentos = intentos + 1\<close>).  Run on the
  same store, read and commit are exactly the dispatch of theory \<open>Webhook\<close>.

  Registration (\<^verbatim>\<open>generar_link\<close>, lines 500--528) is split the same way: the read
  of the ballot and of the pending authorization, then the commit of an \<^verbatim>\<open>INSERT\<close>
  or of an \<^verbatim>\<open>UPDATE\<close> of the row read.  SQLAlchemy checks that an
  \<^verbatim>\<open>UPDATE\<close> of a mapped row matched one row and raises \<^verbatim>\<open>StaleDataError\<close>
  otherwise, which happens when a ballot commit deleted the row in between.
\<close>

text \<open>The read: \<open>None\<close> for a blocked sender (answered at line 353 without a
  write), otherwise whether the row is new and the row the commit will write.\<close>

definition leer_contador :: "string \<Rightarrow> db \<Rightarrow> (bool \<times> bloqueo) option" where
  "leer_contador n d =
     (case bloqueos d n of
        None \<Rightarrow> Some (True, registrar_intento None)
      | Some b \<Rightarrow> if b_bloqueado b then None else Some (False, registrar_intento (Some b)))"

text \<open>The commit, on the store as it is when it runs.  The \<^verbatim>\<open>UPDATE\<close> sets only
  the columns the request changed: \<^verbatim>\<open>intentos\<close> always, \<^verbatim>\<open>bloqueado\<close> only when
  line 368 set it.\<close>

definition escribir_contador :: "backend \<Rightarrow> string \<Rightarrow> bool \<times> bloqueo \<Rightarrow> db \<Rightarrow> db py" where
  "escribir_contador m n p d =
     (case p of
        (True, b') \<Rightarrow>
          if \<not> cabe_texto m 50 n then Inl DataError
          else if n \<in> dom (bloqueos d) then Inl IntegrityError
          else Inr (d\<lparr>bloqueos := (bloqueos d)(n \<mapsto> b')\<rparr>)
      | (False, b') \<Rightarrow>
          (case bloqueos d n of
             None \<Rightarrow> Inl StaleDataError
           | Some actual \<Rightarrow>
               Inr (d\<lparr>bloqueos := (bloqueos d)(n \<mapsto>
                      actual\<lparr>b_intentos := b_intentos b',
                             b_bloqueado := (b_bloqueado b' \<or> b_bloqueado actual)\<rparr>)\<rparr>)))"

text \<open>The read of a registration for the canonical number \<open>n\<close>: \<open>None\<close> when
  the number has voted (line 503), otherwise whether the row is new and the row the
  commit will write, with a token issued now.\<close>

definition leer_registro :: "config \<Rightarrow> nat \<Rightarrow> string \<Rightarrow> db \<Rightarrow> (bool \<times> numero_temporal) option" where
  "leer_registro cfg ahora n d =
     (if n \<in> dom (votos d) then None
      else
        let tk = dumps (secret_key cfg) ahora \<lparr>td_numero = n, td_dominio = dominio_emisor cfg\<rparr> in
        case temporales d n of
          None \<Rightarrow> Some (True, \<lparr>nt_token = Some tk, nt_fecha = ahora\<rparr>)
        | Some t \<Rightarrow> Some (False, t\<lparr>nt_token := Some tk, nt_fecha := ahora\<rparr>))"

text \<open>The commit of line 528 on the store as it is when it runs.\<close>

definition escribir_registro :: "backend \<Rightarrow> string \<Rightarrow> bool \<times> numero_temporal \<Rightarrow> db \<Rightarrow> db py" where
  "escribir_registro m n p d =
     (case p of
        (True, t) \<Rightarrow>
          if \<not> cabe_texto m 50 n then Inl DataError
          else if n \<in> dom (temporales d) then Inl IntegrityError
          else Inr (d\<lparr>temporales := (temporales d)(n \<mapsto> t)\<rparr>)
      | (False, t) \<Rightarrow>
          if n \<notin> dom (temporales d) then Inl StaleDataError
          else Inr (d\<lparr>temporales := (temporales d)(n \<mapsto> t)\<rparr>))"

section \<open>Lemmas\<close>

lemma bloqueo_mismo_estado: "b_bloqueado x = v \<Longrightarrow> x\<lparr>b_bloqueado := v\<rparr> = x"
  by (cases x) auto

text \<open>Without interleaving, read and commit are the dispatch of an unregistered
  sender that is not blocked.\<close>

lemma despachar_fases:
  assumes "temporales d n = None" and "leer_contador n d = Some p"
  shows "despachar cfg t n d =
           py_bind (escribir_contador (motor cfg) n p d)
             (\<lambda>d'. Inr (RNoAutorizado, d', [(n, aviso_intento (snd p))]))"
  using assms
  by (auto simp: leer_contador_def escribir_contador_def despachar_def Let_def bloqueo_mismo_estado
           split: option.splits if_splits)

text \<open>Two first messages that both read before either commits: the second
  \<^verbatim>\<open>INSERT\<close> violates the unique index.\<close>

lemma primer_contacto_carrera:
  assumes "bloqueos d n = None" and "cabe_texto m 50 n"
  shows "\<exists>d1. escribir_contador m n (the (leer_contador n d)) d = Inr d1 \<and>
             escribir_contador m n (the (leer_contador n d)) d1 = Inl IntegrityError"
  using assms by (simp add: leer_contador_def escribir_contador_def domIff)

text \<open>Without interleaving, read and commit are registration.\<close>

lemma generar_link_fases:
  assumes "pv \<noteq> []" and "nv \<noteq> []" and "n = numero_de_formulario pv nv"
  shows "generar_link cfg ahora (Some pv) (Some nv) d =
           (case leer_registro cfg ahora n d of
              None \<Rightarrow> Inr (YaVoto, d)
            | Some p \<Rightarrow> py_bind (escribir_registro (motor cfg) n p d) (\<lambda>d'. Inr (RedirigirWhatsApp, d')))"
  using assms
  by (auto simp: leer_registro_def escribir_registro_def generar_link_def Let_def
           split: option.splits)

text \<open>Two first registrations of one number that both read before either commits:
  the second \<^verbatim>\<open>INSERT\<close> violates the unique index, an HTTP 500.\<close>

lemma registro_carrera:
  assumes "n \<notin> dom (votos d)" and "temporales d n = None" and "cabe_texto m 50 n"
  shows "\<exists>d1. escribir_registro m n (the (leer_registro cfg a n d)) d = Inr d1 \<and>
             escribir_registro m n (the (leer_registro cfg a' n d)) d1 = Inl IntegrityError"
  using assms by (simp add: leer_registro_def escribir_registro_def Let_def domIff)

text \<open>A re-registration that read the pending authorization before the number's
  ballot was committed fails at its own commit, an HTTP 500: the ballot commit deleted
  the row it updates.\<close>

lemma registro_tras_voto:
  assumes "n \<notin> dom (votos d)" and "temporales d n = Some t"
    and "commit_voto m n v d = Inr d2"
  shows "escribir_registro m n (the (leer_registro cfg a n d)) d2 = Inl StaleDataError"
  using assms by (simp add: leer_registro_def escribir_registro_def Let_def commit_voto_Inr)

text \<open>A delivery that read the counter at \<open>k\<close> attempts and commits after another
  worker blocked the row writes \<open>k + 1\<close> back: the row stays blocked but holds fewer
  than four attempts, which no sequential run produces (\<open>bloqueo_ok\<close>).\<close>

lemma contador_obsoleto:
  assumes "bloqueos d n = Some b" and "\<not> b_bloqueado b" and "b_intentos b + 1 < 4"
    and "bloqueos d2 n = Some b2" and "b_bloqueado b2"
  shows "\<exists>d3. escribir_contador m n (the (leer_contador n d)) d2 = Inr d3 \<and>
             bloqueos d3 n = Some (b2\<lparr>b_intentos := b_intentos b + 1\<rparr>) \<and>
             (bloqueo_ok b2 \<longrightarrow> \<not> bloqueo_ok (b2\<lparr>b_intentos := b_intentos b + 1\<rparr>))"
  using assms by (auto simp: leer_contador_def escribir_contador_def bloqueo_ok_def)

end
