(* ===== verification/Spec2Isabelle.thy ===== *)
theory Spec2Isabelle
  imports System Reference App Carreras
begin

text \<open>
  Verification of the voter-registration web application of src/app.py.

  \<^bold>\<open>The program.\<close>  A Flask application: a citizen registers a phone number
  (\<^verbatim>\<open>generar_link\<close>), writes to a WhatsApp number, and the WhatsApp webhook
  (\<^verbatim>\<open>whatsapp_webhook\<close>) answers a registered number with a one-time link holding a
  signed, time-limited token, and an unregistered number with warnings and finally a
  permanent block.  The link (\<^verbatim>\<open>votar\<close>) checks the token against the one stored for
  the number and grants a session; the ballot form (\<^verbatim>\<open>enviar_voto\<close>) commits one
  ballot per number and deletes the pending authorization.  The parts share one
  relational store (the SQLAlchemy models \<^verbatim>\<open>Voto\<close>, \<^verbatim>\<open>NumeroTemporal\<close>,
  \<^verbatim>\<open>WhatsappMensajeProcesado\<close>, \<^verbatim>\<open>BloqueoWhatsapp\<close>) and the session cookie.

  \<^bold>\<open>The library.\<close>
  \<^item> \<open>Prelude\<close>: Python exceptions as values (\<open>py_exc\<close>, results \<open>'a py\<close> with
    \<open>py_bind\<close>), the \<^verbatim>\<open>str\<close> methods the code uses (\<^verbatim>\<open>strip\<close>, \<^verbatim>\<open>rstrip\<close>,
    \<^verbatim>\<open>replace\<close>, \<^verbatim>\<open>in\<close>, \<^verbatim>\<open>split\<close>) on Latin-1 strings, truthiness of optional
    form fields.
  \<^item> \<open>PyJson\<close>: the decoded webhook body as a \<open>json\<close> datatype and the Python
    operations on it (\<^verbatim>\<open>.get\<close>, \<^verbatim>\<open>[0]\<close>, \<^verbatim>\<open>[k]\<close>, \<^verbatim>\<open>or\<close>, \<^verbatim>\<open>str()\<close>,
    \<^verbatim>\<open>repr()\<close>), each raising what Python raises on a value of the wrong shape.
  \<^item> \<open>PyNum\<close>: \<^verbatim>\<open>int(s)\<close> and acceptance by \<^verbatim>\<open>float(s)\<close>, by the grammar of the
    Python documentation.
  \<^item> \<open>Phone\<close>: \<^verbatim>\<open>limpiar_numero\<close> (lines 131--138), NFKD then \<^verbatim>\<open>\D\<close> removal, as
    \<open>limpiar_numero\<close> over the per-character digits of the decomposition.
  \<^item> \<open>Token\<close>: the itsdangerous \<^verbatim>\<open>URLSafeTimedSerializer\<close> (a library outside the
    repository, modelled from its contract): \<open>dumps\<close>, \<open>loads\<close> with signature check
    then age check against \<open>max_edad\<close> = 600 seconds.
  \<^item> \<open>Store\<close>: the four tables as maps keyed by their unique column, the
    configuration (\<^verbatim>\<open>SECRET_KEY\<close>, \<^verbatim>\<open>AZURE_DOMAIN\<close>, \<^verbatim>\<open>WABA_TOKEN\<close>, the
    database), outbound messages, column bounds (\<^verbatim>\<open>String(n)\<close>, 32/64-bit
    integers) and the ballot transaction \<open>commit_voto\<close> with its unique constraint.
  \<^item> \<open>AbuseGuard\<close>: the counter update \<open>registrar_intento\<close> and reply
    \<open>aviso_intento\<close> (lines 361--383), the abstract machine Unknown/Warned/Blocked of
    the specification (\<open>paso_guardia\<close>) and the abstraction \<open>abs_guardia\<close>.
  \<^item> \<open>Webhook\<close>: payload normalisation (\<open>mensajes_meta\<close>, \<open>extraer_mensajes\<close>,
    \<open>extraer_texto\<close>), dispatch (\<open>despachar\<close>) and the handler
    (\<open>procesar_webhook\<close>, \<open>whatsapp_webhook\<close>, lines 275--467).
  \<^item> \<open>Registration\<close>: \<open>generar_link\<close> (lines 482--534, POST).
  \<^item> \<open>LinkVisit\<close>: \<open>votar\<close> (lines 542--585) and \<open>enviar_mensaje_whatsapp\<close>.
  \<^item> \<open>Ballot\<close>: \<open>enviar_voto\<close> (lines 593--687) as its check phase
    \<open>preparar_voto\<close> and its transaction \<open>confirmar_voto\<close>.
  \<^item> \<open>Unicode\<close>: the tables of Python's Unicode database the code reaches (NFKD,
    combining class, upper and lower case, the regex classes \<^verbatim>\<open>\s\<close> and
    \<^verbatim>\<open>\d\<close>) on Latin-1 input, generated from \<^verbatim>\<open>unicodedata\<close>, and the literal
    reading \<open>limpiar_numero_nfkd\<close> of line 138 against which \<open>Phone\<close>'s
    per-character table is checked.
  \<^item> \<open>Reference\<close>: the read-only reference data: \<^verbatim>\<open>_norm_text\<close>
    (lines 40--48) over code points, with the tables of \<open>Unicode\<close>; CSV files as
    the records \<^verbatim>\<open>csv.DictReader\<close> yields (\<open>archivo\<close>, \<open>fila_get\<close>,
    \<open>fila_idx\<close>); the candidate cache \<open>cargar_candidatos_desde_csv\<close> and
    \<open>asegurar_candidatos_cargados\<close> (lines 28--122); the endpoints
    \<open>api_recintos\<close> (lines 696--762) and \<open>api_candidatos\<close> (lines 765--823).
  \<^item> \<open>App\<close>: the start-up configuration from the environment
    (\<open>config_de_entorno\<close>, lines 173--190, with the default secret key and database
    URL) and the routes that only render or redirect (\<open>index\<close>,
    \<open>preguntas_frecuentes\<close>, the \<^verbatim>\<open>GET\<close> branch in \<open>generar_link_ruta\<close>), and
    the value \<^verbatim>\<open>enviar_mensaje_whatsapp\<close> returns (\<open>resultado_envio\<close>).
  \<^item> \<open>Carreras\<close>: concurrent requests.  The counter transaction of the webhook
    (\<open>leer_contador\<close>, \<open>escribir_contador\<close>) and the registration transaction
    (\<open>leer_registro\<close>, \<open>escribir_registro\<close>) split into the read and the commit, the
    commit applied to the store as another worker left it; on one store they compose to
    \<open>despachar\<close> and \<open>generar_link\<close> (\<open>despachar_fases\<close>, \<open>generar_link_fases\<close>).
  \<^item> \<open>System\<close>: the application as the inductive step relation \<open>paso\<close> over
    \<open>sistema\<close> (store, sent messages, session grants, prepared ballots), with the
    ballot's two phases as separate steps so that concurrent submissions interleave;
    \<open>alcanzable\<close> is the set of reachable states and \<open>sistema_ok\<close> its invariant,
    proved by rule induction one handler at a time.

  \<^bold>\<open>What is proved here\<close> (claims C1--C40 below): that a ballot exists only for
  a number that passed a link visit with the token currently stored for it
  (C1, C9); the token checks of the link visit (C7, C8) and that reissue revokes
  the previous token unless it happens within the same second (C4--C6); that an
  environment without \<^verbatim>\<open>AZURE_DOMAIN\<close>, or with a trailing slash in it, admits no
  ballot at all (C10); the duplicate-vote race and its outcome (C11, C12); the form
  rules (C13, C14); the abuse guard as a refinement of the specification's machine,
  its lockout sequence for any unregistered sender (C15, C16) and that such a sender is
  blocked within four messages (C40); the termination of the precinct lookup loop kept as a
  loop (C17); phone canonicalisation (C18, C19); the lost update of the abuse counter
  under concurrent deliveries (C20); the
  invariants of the reachable states (C3, C21--C23); the token round trip and the
  column bounds (C24, C25); the webhook's single reply (C26), registration's
  refusal of voters (C27), that a session grant never expires (C28); and for the reference data, that the
  candidate cache is loaded once (C29), that its two indexes are the grouping of the
  rows (C30, C31), that normalisation ignores case (C32), the exact answers of the two
  endpoints (C33, C34) and the column mismatch between the cache and the candidate
  endpoint (C35); that a block is permanent, also for a number that registers
  afterwards (C36), that all digit-free senders share one counter (C37); that every stored ballot
  fits its column types (C38); and that the per-character digit table of
  \<^verbatim>\<open>limpiar_numero\<close> equals line 138 read literally with Python's NFKD table (C39).  C2 and C3 record a defect of the code: the read of
  \<^verbatim>\<open>numero_completo\<close> before its assignment (line 317) raises for every message
  that carries an id, so deduplication never records anything and such messages are
  never answered.  Theory \<open>Carreras\<close> also shows that two first registrations
  of one number race to an \<^verbatim>\<open>IntegrityError\<close> (\<open>registro_carrera\<close>) and that a
  re-registration overlapping the number's ballot commit fails with
  \<^verbatim>\<open>StaleDataError\<close> (\<open>registro_tras_voto\<close>); both are HTTP 500 answers.  The
  counter's \<^verbatim>\<open>UPDATE\<close> writes only the columns the worker changed, so a read
  taken before another worker blocked the row and committed after it leaves a blocked
  row with fewer than four attempts (\<open>contador_obsoleto\<close>): the counter invariant of
  C21 holds for sequential runs only.

  \<^bold>\<open>Not modelled.\<close>  The content of the HTML templates (a rendered page is the
  template's name, a redirect its target); the module imports and the logging of the
  start-up cache status (lines 1--21, 197--199); the reading of a CSV file below the records the \<^verbatim>\<open>csv\<close> module yields
  (quoting, encodings: \<^verbatim>\<open>api_candidatos\<close> opens its files as UTF-8 without BOM
  removal, which matters only for a first column the code reads by name); logging;
  the HTTP transport of outbound messages (an attempted send is a list entry, its
  failure is swallowed by the code); Unicode beyond Latin-1 (strings are Isabelle
  \<open>char\<close> lists, code points up to U+00FF); JSON floats; the numeric value of
  latitude and longitude.  No fuel or bounds are needed: every handler is a total
  function of its request and the store; the only loops are those over the records
  of a CSV file, structural recursions or folds over the list of records, and the
  white-space collapse \<open>colapsar\<close>, which terminates by the length of its input.
\<close>

section \<open>A concrete run\<close>

text \<open>A deployment with \<^verbatim>\<open>AZURE_DOMAIN=https://v.bo\<close> on PostgreSQL, the number
  +59170000000, its registration at second 10, the link visit at 20, and a ballot
  answering "No" to the control question, prepared and committed at 30.\<close>

definition cfg0 :: config where
  "cfg0 = \<lparr>secret_key = ''k'', azure_domain = Some ''https://v.bo'', host_url = ''https://v.bo/'',
           waba_token = True, motor = PostgreSQL\<rparr>"

definition num0 :: string where
  "num0 = ''+59170000000''"

definition tok1 :: token where
  "tok1 = Token \<lparr>td_numero = num0, td_dominio = ''https://v.bo''\<rparr> 10 ''k''"

definition form0 :: formulario where
  "form0 = \<lparr>f_genero = Some ''F'', f_pais = Some ''Bolivia'', f_departamento = Some ''La Paz'',
     f_provincia = Some ''Murillo'', f_id_municipio = Some ''10'', f_municipio_nombre = Some ''La Paz'',
     f_recinto = Some ''U1'', f_dia = Some ''1'', f_mes = Some ''2'', f_anio = Some ''1990'',
     f_candidato = Some ''A'', f_pregunta3 = Some ''No'', f_ci = None, f_latitud = None,
     f_longitud = None\<rparr>"

definition pet0 :: peticion where
  "pet0 = \<lparr>p_referer = None, p_xff = None, p_remote_addr = ''1.2.3.4'', p_form = form0\<rparr>"

definition voto0 :: voto where
  "voto0 = \<lparr>v_genero = ''F'', v_pais = ''Bolivia'', v_departamento = ''La Paz'', v_provincia = ''Murillo'',
     v_id_municipio = ''10'', v_municipio = ''La Paz'', v_recinto = ''U1'', v_dia = 1, v_mes = 2,
     v_anio = 1990, v_latitud = None, v_longitud = None, v_ip = ''1.2.3.4'', v_fecha = 30,
     v_candidato = ''A'', v_pregunta3 = ''No'', v_ci = None\<rparr>"

definition bd1 :: db where
  "bd1 = db_vacia\<lparr>temporales := [num0 \<mapsto> \<lparr>nt_token = Some tok1, nt_fecha = 10\<rparr>]\<rparr>"

definition bd4 :: db where
  "bd4 = bd1\<lparr>votos := [num0 \<mapsto> voto0], temporales := Map.empty\<rparr>"

definition e1 :: sistema where
  "e1 = inicial\<lparr>bd := bd1\<rparr>"

definition e2 :: sistema where
  "e2 = e1\<lparr>enviados := enviados e1 @ [], sesiones := sesiones e1 \<union> set_option (Some num0)\<rparr>"

definition e3 :: sistema where
  "e3 = e2\<lparr>pendientes := (num0, voto0) # pendientes e2\<rparr>"

definition e4 :: sistema where
  "e4 = e3\<lparr>bd := bd4, pendientes := remove1 (num0, voto0) (pendientes e3)\<rparr>"

text \<open>A webhook body in the flat shape, from the sender of the specification's
  scenario, without and with a message id.\<close>

definition cuerpo_plano :: "(string \<times> json) list \<Rightarrow> json" where
  "cuerpo_plano msg = JDict [(''messages'', JList [JDict msg])]"

definition msg_sin_id :: "(string \<times> json) list" where
  "msg_sin_id = [(''from'', JStr ''591 700-00000''), (''text'', JDict [(''body'', JStr ''votar'')])]"

definition msg_con_id :: "(string \<times> json) list" where
  "msg_con_id = [(''id'', JStr ''wamid.1''), (''from'', JStr ''59170000000'')]"

text \<open>The reissue of the link at second 50, by the webhook or by a second
  registration, and a deployment whose \<^verbatim>\<open>AZURE_DOMAIN\<close> ends in a slash.\<close>

definition tok2 :: token where
  "tok2 = Token \<lparr>td_numero = num0, td_dominio = ''https://v.bo''\<rparr> 50 ''k''"

definition bd_r :: db where
  "bd_r = db_vacia\<lparr>temporales := [num0 \<mapsto> \<lparr>nt_token = Some tok2, nt_fecha = 50\<rparr>]\<rparr>"

definition cfg_barra :: config where
  "cfg_barra = cfg0\<lparr>azure_domain := Some ''https://v.bo/''\<rparr>"

definition form_si :: formulario where
  "form_si = form0\<lparr>f_pregunta3 := Some respuesta_si\<rparr>"

definition bloqueado4 :: bloqueo where
  "bloqueado4 = \<lparr>b_intentos = 4, b_bloqueado = True\<rparr>"

definition bdw :: db where
  "bdw = db_vacia\<lparr>bloqueos := [num0 \<mapsto> \<lparr>b_intentos = 1, b_bloqueado = False\<rparr>]\<rparr>"

definition ew :: sistema where
  "ew = inicial\<lparr>bd := bdw, enviados := enviados inicial @ [(num0, Advertencia 1)]\<rparr>"

text \<open>Reference files: a precinct file with one row for municipality 10, a
  candidate file with the columns the endpoint reads (a mayoral and a council
  candidate of that municipality), and rows for the candidate cache under exactly the
  columns the cache requires.\<close>

definition filas_recintos :: "string list list" where
  "filas_recintos = [[''1'', ''Bolivia'', ''2'', ''Chuquisaca'', ''3'', ''Oropeza'', ''10'', ''Sucre'', ''R1'', ''U'']]"

definition cab_candidatos :: "string list" where
  "cab_candidatos =
     [''departamento'', ''provincia'', ''municipio'', ''cargo'', ''id_nombre_completo'', ''nombre_completo'',
      ''organizacion_politica'', ''id_organizacion_politica'', ''id_cargo'']"

definition filas_candidatos :: "string list list" where
  "filas_candidatos =
     [[''CHUQUISACA '', ''oropeza'', ''Sucre'', ''Alcalde'', ''7'', ''Ana''],
      [''Chuquisaca'', ''Oropeza'', ''Sucre'', ''Concejal'', ''8'', ''Bo'']]"

definition filas_cache :: "string list list" where
  "filas_cache =
     [[''Alcalde'', ''1'', ''10'', ''7'', ''4'', ''Sucre'', ''Ana'', ''P''],
      [''Concejal'', ''2'', ''10'', ''8'', ''4'', '' sucre '', ''Bo'', ''P''],
      [''Alcalde'', ''1'', ''11'', ''9'', ''5'', ''Sucre'', ''Cy'', ''Q'']]"

text \<open>A number blocked by the abuse guard before it registers.\<close>

definition eb :: sistema where
  "eb = inicial\<lparr>bd := db_vacia\<lparr>bloqueos := [num0 \<mapsto> bloqueado4]\<rparr>\<rparr>"

section \<open>Evaluation of the run\<close>

lemma run_registro: "generar_link cfg0 10 (Some ''591'') (Some ''700-00000'') db_vacia = Inr (RedirigirWhatsApp, bd1)"
  by (simp add: generar_link_def numero_de_formulario_def Let_def py_remove_def py_strip_def py_isspace_def
      limpiar_numero_def nfkd_digitos_def py_isdigit_def cfg0_def bd1_def db_vacia_def num0_def tok1_def
      dumps_def dominio_emisor_def py_rstrip_def cabe_texto_def)

lemma run_enlace: "votar cfg0 20 (Some tok1) bd1 = (FormularioVoto num0 tok1, [], Some num0)"
  by (simp add: votar_def loads_def max_edad_def tok1_def cfg0_def Let_def token_vigente_def bd1_def
      db_vacia_def num0_def limpiar_numero_def nfkd_digitos_def py_isdigit_def)

lemma run_preparar: "preparar_voto cfg0 30 pet0 (Some num0) bd1 = Inr (num0, voto0)"
  by (simp add: preparar_voto_def Let_def pet0_def form0_def campos_requeridos_def respuesta_si_def
      py_int_def quitar_signo_def py_strip_def py_isspace_def valor_digitos_def py_isdigit_def
      coordenada_def ip_de_def py_split_first_def voto0_def bd1_def db_vacia_def num0_def
      limpiar_numero_def nfkd_digitos_def)

lemma run_confirmar: "confirmar_voto cfg0 num0 voto0 (Some num0) bd1 = (VotoExitoso, bd4, None)"
  by (simp add: confirmar_voto_def commit_voto_def voto_cabe_def cabe_texto_def cabe_entero_def
      bits_integer_def cfg0_def voto0_def bd4_def bd1_def db_vacia_def num0_def)

lemma run_alcanzable: "alcanzable cfg0 e4"
proof -
  have "paso cfg0 inicial e1"
    unfolding e1_def
    by (rule paso.registro [where ahora = 10 and pais = "Some ''591''" and num = "Some ''700-00000''"
          and r = RedirigirWhatsApp]) (simp add: inicial_def run_registro)
  then have a1: "alcanzable cfg0 e1" by (rule alcanzable.paso [OF alcanzable.inicio])
  have "paso cfg0 e1 e2"
    unfolding e2_def
    by (rule paso.enlace [where ahora = 20 and tk = "Some tok1" and r = "FormularioVoto num0 tok1"])
       (simp add: e1_def inicial_def run_enlace)
  with a1 have a2: "alcanzable cfg0 e2" by (rule alcanzable.paso)
  have "paso cfg0 e2 e3"
    unfolding e3_def
    by (rule paso.preparar [where ses = "Some num0" and ahora = 30 and p = pet0])
       (simp_all add: e2_def e1_def inicial_def run_preparar)
  with a2 have a3: "alcanzable cfg0 e3" by (rule alcanzable.paso)
  have "paso cfg0 e3 e4"
    unfolding e4_def
    by (rule paso.confirmar [where ses = "Some num0" and r = VotoExitoso and ses' = None])
       (simp_all add: e3_def e2_def e1_def run_confirmar)
  with a3 show ?thesis by (rule alcanzable.paso)
qed

lemma run_e4: "votos (bd e4) num0 = Some voto0" "num0 \<in> sesiones e4" "procesados (bd e4) = Map.empty"
  by (simp_all add: e4_def e3_def e2_def e1_def inicial_def bd4_def bd1_def db_vacia_def)

lemma run_reemision:
  "despachar cfg0 50 num0 bd1 = Inr (REnlaceEnviado, bd_r, [(num0, EnlaceVoto ''https://v.bo'' tok2)])"
  by (simp add: despachar_def Let_def cfg0_def bd1_def bd_r_def db_vacia_def tok1_def tok2_def
      dumps_def dominio_emisor_def py_rstrip_def)

lemma run_registro2: "generar_link cfg0 50 (Some ''591'') (Some ''700-00000'') bd1 = Inr (RedirigirWhatsApp, bd_r)"
  by (simp add: generar_link_def numero_de_formulario_def Let_def py_remove_def py_strip_def py_isspace_def
      limpiar_numero_def nfkd_digitos_def py_isdigit_def cfg0_def bd1_def bd_r_def db_vacia_def num0_def
      tok2_def dumps_def dominio_emisor_def py_rstrip_def)

lemma run_webhook_7:
  "whatsapp_webhook cfg0 7 (cuerpo_plano msg_sin_id) db_vacia = (RNoAutorizado, bdw, [(num0, Advertencia 1)])"
  by (simp add: webhook_eval cuerpo_plano_def msg_sin_id_def cfg0_def db_vacia_def num0_def bdw_def)

lemma run_ew: "alcanzable cfg0 ew"
proof -
  have "paso cfg0 inicial ew"
    unfolding ew_def
    by (rule paso.webhook [where ahora = 7 and cuerpo = "cuerpo_plano msg_sin_id" and r = RNoAutorizado])
       (simp add: inicial_def run_webhook_7)
  then show ?thesis by (rule alcanzable.paso [OF alcanzable.inicio])
qed


lemma run_registro_bloqueado:
  "generar_link cfg0 10 (Some ''591'') (Some ''700-00000'') (bd eb) = Inr (RedirigirWhatsApp, bd1\<lparr>bloqueos := [num0 \<mapsto> bloqueado4]\<rparr>)"
  using run_registro by (simp add: eb_def inicial_def generar_link_def Let_def bd1_def db_vacia_def split: if_splits)

text \<open>The lockout sequence on the flat payload of the specification's scenario,
  whose sender needs canonicalisation.\<close>

lemma run_bloqueo_plano:
  "let c = cuerpo_plano msg_sin_id;
       (r1, d1, es1) = whatsapp_webhook cfg0 1 c db_vacia;
       (r2, d2, es2) = whatsapp_webhook cfg0 2 c d1;
       (r3, d3, es3) = whatsapp_webhook cfg0 3 c d2;
       (r4, d4, es4) = whatsapp_webhook cfg0 4 c d3;
       (r5, d5, es5) = whatsapp_webhook cfg0 5 c d4
   in es1 @ es2 @ es3 @ es4 = [(num0, Advertencia 1), (num0, Advertencia 2), (num0, Advertencia 3), (num0, Excedido)]
      \<and> bloqueos d4 num0 = Some bloqueado4 \<and> r5 = RBloqueado \<and> d5 = d4 \<and> es5 = []"
  by (simp add: webhook_eval cuerpo_plano_def msg_sin_id_def cfg0_def db_vacia_def num0_def bloqueado4_def)

text \<open>The specification's scenario: a first message from an unregistered sender.\<close>

lemma run_escenario_no_registrado:
  "whatsapp_webhook cfg0 100 (cuerpo_plano msg_sin_id) db_vacia =
     (RNoAutorizado, db_vacia\<lparr>bloqueos := [''+59170000000'' \<mapsto> \<lparr>b_intentos = 1, b_bloqueado = False\<rparr>]\<rparr>,
      [(''+59170000000'', Advertencia 1)])"
  by (simp add: webhook_eval cuerpo_plano_def msg_sin_id_def cfg0_def db_vacia_def)

text \<open>Evaluation of the reference lookup on the files above.\<close>

lemma valida_cache: "map (fila_valida requeridos_candidatos) filas_cache = [True, True, True]"
  by (simp add: filas_cache_def fila_valida_def campo_csv_def fila_get_def dict_fila_def requeridos_candidatos_def
       norm_text_vacio py_strip_def py_isspace_def)

lemma norm_sucre: "norm_text (Some '' sucre '') = norm_text (Some ''Sucre'')"
  by (simp add: norm_text_Some py_strip_def py_isspace_def norm_char_latin upper_cp_def)

lemma buscar_recintos:
  "buscar_municipio requeridos_recintos None ''10'' filas_recintos = Inr (Some (''chuquisaca'', ''oropeza'', ''sucre''))"
  by (simp add: filas_recintos_def requeridos_recintos_def fila_idx_def campo_min_def dict_fila_def
        py_strip_def py_isspace_def py_lower_def char_of_nat_eq)

lemma alcalde_ana:
  "filter (\<lambda>vs. es_alcalde cab_candidatos vs ''chuquisaca'' ''oropeza'' ''sucre'' = Inr True) filas_candidatos
     = [hd filas_candidatos]"
  by (simp add: filas_candidatos_def cab_candidatos_def es_alcalde_def fila_idx_def campo_min_def dict_fila_def
        py_strip_def py_isspace_def py_lower_def char_of_nat_eq)

section \<open>Properties\<close>

text \<open>C1 (safety): in every reachable state, a number that has a ballot row is a
  number to which the server granted a session in a successful link visit.\<close>

theorem voto_requiere_enlace:
  "alcanzable cfg s \<Longrightarrow> votos (bd s) n \<noteq> None \<Longrightarrow> n \<in> sesiones s"
  using alcanzable_ok [of cfg s] by (auto simp: sistema_ok_def)

theorem voto_requiere_enlace_witness:
  "alcanzable cfg0 e4 \<and> votos (bd e4) num0 \<noteq> None \<and> num0 \<in> sesiones e4"
  using voto_requiere_enlace [OF run_alcanzable, of num0] run_alcanzable run_e4(1) by simp

text \<open>C2 (error path, code defect): a webhook body in the flat shape whose first
  message carries a non-blank id leaves the store unchanged and sends nothing, whatever
  the sender: the read of \<^verbatim>\<open>numero_completo\<close> at line 317 raises before dispatch.\<close>

theorem webhook_con_id_sin_efecto:
  assumes "map_of kvs ''id'' = Some (JStr mid)" and "py_strip mid \<noteq> []"
    and "whatsapp_webhook cfg ahora (JDict [(''messages'', JList (JDict kvs # ms))]) d = (r, d', es)"
  shows "d' = d \<and> es = []"
proof -
  have "mid \<noteq> []" using assms(2) by (auto simp: py_strip_def)
  moreover have "kvs \<noteq> []" using assms(1) by auto
  ultimately show ?thesis
    using assms
    by (auto simp: whatsapp_webhook_def procesar_webhook_def extraer_mensajes_def Let_def
             split: if_splits)
qed

theorem webhook_con_id_sin_efecto_witness:
  "map_of msg_con_id ''id'' = Some (JStr ''wamid.1'') \<and> py_strip ''wamid.1'' \<noteq> [] \<and>
   snd (whatsapp_webhook cfg0 100 (cuerpo_plano msg_con_id) bd1) = (bd1, [])"
proof -
  have h1: "map_of msg_con_id ''id'' = Some (JStr ''wamid.1'')" by (simp add: msg_con_id_def)
  have h2: "py_strip ''wamid.1'' \<noteq> []" by (simp add: py_strip_def py_isspace_def)
  obtain r d' es where eq: "whatsapp_webhook cfg0 100 (cuerpo_plano msg_con_id) bd1 = (r, d', es)"
    by (cases "whatsapp_webhook cfg0 100 (cuerpo_plano msg_con_id) bd1") auto
  have "d' = bd1 \<and> es = []"
    using webhook_con_id_sin_efecto [OF h1 h2, of cfg0 100 "[]" bd1 r d' es] eq
    by (simp add: cuerpo_plano_def)
  with h1 h2 eq show ?thesis by simp
qed

text \<open>C3 (invariant, code defect): the processed-message table is empty in every
  reachable state, so the deduplication lookup of line 310 never finds anything.\<close>

theorem procesados_siempre_vacia:
  "alcanzable cfg s \<Longrightarrow> procesados (bd s) = Map.empty"
  using alcanzable_ok [of cfg s] by (simp add: sistema_ok_def bd_ok_def)

theorem procesados_siempre_vacia_witness:
  "alcanzable cfg0 e4 \<and> procesados (bd e4) = Map.empty"
  using procesados_siempre_vacia [OF run_alcanzable] run_alcanzable by simp

text \<open>C4 (functional): when the webhook reissues the link of a registered
  number, a token stored before, issued in another second, can no longer open the
  form: once its signature and age verify, the link visit answers "already used or
  invalid".\<close>

theorem reemision_webhook_revoca:
  assumes "temporales d n = Some t" and "nt_token t = Some T1" and "tok_ts T1 \<noteq> ahora"
    and "despachar cfg ahora n d = Inr (REnlaceEnviado, d', es)"
    and "limpiar_numero (td_numero (tok_datos T1)) = n"
    and "loads (secret_key cfg) max_edad ahora' T1 = Inr x"
  shows "votar cfg ahora' (Some T1) d' = (EnlaceYaUsado, enviar_mensaje_whatsapp cfg n EnlaceUsado, None)"
proof -
  have "\<not> token_vigente d' n T1"
    using despachar_reemite(1) [OF assms(4)] assms(3) by (auto simp: token_vigente_def)
  then show ?thesis by (rule votar_no_vigente [OF assms(6) assms(5)])
qed

theorem reemision_webhook_revoca_witness:
  "temporales bd1 num0 = Some \<lparr>nt_token = Some tok1, nt_fecha = 10\<rparr> \<and> tok_ts tok1 \<noteq> 50 \<and>
   despachar cfg0 50 num0 bd1 = Inr (REnlaceEnviado, bd_r, [(num0, EnlaceVoto ''https://v.bo'' tok2)]) \<and>
   limpiar_numero (td_numero (tok_datos tok1)) = num0 \<and>
   loads (secret_key cfg0) max_edad 60 tok1 = Inr (tok_datos tok1) \<and>
   votar cfg0 60 (Some tok1) bd_r = (EnlaceYaUsado, [(num0, EnlaceUsado)], None)"
proof -
  have h1: "temporales bd1 num0 = Some \<lparr>nt_token = Some tok1, nt_fecha = 10\<rparr>"
    by (simp add: bd1_def db_vacia_def)
  have h3: "tok_ts tok1 \<noteq> 50" by (simp add: tok1_def)
  have h5: "limpiar_numero (td_numero (tok_datos tok1)) = num0"
    by (simp add: tok1_def num0_def limpiar_numero_def nfkd_digitos_def py_isdigit_def)
  have h6: "loads (secret_key cfg0) max_edad 60 tok1 = Inr (tok_datos tok1)"
    by (simp add: loads_def max_edad_def tok1_def cfg0_def)
  have "votar cfg0 60 (Some tok1) bd_r = (EnlaceYaUsado, enviar_mensaje_whatsapp cfg0 num0 EnlaceUsado, None)"
    by (rule reemision_webhook_revoca [OF h1 _ h3 run_reemision h5 h6]) simp
  then show ?thesis
    using h1 h3 h5 h6 run_reemision by (simp add: enviar_mensaje_whatsapp_def cfg0_def)
qed

text \<open>C5 (functional): the same revocation when the number registers again
  (\<^verbatim>\<open>generar_link\<close> overwrites the stored token).\<close>

theorem reemision_registro_revoca:
  assumes "temporales d n = Some t" and "nt_token t = Some T1" and "tok_ts T1 \<noteq> ahora"
    and "generar_link cfg ahora (Some pv) (Some nv) d = Inr (RedirigirWhatsApp, d')"
    and "numero_de_formulario pv nv = n"
    and "limpiar_numero (td_numero (tok_datos T1)) = n"
    and "loads (secret_key cfg) max_edad ahora' T1 = Inr x"
  shows "fst (votar cfg ahora' (Some T1) d') = EnlaceYaUsado"
proof -
  have "temporales d' n = Some \<lparr>nt_token = Some (dumps (secret_key cfg) ahora
             \<lparr>td_numero = n, td_dominio = dominio_emisor cfg\<rparr>), nt_fecha = ahora\<rparr>"
    using assms(1,4,5) by (auto simp: generar_link_def Let_def split: if_splits)
  then have "\<not> token_vigente d' n T1"
    using assms(3) by (auto simp: token_vigente_def)
  then show ?thesis by (simp add: votar_no_vigente [OF assms(7) assms(6)])
qed

theorem reemision_registro_revoca_witness:
  "temporales bd1 num0 = Some \<lparr>nt_token = Some tok1, nt_fecha = 10\<rparr> \<and> tok_ts tok1 \<noteq> 50 \<and>
   generar_link cfg0 50 (Some ''591'') (Some ''700-00000'') bd1 = Inr (RedirigirWhatsApp, bd_r) \<and>
   numero_de_formulario ''591'' ''700-00000'' = num0 \<and>
   fst (votar cfg0 60 (Some tok1) bd_r) = EnlaceYaUsado"
proof -
  have h1: "temporales bd1 num0 = Some \<lparr>nt_token = Some tok1, nt_fecha = 10\<rparr>"
    by (simp add: bd1_def db_vacia_def)
  have h3: "tok_ts tok1 \<noteq> 50" by (simp add: tok1_def)
  have h5: "numero_de_formulario ''591'' ''700-00000'' = num0"
    by (simp add: numero_de_formulario_def Let_def py_remove_def py_strip_def py_isspace_def
        limpiar_numero_def nfkd_digitos_def py_isdigit_def num0_def)
  have h7: "limpiar_numero (td_numero (tok_datos tok1)) = num0"
    by (simp add: tok1_def num0_def limpiar_numero_def nfkd_digitos_def py_isdigit_def)
  have h8: "loads (secret_key cfg0) max_edad 60 tok1 = Inr (tok_datos tok1)"
    by (simp add: loads_def max_edad_def tok1_def cfg0_def)
  show ?thesis
    using reemision_registro_revoca [OF h1 _ h3 run_registro2 h5 h7 h8] h1 h3 h5 run_registro2
    by simp
qed

text \<open>C6 (functional, specification gap): a reissue within the same second as the
  stored token produces the identical token, so the earlier link stays valid.\<close>

theorem reemision_mismo_segundo:
  assumes "despachar cfg ahora n d = Inr (REnlaceEnviado, d', es)"
    and "T1 = dumps (secret_key cfg) ahora \<lparr>td_numero = n, td_dominio = dominio_emisor cfg\<rparr>"
  shows "token_vigente d' n T1"
  using despachar_reemite(1) [OF assms(1)] assms(2) by (simp add: token_vigente_def)

theorem reemision_mismo_segundo_witness:
  "despachar cfg0 10 num0 bd1 = Inr (REnlaceEnviado, bd1, [(num0, EnlaceVoto ''https://v.bo'' tok1)]) \<and>
   tok1 = dumps (secret_key cfg0) 10 \<lparr>td_numero = num0, td_dominio = dominio_emisor cfg0\<rparr> \<and>
   token_vigente bd1 num0 tok1"
proof -
  have h1: "despachar cfg0 10 num0 bd1 = Inr (REnlaceEnviado, bd1, [(num0, EnlaceVoto ''https://v.bo'' tok1)])"
    by (simp add: despachar_def Let_def cfg0_def bd1_def db_vacia_def tok1_def dumps_def
        dominio_emisor_def py_rstrip_def)
  have h2: "tok1 = dumps (secret_key cfg0) 10 \<lparr>td_numero = num0, td_dominio = dominio_emisor cfg0\<rparr>"
    by (simp add: tok1_def dumps_def cfg0_def dominio_emisor_def py_rstrip_def)
  show ?thesis using reemision_mismo_segundo [OF h1 h2] h1 h2 by simp
qed

text \<open>C7 (error): a token signed with the server's key and older than 600 seconds is
  always refused as expired, whatever the store holds.\<close>

theorem enlace_expirado:
  "tok_clave tk = secret_key cfg \<Longrightarrow> tok_ts tk + max_edad < ahora \<Longrightarrow>
   votar cfg ahora (Some tk) d = (EnlaceExpirado, [], None)"
  by (simp add: votar_def loads_def)

theorem enlace_expirado_witness:
  "tok_clave tok1 = secret_key cfg0 \<and> tok_ts tok1 + max_edad < 700 \<and>
   votar cfg0 700 (Some tok1) bd1 = (EnlaceExpirado, [], None)"
proof -
  have h1: "tok_clave tok1 = secret_key cfg0" by (simp add: tok1_def cfg0_def)
  have h2: "tok_ts tok1 + max_edad < 700" by (simp add: tok1_def max_edad_def)
  show ?thesis using enlace_expirado [OF h1 h2] h1 h2 by simp
qed

text \<open>C8 (error): a token whose signature does not verify under the server's key is
  refused as tampered, before the store is consulted.\<close>

theorem enlace_alterado:
  "tok_clave tk \<noteq> secret_key cfg \<Longrightarrow> votar cfg ahora (Some tk) d = (EnlaceAlterado, [], None)"
  by (simp add: votar_def loads_def)

theorem enlace_alterado_witness:
  "tok_clave (Token (tok_datos tok1) 10 ''x'') \<noteq> secret_key cfg0 \<and>
   votar cfg0 20 (Some (Token (tok_datos tok1) 10 ''x'')) bd1 = (EnlaceAlterado, [], None)"
proof -
  have h: "tok_clave (Token (tok_datos tok1) 10 ''x'') \<noteq> secret_key cfg0" by (simp add: cfg0_def)
  show ?thesis using enlace_alterado [OF h] h by simp
qed

text \<open>C9 (safety): a link visit grants a session for a number only with a token
  that is the one currently stored for that number, signed with the server's key, at
  most 600 seconds old, issued for the configured domain, and only if the number has
  not voted.\<close>

theorem sesion_requiere_token_vigente:
  assumes "votar cfg ahora tok d = (r, es, Some n)"
  shows "\<exists>tk. tok = Some tk \<and> token_vigente d n tk \<and> tok_clave tk = secret_key cfg \<and>
           tok_ts tk \<le> ahora \<and> ahora - tok_ts tk \<le> max_edad \<and>
           azure_domain cfg = Some (td_dominio (tok_datos tk)) \<and> n \<notin> dom (votos d)"
  using votar_grant [OF assms] by (auto simp: loads_Inr_iff)

theorem sesion_requiere_token_vigente_witness:
  "votar cfg0 20 (Some tok1) bd1 = (FormularioVoto num0 tok1, [], Some num0) \<and>
   token_vigente bd1 num0 tok1"
proof -
  obtain tk where "Some tok1 = Some tk" and "token_vigente bd1 num0 tk"
    using sesion_requiere_token_vigente [OF run_enlace] by blast
  then show ?thesis using run_enlace by simp
qed

text \<open>C10 (safety, divergence from the specification): if \<^verbatim>\<open>AZURE_DOMAIN\<close> is
  unset, or differs from the domain written into tokens (a trailing slash, which the
  issuing code strips and the checking code does not), no session is ever granted and
  no ballot can ever be cast.\<close>

theorem sin_dominio_sin_votos:
  assumes "alcanzable cfg s" and "azure_domain cfg \<noteq> Some (dominio_emisor cfg)"
  shows "sesiones s = {} \<and> votos (bd s) = Map.empty"
proof -
  have ok: "sistema_ok cfg s" using assms(1) by (rule alcanzable_ok)
  then have "sesiones s = {}" using assms(2) by (auto simp: sistema_ok_def)
  moreover have "dom (votos (bd s)) \<subseteq> sesiones s" using ok by (simp add: sistema_ok_def)
  ultimately show ?thesis by auto
qed

theorem sin_dominio_sin_votos_witness:
  "alcanzable cfg_barra inicial \<and> azure_domain cfg_barra \<noteq> Some (dominio_emisor cfg_barra) \<and>
   sesiones inicial = {}"
proof -
  have h1: "alcanzable cfg_barra inicial" by (rule alcanzable.inicio)
  have h2: "azure_domain cfg_barra \<noteq> Some (dominio_emisor cfg_barra)"
    by (simp add: cfg_barra_def cfg0_def dominio_emisor_def py_rstrip_def)
  show ?thesis using sin_dominio_sin_votos [OF h1 h2] h1 h2 by simp
qed

text \<open>C11 (concurrency, divergence from the specification): two submissions for one
  number that both pass their checks against the same store race to commit; the first
  commits, the second is rejected by the unique index with an uncaught
  \<^verbatim>\<open>IntegrityError\<close> (an HTTP 500, not the "already voted" answer the
  specification asks for), and the store keeps exactly the first ballot.\<close>

theorem carrera_doble_voto:
  assumes "preparar_voto cfg a1 p1 s1 d = Inr (n, v1)" and "preparar_voto cfg a2 p2 s2 d = Inr (n, v2)"
    and "confirmar_voto cfg n v1 s1 d = (VotoExitoso, d1, x)"
  shows "confirmar_voto cfg n v2 s2 d1 = (ErrorServidor IntegrityError, d1, s2) \<and> votos d1 n = Some v1"
proof -
  have "d1 = d\<lparr>votos := (votos d)(n \<mapsto> v1), temporales := (temporales d)(n := None)\<rparr>"
    using confirmar_voto_exito [OF assms(3)] by (simp add: commit_voto_Inr)
  then show ?thesis by (simp add: confirmar_voto_def commit_voto_def)
qed

theorem carrera_doble_voto_witness:
  "preparar_voto cfg0 30 pet0 (Some num0) bd1 = Inr (num0, voto0) \<and>
   confirmar_voto cfg0 num0 voto0 (Some num0) bd1 = (VotoExitoso, bd4, None) \<and>
   confirmar_voto cfg0 num0 voto0 (Some num0) bd4 = (ErrorServidor IntegrityError, bd4, Some num0) \<and>
   votos bd4 num0 = Some voto0"
  using carrera_doble_voto [OF run_preparar run_preparar run_confirmar] run_preparar run_confirmar
  by simp

text \<open>C12 (functional): a submission for a number that already voted changes nothing
  and is never answered as a success.\<close>

theorem segundo_voto_rechazado:
  assumes "limpiar_numero n \<in> dom (votos d)" and "enviar_voto cfg a p (Some n) d = (r, d', s')"
  shows "d' = d \<and> r \<noteq> VotoExitoso"
proof (cases "preparar_voto cfg a p (Some n) d")
  case (Inl e)
  with assms(2) preparar_voto_Inl [OF Inl] show ?thesis by (simp add: enviar_voto_def)
next
  case (Inr nv)
  then obtain m v where "preparar_voto cfg a p (Some n) d = Inr (m, v)" by (cases nv) auto
  with assms(1) show ?thesis using preparar_voto_Inr by fastforce
qed

theorem segundo_voto_rechazado_witness:
  "limpiar_numero num0 \<in> dom (votos bd4) \<and> fst (snd (enviar_voto cfg0 40 pet0 (Some num0) bd4)) = bd4"
proof -
  have h: "limpiar_numero num0 \<in> dom (votos bd4)"
    by (simp add: bd4_def num0_def limpiar_numero_def nfkd_digitos_def py_isdigit_def)
  obtain r d' s' where eq: "enviar_voto cfg0 40 pet0 (Some num0) bd4 = (r, d', s')"
    by (cases "enviar_voto cfg0 40 pet0 (Some num0) bd4") auto
  show ?thesis using segundo_voto_rechazado [OF h eq] h eq by simp
qed

text \<open>C13 (error): answering "S\<acute>i" to the control question without an identity
  document number is refused before the store is consulted, and nothing is written.\<close>

theorem falta_ci:
  assumes "p_referer p = None" and "s \<noteq> []"
    and "list_all truthy_opt (campos_requeridos (p_form p))"
    and "f_pregunta3 (p_form p) = Some respuesta_si" and "\<not> truthy_opt (f_ci (p_form p))"
  shows "enviar_voto cfg a p (Some s) d = (FaltaCI, d, Some s)"
  using assms by (simp add: enviar_voto_def preparar_voto_def Let_def)

theorem falta_ci_witness:
  "p_referer (pet0\<lparr>p_form := form_si\<rparr>) = None \<and> num0 \<noteq> [] \<and>
   list_all truthy_opt (campos_requeridos (p_form (pet0\<lparr>p_form := form_si\<rparr>))) \<and>
   f_pregunta3 (p_form (pet0\<lparr>p_form := form_si\<rparr>)) = Some respuesta_si \<and>
   \<not> truthy_opt (f_ci (p_form (pet0\<lparr>p_form := form_si\<rparr>))) \<and>
   enviar_voto cfg0 30 (pet0\<lparr>p_form := form_si\<rparr>) (Some num0) bd1 = (FaltaCI, bd1, Some num0)"
proof -
  have h1: "p_referer (pet0\<lparr>p_form := form_si\<rparr>) = None" by (simp add: pet0_def)
  have h2: "num0 \<noteq> []" by (simp add: num0_def)
  have h3: "list_all truthy_opt (campos_requeridos (p_form (pet0\<lparr>p_form := form_si\<rparr>)))"
    by (simp add: form_si_def form0_def campos_requeridos_def respuesta_si_def)
  have h4: "f_pregunta3 (p_form (pet0\<lparr>p_form := form_si\<rparr>)) = Some respuesta_si"
    by (simp add: form_si_def)
  have h5: "\<not> truthy_opt (f_ci (p_form (pet0\<lparr>p_form := form_si\<rparr>)))"
    by (simp add: form_si_def form0_def)
  show ?thesis using falta_ci [OF h1 h2 h3 h4 h5] h1 h2 h3 h4 h5 by simp
qed

text \<open>C14 (functional): a submission that passes every check commits when its values
  fit their columns: the ballot row is inserted, the pending authorization of the
  number is deleted, and the session grant is cleared.\<close>

theorem voto_exitoso:
  assumes "preparar_voto cfg a p ses d = Inr (n, v)" and "voto_cabe (motor cfg) n v"
  shows "enviar_voto cfg a p ses d =
           (VotoExitoso, d\<lparr>votos := (votos d)(n \<mapsto> v), temporales := (temporales d)(n := None)\<rparr>, None)"
proof -
  have "n \<notin> dom (votos d)" using preparar_voto_Inr [OF assms(1)] by blast
  with assms show ?thesis by (simp add: enviar_voto_def confirmar_voto_def commit_voto_def)
qed

theorem voto_exitoso_witness:
  "preparar_voto cfg0 30 pet0 (Some num0) bd1 = Inr (num0, voto0) \<and> voto_cabe (motor cfg0) num0 voto0 \<and>
   enviar_voto cfg0 30 pet0 (Some num0) bd1 = (VotoExitoso, bd4, None) \<and> temporales bd4 num0 = None"
proof -
  have h: "voto_cabe (motor cfg0) num0 voto0"
    by (simp add: voto_cabe_def cabe_texto_def cabe_entero_def bits_integer_def cfg0_def voto0_def num0_def)
  have "bd1\<lparr>votos := (votos bd1)(num0 \<mapsto> voto0), temporales := (temporales bd1)(num0 := None)\<rparr> = bd4"
    by (simp add: bd1_def bd4_def db_vacia_def)
  then show ?thesis using voto_exitoso [OF run_preparar h] run_preparar h by (simp add: bd4_def)
qed

text \<open>C15 (refinement): on a number that is not blocked, the counter update of the
  code implements one step of the specification's machine Unknown, Warned(n), Blocked.\<close>

theorem guardia_refina:
  assumes "\<not> (case b of None \<Rightarrow> False | Some bl \<Rightarrow> b_bloqueado bl)"
  shows "abs_guardia (Some (registrar_intento b)) = paso_guardia (abs_guardia b)"
  using assms by (cases b) (auto simp: abs_guardia_def)

theorem guardia_refina_witness:
  "\<not> (case Some \<lparr>b_intentos = 3, b_bloqueado = False\<rparr> of None \<Rightarrow> False | Some bl \<Rightarrow> b_bloqueado bl) \<and>
   abs_guardia (Some (registrar_intento (Some \<lparr>b_intentos = 3, b_bloqueado = False\<rparr>))) = Bloqueado"
proof -
  have h: "\<not> (case Some \<lparr>b_intentos = 3, b_bloqueado = False\<rparr> of None \<Rightarrow> False | Some bl \<Rightarrow> b_bloqueado bl)"
    by simp
  show ?thesis using guardia_refina [OF h] h by (simp add: abs_guardia_def)
qed

text \<open>C16 (functional): the lockout sequence of any unregistered sender whose
  canonical number fits the counter column and has no counter row yet: the first three
  messages are answered with warnings 1, 2, 3, the fourth with the lockout notice,
  which blocks the number; the fifth gets no reply and changes nothing.\<close>

theorem secuencia_avisos:
  assumes "canonico n" and "temporales d n = None" and "cabe_texto (motor cfg) 50 n" and "bloqueos d n = None"
  shows "let c = cuerpo_plano [(''from'', JStr n)];
       (r1, d1, es1) = whatsapp_webhook cfg t1 c d;
       (r2, d2, es2) = whatsapp_webhook cfg t2 c d1;
       (r3, d3, es3) = whatsapp_webhook cfg t3 c d2;
       (r4, d4, es4) = whatsapp_webhook cfg t4 c d3;
       (r5, d5, es5) = whatsapp_webhook cfg t5 c d4
   in es1 @ es2 @ es3 @ es4 = [(n, Advertencia 1), (n, Advertencia 2), (n, Advertencia 3), (n, Excedido)]
      \<and> bloqueos d4 n = Some \<lparr>b_intentos = 4, b_bloqueado = True\<rparr> \<and> r5 = RBloqueado \<and> d5 = d4 \<and> es5 = []"
  using assms
  by (simp add: cuerpo_plano_def webhook_remitente despachar_def Let_def aviso_intento_def)

theorem secuencia_avisos_witness:
  "canonico num0 \<and> temporales db_vacia num0 = None \<and> cabe_texto (motor cfg0) 50 num0 \<and> bloqueos db_vacia num0 = None \<and>
   (let c = cuerpo_plano [(''from'', JStr num0)];
       (r1, d1, es1) = whatsapp_webhook cfg0 1 c db_vacia;
       (r2, d2, es2) = whatsapp_webhook cfg0 2 c d1;
       (r3, d3, es3) = whatsapp_webhook cfg0 3 c d2;
       (r4, d4, es4) = whatsapp_webhook cfg0 4 c d3;
       (r5, d5, es5) = whatsapp_webhook cfg0 5 c d4
   in es1 @ es2 @ es3 @ es4 = [(num0, Advertencia 1), (num0, Advertencia 2), (num0, Advertencia 3), (num0, Excedido)]
      \<and> bloqueos d4 num0 = Some \<lparr>b_intentos = 4, b_bloqueado = True\<rparr> \<and> r5 = RBloqueado \<and> d5 = d4 \<and> es5 = [])"
proof -
  have h: "canonico num0" "temporales db_vacia num0 = None" "cabe_texto (motor cfg0) 50 num0"
    "bloqueos db_vacia num0 = None"
    by (simp_all add: canonico_def num0_def py_isdigit_def db_vacia_def cabe_texto_def cfg0_def)
  show ?thesis using secuencia_avisos [OF h, of 1 2 3 4 5] h by simp
qed


text \<open>C18 (functional): phone canonicalisation is idempotent.\<close>

theorem limpiar_idempotente: "limpiar_numero (limpiar_numero s) = limpiar_numero s"
  by (rule canonico_fixpoint [OF limpiar_numero_canonico])



text \<open>C20 (ordering, divergence): two deliveries from the same unregistered sender
  whose counter row exists and is not blocked, handled concurrently so that both read
  the row before either commits, both commit, and the row ends with one more attempt,
  not two: the second message is not counted.  Run one after the other, the same two
  messages count twice (theory \<open>Carreras\<close>, \<open>despachar_fases\<close>).\<close>

theorem contador_carrera:
  assumes "bloqueos d n = Some b" and "\<not> b_bloqueado b"
  shows "\<exists>d1. escribir_contador m n (the (leer_contador n d)) d = Inr d1 \<and>
             escribir_contador m n (the (leer_contador n d)) d1 = Inr d1 \<and>
             bloqueos d1 n = Some (b\<lparr>b_intentos := b_intentos b + 1,
                                     b_bloqueado := (4 \<le> b_intentos b + 1)\<rparr>)"
  using assms by (auto simp: leer_contador_def escribir_contador_def Let_def)

theorem contador_carrera_witness:
  "bloqueos bdw num0 = Some \<lparr>b_intentos = 1, b_bloqueado = False\<rparr> \<and>
   \<not> b_bloqueado \<lparr>b_intentos = 1, b_bloqueado = False\<rparr> \<and>
   (\<exists>d1. escribir_contador PostgreSQL num0 (the (leer_contador num0 bdw)) bdw = Inr d1 \<and>
         escribir_contador PostgreSQL num0 (the (leer_contador num0 bdw)) d1 = Inr d1 \<and>
         bloqueos d1 num0 = Some \<lparr>b_intentos = 2, b_bloqueado = False\<rparr>)"
proof -
  have h: "bloqueos bdw num0 = Some \<lparr>b_intentos = 1, b_bloqueado = False\<rparr>"
    "\<not> b_bloqueado \<lparr>b_intentos = 1, b_bloqueado = False\<rparr>"
    by (simp_all add: bdw_def)
  show ?thesis using contador_carrera [OF h, of PostgreSQL] h by simp
qed

text \<open>C21 (invariant): in every reachable state every abuse counter holds between 1
  and 4 attempts and is blocked exactly at 4.\<close>

theorem bloqueos_bien_formados:
  assumes "alcanzable cfg s" and "bloqueos (bd s) n = Some b"
  shows "1 \<le> b_intentos b \<and> b_intentos b \<le> 4 \<and> (b_bloqueado b \<longleftrightarrow> b_intentos b = 4)"
  using alcanzable_ok [OF assms(1)] assms(2)
  by (auto simp: sistema_ok_def bd_ok_def bloqueos_ok_def bloqueo_ok_def)

theorem bloqueos_bien_formados_witness:
  "alcanzable cfg0 ew \<and> bloqueos (bd ew) num0 = Some \<lparr>b_intentos = 1, b_bloqueado = False\<rparr>"
proof -
  have h: "bloqueos (bd ew) num0 = Some \<lparr>b_intentos = 1, b_bloqueado = False\<rparr>"
    by (simp add: ew_def bdw_def)
  have "1 \<le> b_intentos \<lparr>b_intentos = 1, b_bloqueado = False\<rparr>"
    using bloqueos_bien_formados [OF run_ew h] by blast
  with h run_ew show ?thesis by simp
qed



text \<open>C23 (invariant): in every reachable state a number that voted has no pending
  authorization, so no link of it can be used again.\<close>

theorem votante_sin_pendiente:
  "alcanzable cfg s \<Longrightarrow> votos (bd s) n \<noteq> None \<Longrightarrow> temporales (bd s) n = None"
  using alcanzable_ok [of cfg s] by (auto simp: sistema_ok_def bd_ok_def)

theorem votante_sin_pendiente_witness:
  "alcanzable cfg0 e4 \<and> votos (bd e4) num0 \<noteq> None \<and> temporales (bd e4) num0 = None"
  using votante_sin_pendiente [OF run_alcanzable] run_alcanzable run_e4(1) by simp



text \<open>C25 (bounds): an identity document number outside the signed 64-bit range of
  \<^verbatim>\<open>db.BigInteger\<close> makes the ballot commit fail on either database.\<close>

theorem ci_fuera_de_rango:
  assumes "v_ci v = Some c" and "sint (word_of_int c :: 64 word) \<noteq> c" and "n \<notin> dom (votos d)"
  shows "commit_voto m n v d = Inl DataError"
proof -
  have "\<not> voto_cabe m n v" using assms(1,2) cabe_entero_sint [of c] by (simp add: voto_cabe_def)
  with assms(3) show ?thesis by (simp add: commit_voto_def)
qed

theorem ci_fuera_de_rango_witness:
  "v_ci (voto0\<lparr>v_ci := Some (2 ^ 63)\<rparr>) = Some (2 ^ 63) \<and>
   sint (word_of_int (2 ^ 63) :: 64 word) \<noteq> 2 ^ 63 \<and> num0 \<notin> dom (votos bd1) \<and>
   commit_voto SQLite num0 (voto0\<lparr>v_ci := Some (2 ^ 63)\<rparr>) bd1 = Inl DataError"
proof -
  have h1: "v_ci (voto0\<lparr>v_ci := Some (2 ^ 63)\<rparr>) = Some (2 ^ 63)" by simp
  have h2: "sint (word_of_int (2 ^ 63) :: 64 word) \<noteq> 2 ^ 63"
    by (simp add: sint_sbintrunc' signed_take_bit_int_eq_self_iff)
  have h3: "num0 \<notin> dom (votos bd1)" by (simp add: bd1_def db_vacia_def)
  show ?thesis using ci_fuera_de_rango [OF h1 h2 h3] h1 h2 h3 by simp
qed

text \<open>C26 (frame): a webhook delivery sends at most one message and never writes
  the ballot table or the processed-message table.\<close>

theorem webhook_un_envio:
  assumes "whatsapp_webhook cfg ahora c d = (r, d', es)"
  shows "length es \<le> 1 \<and> votos d' = votos d \<and> procesados d' = procesados d"
  using whatsapp_webhook_cases [OF assms] despachar_frame(1,2,5) by fastforce

theorem webhook_un_envio_witness:
  "length [(num0, Advertencia 1)] \<le> 1 \<and> votos bdw = votos db_vacia \<and> procesados bdw = procesados db_vacia"
  by (rule webhook_un_envio [OF run_webhook_7])

text \<open>C27 (functional): registration refuses a number that already voted and writes
  nothing, so a voter can never obtain a new pending authorization.\<close>

theorem registro_rechaza_votante:
  "numero_de_formulario pv nv \<in> dom (votos d) \<Longrightarrow> pv \<noteq> [] \<Longrightarrow> nv \<noteq> [] \<Longrightarrow>
   generar_link cfg ahora (Some pv) (Some nv) d = Inr (YaVoto, d)"
  by (simp add: generar_link_def)

theorem registro_rechaza_votante_witness:
  "numero_de_formulario ''591'' ''700-00000'' \<in> dom (votos bd4) \<and>
   generar_link cfg0 50 (Some ''591'') (Some ''700-00000'') bd4 = Inr (YaVoto, bd4)"
proof -
  have h: "numero_de_formulario ''591'' ''700-00000'' \<in> dom (votos bd4)"
    by (simp add: numero_de_formulario_def Let_def py_remove_def py_strip_def py_isspace_def
        limpiar_numero_def nfkd_digitos_def py_isdigit_def bd4_def num0_def)
  show ?thesis using registro_rechaza_votante [OF h] h by simp
qed

text \<open>C28 (functional, divergence from the specification): the ballot form checks
  neither the age of the link nor the pending authorization; a session grant keeps
  admitting the same submission at any later second.\<close>

theorem sesion_sin_caducidad:
  "preparar_voto cfg a p ses d = Inr (n, v) \<Longrightarrow> preparar_voto cfg a' p ses d = Inr (n, v\<lparr>v_fecha := a'\<rparr>)"
  by (auto simp: preparar_voto_def Let_def split: if_splits option.splits)

theorem sesion_sin_caducidad_witness:
  "preparar_voto cfg0 30 pet0 (Some num0) bd1 = Inr (num0, voto0) \<and>
   preparar_voto cfg0 100000 pet0 (Some num0) bd1 = Inr (num0, voto0\<lparr>v_fecha := 100000\<rparr>)"
  using sesion_sin_caducidad [OF run_preparar] run_preparar by simp

text \<open>C29 (invariant): the candidate cache is loaded at most once: after the first
  call of \<^verbatim>\<open>asegurar_candidatos_cargados\<close>, every later call returns the same
  cache whatever the file holds by then; a failed load is never retried.\<close>

theorem candidatos_una_carga:
  "asegurar_candidatos_cargados a' (asegurar_candidatos_cargados a c) = asegurar_candidatos_cargados a c"
  using cargar_candidatos_fin [of a] by (auto simp: asegurar_candidatos_cargados_def)

text \<open>C30 (refinement): with every required column present, the index
  \<^verbatim>\<open>by_id_municipio\<close> maps an id to the items of exactly the kept rows with that id,
  in file order, and to nothing when there is none; this holds also when the reading
  stopped with an exception, for the rows read before it.\<close>

theorem candidatos_por_municipio:
  assumes "set requeridos_candidatos \<subseteq> set hs"
  shows "by_id_municipio (cargar_candidatos_desde_csv (Archivo hs filas f)) k =
     (let l = map (item_de hs) (filter (\<lambda>vs. fila_valida hs vs \<and> campo_csv hs vs ''id_municipio'' = k) filas)
      in if l = [] then None else Some l)"
  using assms by (simp add: cargar_columnas_completas fold_cargar_by_id cache_vacia_def)

theorem candidatos_por_municipio_witness:
  "set requeridos_candidatos \<subseteq> set requeridos_candidatos \<and>
   by_id_municipio (cargar_candidatos_desde_csv (Archivo requeridos_candidatos filas_cache None)) ''10'' =
     Some (map (item_de requeridos_candidatos) (take 2 filas_cache))"
proof -
  have "by_id_municipio (cargar_candidatos_desde_csv (Archivo requeridos_candidatos filas_cache None)) ''10'' =
     (let l = map (item_de requeridos_candidatos) (filter (\<lambda>vs. fila_valida requeridos_candidatos vs \<and>
        campo_csv requeridos_candidatos vs ''id_municipio'' = ''10'') filas_cache)
      in if l = [] then None else Some l)"
    by (rule candidatos_por_municipio) simp
  moreover have "filter (\<lambda>vs. fila_valida requeridos_candidatos vs \<and>
        campo_csv requeridos_candidatos vs ''id_municipio'' = ''10'') filas_cache = take 2 filas_cache"
    using valida_cache
    by (simp add: filas_cache_def campo_csv_def fila_get_def dict_fila_def requeridos_candidatos_def py_strip_def py_isspace_def)
  ultimately show ?thesis by (simp add: filas_cache_def)
qed

text \<open>C31 (invariant): each list of \<^verbatim>\<open>id_by_municipio\<close> is non-empty, without
  repetitions, and holds exactly the ids of the kept rows whose normalised
  municipality name is its key.\<close>

theorem municipio_ids_distintos:
  assumes "set requeridos_candidatos \<subseteq> set hs"
    and "id_by_municipio (cargar_candidatos_desde_csv (Archivo hs filas f)) m = Some l"
  shows "distinct l \<and> l \<noteq> [] \<and>
         set l = {campo_csv hs vs ''id_municipio'' |vs. vs \<in> set filas \<and> fila_valida hs vs
                    \<and> norm_text (fila_get hs vs ''municipio'') = m}"
proof -
  have l: "id_by_municipio (fold (cargar_fila hs) filas cache_vacia) m = Some l"
    using assms by (simp add: cargar_columnas_completas)
  have "distinct l \<and> l \<noteq> []"
    by (rule fold_cargar_ids_distinct [OF _ l]) (simp add: cache_vacia_def)
  moreover have "set l = {campo_csv hs vs ''id_municipio'' |vs. vs \<in> set filas \<and> fila_valida hs vs
                    \<and> norm_text (fila_get hs vs ''municipio'') = m}"
    using fold_cargar_ids [of hs filas cache_vacia m] l by (simp add: cache_vacia_def)
  ultimately show ?thesis by blast
qed

theorem municipio_ids_distintos_witness:
  "set requeridos_candidatos \<subseteq> set requeridos_candidatos \<and>
   id_by_municipio (cargar_candidatos_desde_csv (Archivo requeridos_candidatos filas_cache None))
     (norm_text (Some ''Sucre'')) = Some [''10'', ''11''] \<and>
   set [''10'', ''11''] = {campo_csv requeridos_candidatos vs ''id_municipio'' |vs. vs \<in> set filas_cache
       \<and> fila_valida requeridos_candidatos vs \<and> norm_text (fila_get requeridos_candidatos vs ''municipio'') = norm_text (Some ''Sucre'')}"
proof -
  have ids: "id_by_municipio (cargar_candidatos_desde_csv (Archivo requeridos_candidatos filas_cache None))
     (norm_text (Some ''Sucre'')) = Some [''10'', ''11'']"
    using valida_cache norm_sucre
    by (simp add: cargar_columnas_completas cargar_fila_ids cache_vacia_def filas_cache_def campo_csv_def fila_get_def
          dict_fila_def requeridos_candidatos_def py_strip_def py_isspace_def)
  show ?thesis
    using municipio_ids_distintos [OF _ ids] ids by simp
qed

text \<open>C32 (functional): \<^verbatim>\<open>_norm_text\<close> ignores letter case: lower-casing the
  input does not change the normalised key.\<close>

theorem norm_text_lower: "norm_text (Some (map py_lower s)) = norm_text (Some s)"
  by (simp add: norm_text_Some py_strip_map_lower comp_def norm_char_lower)

text \<open>C33 (functional, error path): \<^verbatim>\<open>api_recintos\<close> answers with JSON exactly
  when the referer is absent, empty or contains the expected domain, and the precinct
  file was read to its end with every required column; the answer then has one record
  per row.  A read error after some rows gives the 500 page, never a partial list.\<close>

theorem recintos_todo_o_nada:
  "api_recintos cfg ref a = RecJson ds \<longleftrightarrow>
     (case ref of None \<Rightarrow> True | Some r \<Rightarrow> r = [] \<or> py_in (dominio_permitido cfg) r) \<and>
     (\<exists>hs filas. a = Archivo hs filas None \<and> set requeridos_recintos \<subseteq> set hs \<and> ds = map (recinto_de hs) filas)"
  by (auto simp: api_recintos_def leer_def fin_lectura_def Let_def
           split: option.splits archivo.splits sum.splits if_splits)

theorem recintos_todo_o_nada_witness:
  "api_recintos cfg0 None (Archivo requeridos_recintos filas_recintos (Some UnicodeDecodeError)) = RecErrorProcesando \<and>
   api_recintos cfg0 (Some ''https://v.bo/votar'') (Archivo requeridos_recintos filas_recintos None)
     = RecJson (map (recinto_de requeridos_recintos) filas_recintos)"
proof -
  have "py_in (dominio_permitido cfg0) ''https://v.bo/votar''"
    by (simp add: py_in_def dominio_permitido_def cfg0_def sublist_def) (metis append.left_neutral append_Cons)
  then have "api_recintos cfg0 (Some ''https://v.bo/votar'') (Archivo requeridos_recintos filas_recintos None)
     = RecJson (map (recinto_de requeridos_recintos) filas_recintos)"
    using recintos_todo_o_nada [of cfg0 "Some ''https://v.bo/votar''"] by simp
  moreover have "api_recintos cfg0 None (Archivo requeridos_recintos filas_recintos (Some UnicodeDecodeError)) = RecErrorProcesando"
    by (simp add: api_recintos_def leer_def fin_lectura_def)
  ultimately show ?thesis by simp
qed

text \<open>C34 (functional): \<^verbatim>\<open>api_candidatos\<close> returns exactly the rows of the
  candidate file whose department, province and municipality match, after strip and
  lower-case, the first precinct row with the requested id, and whose office is
  \<^verbatim>\<open>alcalde\<close>, in file order.\<close>

theorem candidatos_exactos:
  assumes "api_candidatos (Some i) (Archivo hr fr er) (Archivo hc fc ec) = Inr cs"
    and "i \<noteq> []" and "buscar_municipio hr er i fr = Inr (Some (d, p, m))" and "m \<noteq> []"
  shows "map Inr cs = map (candidato_de hc) (filter (\<lambda>vs. es_alcalde hc vs d p m = Inr True) fc)"
proof -
  have "filtrar_candidatos hc ec d p m fc = Inr cs"
    using assms by (simp add: api_candidatos_def leer_def)
  then show ?thesis by (rule filtrar_candidatos_Inr)
qed

theorem candidatos_exactos_witness:
  "api_candidatos (Some ''10'') (Archivo requeridos_recintos filas_recintos None) (Archivo cab_candidatos filas_candidatos None)
     = Inr [\<lparr>ca_id_nombre_completo = Some ''7'', ca_nombre_completo = Some ''Ana'', ca_organizacion_politica = None,
             ca_id_organizacion_politica = None, ca_id_cargo = None, ca_cargo = Some ''Alcalde''\<rparr>] \<and>
   map Inr [\<lparr>ca_id_nombre_completo = Some ''7'', ca_nombre_completo = Some ''Ana'', ca_organizacion_politica = None,
             ca_id_organizacion_politica = None, ca_id_cargo = None, ca_cargo = Some ''Alcalde''\<rparr>]
     = map (candidato_de cab_candidatos) [hd filas_candidatos]"
proof -
  have api: "api_candidatos (Some ''10'') (Archivo requeridos_recintos filas_recintos None) (Archivo cab_candidatos filas_candidatos None)
     = Inr [\<lparr>ca_id_nombre_completo = Some ''7'', ca_nombre_completo = Some ''Ana'', ca_organizacion_politica = None,
             ca_id_organizacion_politica = None, ca_id_cargo = None, ca_cargo = Some ''Alcalde''\<rparr>]"
    using buscar_recintos
    by (simp add: api_candidatos_def leer_def fin_lectura_def filas_candidatos_def cab_candidatos_def es_alcalde_def
          candidato_de_def fila_idx_def campo_min_def dict_fila_def py_strip_def py_isspace_def py_lower_def char_of_nat_eq)
  show ?thesis
    using candidatos_exactos [OF api _ buscar_recintos] alcalde_ana api by simp
qed

text \<open>C35 (error path, divergence): the cache loader and \<^verbatim>\<open>api_candidatos\<close> read
  the same candidate file with different column sets.  A file that has every column
  the loader requires but no \<^verbatim>\<open>departamento\<close> column makes the endpoint raise
  \<^verbatim>\<open>KeyError\<close> (an HTTP 500) for every municipality it finds.\<close>

theorem candidatos_sin_departamento:
  assumes "buscar_municipio hr er i fr = Inr (Some (d, p, m))" and "m \<noteq> []" and "i \<noteq> []"
    and "''departamento'' \<notin> set hc" and "fc \<noteq> []"
  shows "api_candidatos (Some i) (Archivo hr fr er) (Archivo hc fc ec) = Inl KeyError"
proof -
  obtain vs fs where "fc = vs # fs" using assms(5) by (cases fc) auto
  then show ?thesis
    using assms by (simp add: api_candidatos_def leer_def es_alcalde_def campo_min_ausente)
qed

theorem candidatos_sin_departamento_witness:
  "loaded (cargar_candidatos_desde_csv (Archivo requeridos_candidatos filas_cache None)) \<and>
   ''departamento'' \<notin> set requeridos_candidatos \<and>
   api_candidatos (Some ''10'') (Archivo requeridos_recintos filas_recintos None)
     (Archivo requeridos_candidatos filas_cache None) = Inl KeyError"
proof -
  have "''departamento'' \<notin> set requeridos_candidatos" by (simp add: requeridos_candidatos_def)
  moreover have "loaded (cargar_candidatos_desde_csv (Archivo requeridos_candidatos filas_cache None))"
    by (simp add: cargar_candidatos_desde_csv_def Let_def)
  ultimately show ?thesis
    using candidatos_sin_departamento [OF buscar_recintos _ _ _, of requeridos_candidatos filas_cache None]
    by (simp add: filas_cache_def)
qed


text \<open>C36 (safety, divergence): a block is permanent.  Along any sequence of steps
  the blocked counter row of a number stays as it is, and no webhook delivery sends
  anything to that number, even after it registers through \<^verbatim>\<open>generar_link\<close>
  (the blocked check of line 352 comes before the authorization lookup).\<close>

theorem bloqueo_permanente:
  assumes "rtranclp (paso cfg) s t" and "bloqueos (bd s) n = Some b" and "b_bloqueado b"
  shows "bloqueos (bd t) n = Some b \<and>
         (\<forall>a c r d' es. whatsapp_webhook cfg a c (bd t) = (r, d', es) \<longrightarrow> n \<notin> fst ` set es)"
proof -
  have t: "bloqueos (bd t) n = Some b" using pasos_bloqueo [OF assms] .
  show ?thesis using t webhook_bloqueado_otro [OF t assms(3)] by blast
qed

theorem bloqueo_permanente_witness:
  "rtranclp (paso cfg0) eb (eb\<lparr>bd := bd1\<lparr>bloqueos := [num0 \<mapsto> bloqueado4]\<rparr>\<rparr>) \<and>
   bloqueos (bd eb) num0 = Some bloqueado4 \<and> b_bloqueado bloqueado4 \<and>
   temporales (bd (eb\<lparr>bd := bd1\<lparr>bloqueos := [num0 \<mapsto> bloqueado4]\<rparr>\<rparr>)) num0 \<noteq> None \<and>
   bloqueos (bd (eb\<lparr>bd := bd1\<lparr>bloqueos := [num0 \<mapsto> bloqueado4]\<rparr>\<rparr>)) num0 = Some bloqueado4"
proof -
  have st: "paso cfg0 eb (eb\<lparr>bd := bd1\<lparr>bloqueos := [num0 \<mapsto> bloqueado4]\<rparr>\<rparr>)"
    using paso.registro [OF run_registro_bloqueado] .
  then have r: "rtranclp (paso cfg0) eb (eb\<lparr>bd := bd1\<lparr>bloqueos := [num0 \<mapsto> bloqueado4]\<rparr>\<rparr>)" by simp
  have h: "bloqueos (bd eb) num0 = Some bloqueado4" "b_bloqueado bloqueado4"
    by (simp_all add: eb_def inicial_def bloqueado4_def)
  show ?thesis using bloqueo_permanente [OF r h] r h by (simp add: bd1_def)
qed






text \<open>C40 (liveness): a sender that is not registered, whose canonical number fits
  the counter column, and whose counter row is well formed, is blocked after at most
  four messages: four deliveries of a message from it leave its counter row blocked,
  whatever its count was.\<close>

theorem bloqueo_tras_cuatro:
  assumes "canonico n" and "temporales d n = None" and "cabe_texto (motor cfg) 50 n"
    and "guardia_ok (bloqueos d n)"
  shows "\<exists>bl. bloqueos (((\<lambda>d. fst (snd (whatsapp_webhook cfg t (cuerpo_plano [(''from'', JStr n)]) d))) ^^ 4) d) n
           = Some bl \<and> b_bloqueado bl"
proof -
  let ?f = "\<lambda>d. fst (snd (whatsapp_webhook cfg t (cuerpo_plano [(''from'', JStr n)]) d))"
  have paso: "temporales (?f d) n = None \<and> guardia_ok (bloqueos (?f d) n)
                \<and> intentos_restantes (bloqueos (?f d) n) = intentos_restantes (bloqueos d n) - 1"
    if t0: "temporales d n = None" and g0: "guardia_ok (bloqueos d n)" for d
  proof -
    obtain r d' es where "despachar cfg t n d = Inr (r, d', es)" "temporales d' n = None"
      "guardia_ok (bloqueos d' n)" "intentos_restantes (bloqueos d' n) = intentos_restantes (bloqueos d n) - 1"
      using despachar_no_registrado [OF t0 assms(3) g0] by blast
    then show ?thesis using webhook_remitente [OF assms(1)] by (simp add: cuerpo_plano_def)
  qed
  have "temporales ((?f ^^ k) d) n = None \<and> guardia_ok (bloqueos ((?f ^^ k) d) n)
          \<and> intentos_restantes (bloqueos ((?f ^^ k) d) n) = intentos_restantes (bloqueos d n) - k" for k
  proof (induction k)
    case 0
    then show ?case using assms(2,4) by simp
  next
    case (Suc k)
    then show ?case using paso [of "(?f ^^ k) d"] by simp
  qed
  moreover have "intentos_restantes (bloqueos d n) \<le> 4"
    using assms(4) by (auto simp: intentos_restantes_def guardia_ok_def bloqueo_ok_def split: option.splits)
  ultimately have "guardia_ok (bloqueos ((?f ^^ 4) d) n) \<and> intentos_restantes (bloqueos ((?f ^^ 4) d) n) = 0"
    by (metis diff_is_0_eq)
  then show ?thesis using guardia_agotada by blast
qed

theorem bloqueo_tras_cuatro_witness:
  "canonico num0 \<and> temporales db_vacia num0 = None \<and> cabe_texto (motor cfg0) 50 num0 \<and>
   guardia_ok (bloqueos db_vacia num0) \<and>
   (\<exists>bl. bloqueos (((\<lambda>d. fst (snd (whatsapp_webhook cfg0 7 (cuerpo_plano [(''from'', JStr num0)]) d))) ^^ 4) db_vacia) num0
           = Some bl \<and> b_bloqueado bl)"
proof -
  have h: "canonico num0" "temporales db_vacia num0 = None" "cabe_texto (motor cfg0) 50 num0"
    "guardia_ok (bloqueos db_vacia num0)"
    by (simp_all add: canonico_def num0_def py_isdigit_def db_vacia_def cabe_texto_def cfg0_def guardia_ok_def)
  show ?thesis using bloqueo_tras_cuatro [OF h] h by simp
qed

end
